theory Spec2Isabelle
  imports Complex_Main "HOL-Library.Signed_Division"
begin

section \<open>The image-source shoebox room simulator of saf_reverb_internal.c\<close>

text \<open>
  Conventions of the embedding.
  \<^item> A C \<^verbatim>\<open>float\<close> is a real number. In the lattice generator, the encoder and the
    absorption module its operations are the real ones: rounding, infinities and NaN are
    outside the model there. The inputs of the worked runs below are dyadic rationals,
    exact in single precision, chosen so that the comparisons and casts of the program
    come out the same in single precision.
  \<^item> In the renderer, where float expressions become a buffer length and write indices,
    every float operation is the real operation followed by rounding to single precision
    (\<open>float_round\<close>), and every cast to \<^verbatim>\<open>int\<close> and every \<^verbatim>\<open>int\<close> addition checks the
    32-bit range. NaN stays outside the model.
  \<^item> A C \<^verbatim>\<open>int\<close> is an \<open>int\<close>; counts and sizes that the program never makes negative
    (\<^verbatim>\<open>numImageSources\<close>, \<^verbatim>\<open>nChannels\<close>, \<^verbatim>\<open>nBands\<close>, array indices) are \<open>nat\<close>.
    Outside the renderer signed overflow is outside the model.
  \<^item> A heap array is a list. An opaque handle (\<^verbatim>\<open>void*\<close>) to an echogram is the
    echogram itself: each workspace owns its echograms and nothing aliases them.
  \<^item> A function that mutates the workspace returns the new workspace.
\<close>

subsection \<open>C arithmetic\<close>

type_synonym c_float = real

text \<open>The cast \<^verbatim>\<open>(int)v\<close> of a float: truncation towards zero.\<close>

definition int_of_float :: "c_float \<Rightarrow> int" where
  "int_of_float v = (if 0 \<le> v then \<lfloor>v\<rfloor> else \<lceil>v\<rceil>)"

text \<open>
  \<^verbatim>\<open>powf(b, e)\<close>: for an integral exponent the repeated product (any base, so that
  \<^verbatim>\<open>powf(-1.0f, i)\<close> is the sign \<open>(-1)^i\<close>), otherwise \<open>exp (e * ln b)\<close>. Where C
  returns an infinity or NaN (zero base with negative exponent, negative base with a
  fractional exponent) the value is outside the model.
\<close>

definition powf :: "c_float \<Rightarrow> c_float \<Rightarrow> c_float" where
  "powf b e = (if e = of_int \<lfloor>e\<rfloor> then b powi \<lfloor>e\<rfloor> else b powr e)"

definition sqrtf :: "c_float \<Rightarrow> c_float" where
  "sqrtf v = sqrt v"

definition ceilf :: "c_float \<Rightarrow> c_float" where
  "ceilf v = of_int \<lceil>v\<rceil>"

definition floorf :: "c_float \<Rightarrow> c_float" where
  "floorf v = of_int \<lfloor>v\<rfloor>"

text \<open>
  \<^verbatim>\<open>realloc1d(p, n)\<close>: the first cells keep their content; the content of new cells is
  indeterminate in C and \<open>fill\<close> here. Every caller below overwrites all cells it reads
  later.
\<close>

definition realloc1d :: "'a list \<Rightarrow> nat \<Rightarrow> 'a \<Rightarrow> 'a list" where
  "realloc1d p n fill = take n p @ replicate (n - length p) fill"

text \<open>\<^verbatim>\<open>realloc2d(p, n, m)\<close>: \<open>n\<close> rows of \<open>m\<close> cells, with the same convention.\<close>

definition realloc2d :: "'a list list \<Rightarrow> nat \<Rightarrow> nat \<Rightarrow> 'a \<Rightarrow> 'a list list" where
  "realloc2d p n m fill =
     realloc1d (map (\<lambda>row. realloc1d row m fill) p) n (replicate m fill)"

text \<open>\<^verbatim>\<open>memcpy(dst, src, n cells)\<close> on arrays of cells (or of rows).\<close>

definition memcpy :: "'a list \<Rightarrow> 'a list \<Rightarrow> nat \<Rightarrow> 'a list" where
  "memcpy dst source n = take n source @ drop n dst"

subsection \<open>Single-precision arithmetic\<close>

text \<open>
  IEEE 754 binary32 with the default rounding: the result of an operation is the exact
  result rounded to the nearest single-precision number, a tie going to the even
  significand, each operation rounded on its own (no fused multiply-add and no wider
  intermediate precision).

  The binade of a magnitude \<open>a\<close> is the exponent \<open>e\<close> with \<open>2^e \<le> a < 2^(e+1)\<close>, kept in
  the exponent range -126 .. 127 of the format: the search starts at -126 and gives up
  at 127. Below \<open>2^-126\<close> lie the subnormal numbers, which have the spacing of the lowest
  binade.
\<close>

fun float_exponent_from :: "nat \<Rightarrow> int \<Rightarrow> real \<Rightarrow> int" where
  "float_exponent_from 0 e a = e"
| "float_exponent_from (Suc n) e a =
     (if a < 2 powi (e + 1) then e else float_exponent_from n (e + 1) a)"

definition float_exponent :: "real \<Rightarrow> int" where
  "float_exponent x = float_exponent_from 253 (- 126) \<bar>x\<bar>"

text \<open>Rounding to the nearest integer, a tie going to the even one.\<close>

definition round_even :: "real \<Rightarrow> int" where
  "round_even x =
     (if x - of_int \<lfloor>x\<rfloor> < 1 / 2 then \<lfloor>x\<rfloor>
      else if 1 / 2 < x - of_int \<lfloor>x\<rfloor> then \<lfloor>x\<rfloor> + 1
      else if even \<lfloor>x\<rfloor> then \<lfloor>x\<rfloor> else \<lfloor>x\<rfloor> + 1)"

text \<open>
  Rounding to single precision: the numbers of the binade \<open>e\<close> are the multiples of
  \<open>2^(e-23)\<close> (24 significant bits), and \<open>x\<close> goes to the nearest of them. A result of
  magnitude \<open>2^128\<close> or more stands for an infinity of C; every such result below feeds a
  cast to \<^verbatim>\<open>int\<close>, which is undefined for it, or \<open>float_div\<close>, which reports it.
\<close>

definition float_round :: "real \<Rightarrow> c_float" where
  "float_round x =
     of_int (round_even (x / 2 powi (float_exponent x - 23))) * 2 powi (float_exponent x - 23)"

definition float_mul :: "c_float \<Rightarrow> c_float \<Rightarrow> c_float" where
  "float_mul x y = float_round (x * y)"

definition float_add :: "c_float \<Rightarrow> c_float \<Rightarrow> c_float" where
  "float_add x y = float_round (x + y)"

text \<open>The conversion \<^verbatim>\<open>(float)n\<close> of an \<^verbatim>\<open>int\<close>.\<close>

definition int_to_float :: "int \<Rightarrow> c_float" where
  "int_to_float n = float_round (of_int n)"

text \<open>
  A float that is stored without being cast: a number, or an infinity or NaN. The
  division by zero and the quotient beyond the largest float are not finite.
\<close>

datatype c_float_ext = Finite c_float | NotFinite

definition float_div :: "c_float \<Rightarrow> c_float \<Rightarrow> c_float_ext" where
  "float_div x y =
     (if y = 0 \<or> 2 powi 128 \<le> \<bar>float_round (x / y)\<bar> then NotFinite
      else Finite (float_round (x / y)))"

text \<open>
  What C leaves undefined is an error value: an access outside an allocated block, the
  cast \<^verbatim>\<open>(int)v\<close> of a float whose integral part is not a 32-bit \<^verbatim>\<open>int\<close>, and an \<^verbatim>\<open>int\<close>
  addition that leaves the 32-bit range.
\<close>

datatype error = OutOfBounds | IntOverflow

definition cast_int :: "c_float \<Rightarrow> error + int" where
  "cast_int v =
     (if - (2 ^ 31) \<le> int_of_float v \<and> int_of_float v < 2 ^ 31 then Inr (int_of_float v)
      else Inl IntOverflow)"

definition int_add :: "int \<Rightarrow> int \<Rightarrow> error + int" where
  "int_add a b =
     (if - (2 ^ 31) \<le> a + b \<and> a + b < 2 ^ 31 then Inr (a + b) else Inl IntOverflow)"

subsection \<open>Data model\<close>

text \<open>\<^verbatim>\<open>ims_pos_xyz\<close>: a union of \<^verbatim>\<open>struct {float x, y, z;}\<close> and \<^verbatim>\<open>float v[3]\<close>.\<close>

datatype ims_pos_xyz = Pos (pos_x: c_float) (pos_y: c_float) (pos_z: c_float)

record echogram_data =
  ec_numImageSources :: nat
  ec_nChannels :: nat
  ec_value :: "c_float list list"
  ec_time :: "c_float list"
  ec_order :: "(int \<times> int \<times> int) list"
  ec_coords :: "ims_pos_xyz list"
  ec_sortedIdx :: "nat list"

record ims_core_workspace =
  wrk_room :: "int \<times> int \<times> int"
  wrk_d_max :: c_float
  wrk_Nx :: int
  wrk_Ny :: int
  wrk_Nz :: int
  wrk_lengthVec :: int
  wrk_numImageSources :: nat
  wrk_validIDs :: "int list"
  wrk_II :: "c_float list"
  wrk_JJ :: "c_float list"
  wrk_KK :: "c_float list"
  wrk_s_x :: "c_float list"
  wrk_s_y :: "c_float list"
  wrk_s_z :: "c_float list"
  wrk_s_d :: "c_float list"
  wrk_s_t :: "c_float list"
  wrk_s_att :: "c_float list"
  wrk_src :: ims_pos_xyz
  wrk_rec :: ims_pos_xyz
  wrk_nBands :: nat
  wrk_hEchogram :: echogram_data
  wrk_hEchogram_rec :: echogram_data
  wrk_hEchogram_abs :: "echogram_data list"
  wrk_refreshEchogramFLAG :: int
  wrk_refreshRIRFLAG :: int
  wrk_rir_len_samples :: int
  wrk_rir_len_seconds :: c_float_ext
  wrk_rir_bands :: "c_float list list list"

subsection \<open>Echogram containers\<close>

definition ims_shoebox_echogramCreate :: echogram_data where
  "ims_shoebox_echogramCreate =
     \<lparr>ec_numImageSources = 0, ec_nChannels = 0, ec_value = [], ec_time = [],
      ec_order = [], ec_coords = [], ec_sortedIdx = []\<rparr>"

definition ims_shoebox_echogramResize :: "echogram_data \<Rightarrow> nat \<Rightarrow> nat \<Rightarrow> echogram_data" where
  "ims_shoebox_echogramResize ec numImageSources nChannels =
     (if ec_nChannels ec \<noteq> nChannels \<or> ec_numImageSources ec \<noteq> numImageSources then
        ec\<lparr>ec_nChannels := nChannels,
           ec_numImageSources := numImageSources,
           ec_value := realloc2d (ec_value ec) numImageSources nChannels 0,
           ec_time := realloc1d (ec_time ec) numImageSources 0,
           ec_order := realloc1d (ec_order ec) numImageSources (0, 0, 0),
           ec_coords := realloc1d (ec_coords ec) numImageSources (Pos 0 0 0),
           ec_sortedIdx := realloc1d (ec_sortedIdx ec) numImageSources 0\<rparr>
      else ec)"

subsection \<open>Workspace\<close>

text \<open>
  \<^verbatim>\<open>ims_shoebox_coreWorkspaceCreate\<close>. The fields \<^verbatim>\<open>Nx, Ny, Nz\<close> are not initialised by
  the C code; they are 0 here and are written before they are read.
\<close>

definition ims_shoebox_coreWorkspaceCreate :: "nat \<Rightarrow> ims_core_workspace" where
  "ims_shoebox_coreWorkspaceCreate nBands =
     \<lparr>wrk_room = (0, 0, 0), wrk_d_max = 0, wrk_Nx = 0, wrk_Ny = 0, wrk_Nz = 0,
      wrk_lengthVec = 0, wrk_numImageSources = 0, wrk_validIDs = [],
      wrk_II = [], wrk_JJ = [], wrk_KK = [],
      wrk_s_x = [], wrk_s_y = [], wrk_s_z = [], wrk_s_d = [], wrk_s_t = [], wrk_s_att = [],
      wrk_src = Pos (- 1) (- 1) (- 1), wrk_rec = Pos (- 1) (- 1) (- 1),
      wrk_nBands = nBands,
      wrk_hEchogram = ims_shoebox_echogramCreate,
      wrk_hEchogram_rec = ims_shoebox_echogramCreate,
      wrk_hEchogram_abs = replicate nBands ims_shoebox_echogramCreate,
      wrk_refreshEchogramFLAG = 1, wrk_refreshRIRFLAG = 1,
      wrk_rir_len_samples = 0, wrk_rir_len_seconds = Finite 0,
      wrk_rir_bands = replicate nBands []\<rparr>"

subsection \<open>Lattice generation and distance culling: \<^verbatim>\<open>ims_shoebox_coreInit\<close>\<close>

text \<open>One pass of the body of the index loop after the three stores: the odometer.\<close>

definition odometer_step :: "int \<Rightarrow> int \<Rightarrow> int \<Rightarrow> int \<times> int \<times> int \<Rightarrow> int \<times> int \<times> int" where
  "odometer_step Nx Ny Nz ijk =
     (case ijk of (ii, jj, kk) \<Rightarrow>
        let ii1 = ii + 1;
            jj1 = (if ii1 > Nx then jj + 1 else jj);
            ii2 = (if ii1 > Nx then - Nx else ii1);
            kk1 = (if jj1 > Ny then kk + 1 else kk);
            jj2 = (if jj1 > Ny then - Ny else jj1);
            kk2 = (if kk1 > Nz then - Nz else kk1)
        in (ii2, jj2, kk2))"

text \<open>The index loop: \<open>n\<close> passes remaining, \<open>ijk\<close> the current counters.\<close>

fun lattice_loop :: "nat \<Rightarrow> int \<Rightarrow> int \<Rightarrow> int \<Rightarrow> int \<times> int \<times> int \<Rightarrow> (int \<times> int \<times> int) list" where
  "lattice_loop 0 Nx Ny Nz ijk = []"
| "lattice_loop (Suc n) Nx Ny Nz ijk = ijk # lattice_loop n Nx Ny Nz (odometer_step Nx Ny Nz ijk)"

text \<open>The lattice bound of one axis: \<^verbatim>\<open>(int)(d_max/(float)room[0] + 1.0f); /* ceil */\<close>.\<close>

definition lattice_bound :: "c_float \<Rightarrow> int \<Rightarrow> int" where
  "lattice_bound d_max L = int_of_float (d_max / of_int L + 1)"

text \<open>The block guarded by "maximum permitted delay or room dimensions have changed".\<close>

definition coreInit_updateIndices ::
  "ims_core_workspace \<Rightarrow> int \<times> int \<times> int \<Rightarrow> c_float \<Rightarrow> ims_core_workspace" where
  "coreInit_updateIndices wrk room d_max =
     (case room of (room0, room1, room2) \<Rightarrow>
        let Nx = lattice_bound d_max room0;
            Ny = lattice_bound d_max room1;
            Nz = lattice_bound d_max room2;
            lengthVec = (2 * Nx + 1) * (2 * Ny + 1) * (2 * Nz + 1);
            ijk = lattice_loop (nat lengthVec) Nx Ny Nz (- Nx, - Ny, - Nz)
        in wrk\<lparr>wrk_d_max := d_max, wrk_room := room,
                wrk_Nx := Nx, wrk_Ny := Ny, wrk_Nz := Nz, wrk_lengthVec := lengthVec,
                wrk_II := map (\<lambda>t. of_int (fst t)) ijk,
                wrk_JJ := map (\<lambda>t. of_int (fst (snd t))) ijk,
                wrk_KK := map (\<lambda>t. of_int (snd (snd t))) ijk,
                wrk_validIDs := realloc1d (wrk_validIDs wrk) (nat lengthVec) 0,
                wrk_s_x := realloc1d (wrk_s_x wrk) (nat lengthVec) 0,
                wrk_s_y := realloc1d (wrk_s_y wrk) (nat lengthVec) 0,
                wrk_s_z := realloc1d (wrk_s_z wrk) (nat lengthVec) 0,
                wrk_s_d := realloc1d (wrk_s_d wrk) (nat lengthVec) 0,
                wrk_s_t := realloc1d (wrk_s_t wrk) (nat lengthVec) 0,
                wrk_s_att := realloc1d (wrk_s_att wrk) (nat lengthVec) 0\<rparr>)"

text \<open>
  The image-source coordinate of one lattice index on one axis, as in the source:
  \<^verbatim>\<open>II[imsrc]*(float)room[0] + powf(-1.0f, II[imsrc])*src_orig.x - rec_orig.x\<close>.
\<close>

definition image_coord :: "c_float \<Rightarrow> int \<Rightarrow> c_float \<Rightarrow> c_float \<Rightarrow> c_float" where
  "image_coord I L s r = I * of_int L + powf (- 1) I * s - r"

definition image_dist :: "c_float \<Rightarrow> c_float \<Rightarrow> c_float \<Rightarrow> c_float" where
  "image_dist sx sy sz = sqrtf (powf sx 2 + powf sy 2 + powf sz 2)"

text \<open>
  The copy loop over the lattice indices still to visit, with the write position
  \<open>vIdx\<close>. A write \<open>xs[vIdx := v]\<close> beyond the end of \<open>xs\<close> leaves \<open>xs\<close> as it is; the
  resize before the loop makes every write land inside.
\<close>

fun copy_loop :: "nat list \<Rightarrow> nat \<Rightarrow> ims_core_workspace \<Rightarrow> c_float \<Rightarrow> echogram_data \<Rightarrow> echogram_data" where
  "copy_loop [] vIdx wrk c_ms echogram = echogram"
| "copy_loop (imsrc # rest) vIdx wrk c_ms echogram =
     (if wrk_validIDs wrk ! imsrc \<noteq> 0 then
        copy_loop rest (vIdx + 1) wrk c_ms
          (echogram\<lparr>
             ec_time := (ec_time echogram)[vIdx := wrk_s_d wrk ! imsrc / c_ms],
             ec_value := (ec_value echogram)[vIdx := (ec_value echogram ! vIdx)
                 [0 := (if wrk_s_d wrk ! imsrc \<le> 1 then 1 else 1 / wrk_s_d wrk ! imsrc)]],
             ec_order := (ec_order echogram)[vIdx :=
                 (int_of_float (wrk_II wrk ! imsrc + 0.5),
                  int_of_float (wrk_JJ wrk ! imsrc + 0.5),
                  int_of_float (wrk_KK wrk ! imsrc + 0.5))],
             ec_coords := (ec_coords echogram)[vIdx :=
                 Pos (wrk_s_x wrk ! imsrc) (wrk_s_y wrk ! imsrc) (wrk_s_z wrk ! imsrc)]\<rparr>)
      else copy_loop rest vIdx wrk c_ms echogram)"

text \<open>
  Modelled from the spec: \<^verbatim>\<open>sortf(in, NULL, idx, len, descendFLAG)\<close>, whose source
  (the sorting utilities) is not part of the files at hand. The spec: "Compute
  sortedIndex as the permutation sorting time ascending; the underlying arrays are left
  in enumeration order". With a NULL output vector only the index vector is written.
\<close>

definition sortf :: "c_float list \<Rightarrow> nat \<Rightarrow> int \<Rightarrow> nat list" where
  "sortf in_vec len descendFLAG =
     (if descendFLAG \<noteq> 0 then sort_key (\<lambda>i. - (in_vec ! i)) [0..<len]
      else sort_key (\<lambda>i. in_vec ! i) [0..<len])"

text \<open>
  The block guarded by "source/receiver positions or room dimensions have changed", in
  its three steps. First the three \<^verbatim>\<open>memcpy\<close> into the cache and "image source
  coordinates with respect to receiver, and distance".
\<close>

definition coreInit_imageSources ::
  "ims_core_workspace \<Rightarrow> int \<times> int \<times> int \<Rightarrow> ims_pos_xyz \<Rightarrow> ims_pos_xyz \<Rightarrow> ims_core_workspace" where
  "coreInit_imageSources wrk room src_orig rec_orig =
     (case room of (room0, room1, room2) \<Rightarrow>
        let ids = [0..<nat (wrk_lengthVec wrk)];
            s_x = map (\<lambda>imsrc. image_coord (wrk_II wrk ! imsrc) room0 (pos_x src_orig) (pos_x rec_orig)) ids;
            s_y = map (\<lambda>imsrc. image_coord (wrk_JJ wrk ! imsrc) room1 (pos_y src_orig) (pos_y rec_orig)) ids;
            s_z = map (\<lambda>imsrc. image_coord (wrk_KK wrk ! imsrc) room2 (pos_z src_orig) (pos_z rec_orig)) ids
        in wrk\<lparr>wrk_room := room, wrk_rec := rec_orig, wrk_src := src_orig,
                wrk_s_x := s_x, wrk_s_y := s_y, wrk_s_z := s_z,
                wrk_s_d := map (\<lambda>imsrc. image_dist (s_x ! imsrc) (s_y ! imsrc) (s_z ! imsrc)) ids\<rparr>)"

text \<open>"Determine the indices where the distance is below the specified maximum".\<close>

definition coreInit_cull :: "ims_core_workspace \<Rightarrow> c_float \<Rightarrow> ims_core_workspace" where
  "coreInit_cull wrk d_max =
     wrk\<lparr>wrk_validIDs := map (\<lambda>imsrc. if wrk_s_d wrk ! imsrc < d_max then 1 else 0)
                              [0..<nat (wrk_lengthVec wrk)],
          wrk_numImageSources := length (filter (\<lambda>imsrc. wrk_s_d wrk ! imsrc < d_max)
                              [0..<nat (wrk_lengthVec wrk)])\<rparr>"

text \<open>"Resize echogram container", "Copy data into echogram struct" and the sort.\<close>

definition coreInit_fillEchogram :: "ims_core_workspace \<Rightarrow> c_float \<Rightarrow> ims_core_workspace" where
  "coreInit_fillEchogram wrk c_ms =
     (let echogram1 = ims_shoebox_echogramResize (wrk_hEchogram wrk) (wrk_numImageSources wrk) 1;
          echogram2 = copy_loop [0..<nat (wrk_lengthVec wrk)] 0 wrk c_ms echogram1
      in wrk\<lparr>wrk_hEchogram := echogram2\<lparr>ec_sortedIdx :=
                  sortf (ec_time echogram2) (ec_numImageSources echogram2) 0\<rparr>\<rparr>)"

definition coreInit_updateEchogram ::
  "ims_core_workspace \<Rightarrow> int \<times> int \<times> int \<Rightarrow> ims_pos_xyz \<Rightarrow> ims_pos_xyz \<Rightarrow> c_float \<Rightarrow> c_float
     \<Rightarrow> ims_core_workspace" where
  "coreInit_updateEchogram wrk room src_orig rec_orig d_max c_ms =
     coreInit_fillEchogram (coreInit_cull (coreInit_imageSources wrk room src_orig rec_orig) d_max) c_ms"

text \<open>"move origin to the centre of the room": the y axis is mirrored.\<close>

definition room_centred :: "int \<times> int \<times> int \<Rightarrow> ims_pos_xyz \<Rightarrow> ims_pos_xyz" where
  "room_centred room p =
     (case room of (room0, room1, room2) \<Rightarrow>
        Pos (pos_x p - of_int room0 / 2) (of_int room1 / 2 - pos_y p) (pos_z p - of_int room2 / 2))"

text \<open>The guards of the two blocks, as the source writes them.\<close>

definition indices_outdated :: "ims_core_workspace \<Rightarrow> int \<times> int \<times> int \<Rightarrow> c_float \<Rightarrow> bool" where
  "indices_outdated wrk room d_max \<longleftrightarrow> wrk_d_max wrk \<noteq> d_max \<or> wrk_room wrk \<noteq> room"

definition echogram_outdated ::
  "ims_core_workspace \<Rightarrow> int \<times> int \<times> int \<Rightarrow> ims_pos_xyz \<Rightarrow> ims_pos_xyz \<Rightarrow> bool" where
  "echogram_outdated wrk room src_orig rec_orig \<longleftrightarrow>
     wrk_rec wrk \<noteq> rec_orig \<or> wrk_src wrk \<noteq> src_orig \<or> wrk_room wrk \<noteq> room"

definition ims_shoebox_coreInit ::
  "ims_core_workspace \<Rightarrow> int \<times> int \<times> int \<Rightarrow> ims_pos_xyz \<Rightarrow> ims_pos_xyz \<Rightarrow> c_float \<Rightarrow> c_float
     \<Rightarrow> ims_core_workspace" where
  "ims_shoebox_coreInit wrk room src rec maxTime_s c_ms =
     (let d_max = maxTime_s * c_ms;
          src_orig = room_centred room src;
          rec_orig = room_centred room rec;
          wrk1 = (if indices_outdated wrk room d_max
                  then coreInit_updateIndices wrk room d_max else wrk);
          wrk2 = (if echogram_outdated wrk1 room src_orig rec_orig
                  then coreInit_updateEchogram wrk1 room src_orig rec_orig d_max c_ms else wrk1)
      in wrk2)"

subsection \<open>Receiver directivity: \<^verbatim>\<open>ims_shoebox_coreRecModuleSH\<close>\<close>

text \<open>
  Modelled from the spec: the macro \<^verbatim>\<open>ORDER2NSH\<close>, whose header is not part of the
  files at hand. The spec: "spherical-harmonic order N, channel count = (N+1) squared".
\<close>

definition ORDER2NSH :: "int \<Rightarrow> nat" where
  "ORDER2NSH order = nat ((order + 1) * (order + 1))"

text \<open>
  The two external collaborators of the branch for \<open>sh_order \<noteq> 0\<close> are parameters:
  \<open>unitCart2Sph\<close> (a coordinate to azimuth and elevation) and \<open>getSHreal_recur\<close> (an
  order and azimuth, inclination to the \<open>nSH\<close> real spherical-harmonic weights).
\<close>

definition ims_shoebox_coreRecModuleSH ::
  "(ims_pos_xyz \<Rightarrow> c_float \<times> c_float) \<Rightarrow> (int \<Rightarrow> c_float \<times> c_float \<Rightarrow> c_float list)
     \<Rightarrow> ims_core_workspace \<Rightarrow> int \<Rightarrow> ims_core_workspace" where
  "ims_shoebox_coreRecModuleSH unitCart2Sph getSHreal_recur wrk sh_order =
     (let echogram = wrk_hEchogram wrk;
          nSH = ORDER2NSH sh_order;
          rec0 = ims_shoebox_echogramResize (wrk_hEchogram_rec wrk) (ec_numImageSources echogram) nSH;
          ids = [0..<ec_numImageSources rec0];
          rec1 = rec0\<lparr>ec_time := map (\<lambda>i. ec_time echogram ! (ec_sortedIdx echogram ! i)) ids,
                     ec_order := map (\<lambda>i. ec_order echogram ! (ec_sortedIdx echogram ! i)) ids,
                     ec_coords := map (\<lambda>i. ec_coords echogram ! (ec_sortedIdx echogram ! i)) ids,
                     ec_sortedIdx := map (\<lambda>i. i) ids\<rparr>;
          rec2 = (if sh_order = 0 then
                    rec1\<lparr>ec_value := map (\<lambda>i. (ec_value rec1 ! i)
                              [0 := ec_value echogram ! (ec_sortedIdx echogram ! i) ! 0]) ids\<rparr>
                  else
                    rec1\<lparr>ec_value := map (\<lambda>i.
                              let aziElev = unitCart2Sph (ec_coords rec1 ! i);
                                  aziIncl = (fst aziElev, pi / 2 - snd aziElev);
                                  sh_gains = getSHreal_recur sh_order aziIncl
                              in map (\<lambda>j. sh_gains ! j * (ec_value echogram ! (ec_sortedIdx echogram ! i) ! 0))
                                   [0..<nSH]) ids\<rparr>)
      in wrk\<lparr>wrk_hEchogram_rec := rec2\<rparr>)"

subsection \<open>Wall absorption: \<^verbatim>\<open>ims_shoebox_coreAbsorptionModule\<close>\<close>

text \<open>
  Modelled from the spec: \<^verbatim>\<open>utility_svsmul(a, s, len, NULL)\<close>, whose source (the
  vector utilities) is not part of the files at hand. The spec: "multiply every channel
  of that arrival's gain vector by this scalar in place".
\<close>

definition utility_svsmul :: "c_float list \<Rightarrow> c_float \<Rightarrow> nat \<Rightarrow> c_float list" where
  "utility_svsmul a s len = map (\<lambda>v. s * v) (take len a) @ drop len a"

text \<open>
  The attenuation on one axis from the reflection coefficients of its two walls and the
  signed order \<open>m\<close>; the source writes these lines once per axis. \<^verbatim>\<open>m % 2\<close> is the C
  remainder (the sign of the dividend).
\<close>

definition axis_attenuation :: "c_float \<Rightarrow> c_float \<Rightarrow> int \<Rightarrow> c_float" where
  "axis_attenuation r0 r1 m =
     (if m smod 2 = 0 then
        powf r0 (of_int \<bar>m\<bar> / 2) * powf r1 (of_int \<bar>m\<bar> / 2)
      else if m > 0 then
        powf r0 (ceilf (of_int m / 2)) * powf r1 (floorf (of_int m / 2))
      else
        powf r0 (floorf (of_int \<bar>m\<bar> / 2)) * powf r1 (ceilf (of_int \<bar>m\<bar> / 2)))"

text \<open>The total attenuation scalar \<^verbatim>\<open>s_abs_tot\<close> of an arrival with the given order.\<close>

definition s_abs_tot :: "c_float list \<Rightarrow> int \<times> int \<times> int \<Rightarrow> c_float" where
  "s_abs_tot abs_wall_band ord =
     (let r_x0 = sqrtf (1 - abs_wall_band ! 0);
          r_x1 = sqrtf (1 - abs_wall_band ! 1);
          r_y0 = sqrtf (1 - abs_wall_band ! 2);
          r_y1 = sqrtf (1 - abs_wall_band ! 3);
          r_z0 = sqrtf (1 - abs_wall_band ! 4);
          r_z1 = sqrtf (1 - abs_wall_band ! 5);
          abs_x = axis_attenuation r_x0 r_x1 (fst ord);
          abs_y = axis_attenuation r_y0 r_y1 (fst (snd ord));
          abs_z = axis_attenuation r_z0 r_z1 (snd (snd ord))
      in abs_x * abs_y * abs_z)"

text \<open>The body of the loop over the bands, for one band.\<close>

definition absorption_band :: "echogram_data \<Rightarrow> echogram_data \<Rightarrow> c_float list \<Rightarrow> echogram_data" where
  "absorption_band echogram_rec echogram_abs abs_wall_band =
     (let abs0 = ims_shoebox_echogramResize echogram_abs
                   (ec_numImageSources echogram_rec) (ec_nChannels echogram_rec);
          n = ec_numImageSources abs0;
          abs1 = abs0\<lparr>ec_value := memcpy (ec_value abs0) (ec_value echogram_rec) n,
                     ec_time := memcpy (ec_time abs0) (ec_time echogram_rec) n,
                     ec_order := memcpy (ec_order abs0) (ec_order echogram_rec) n,
                     ec_coords := memcpy (ec_coords abs0) (ec_coords echogram_rec) n,
                     ec_sortedIdx := memcpy (ec_sortedIdx abs0) (ec_sortedIdx echogram_rec) n\<rparr>
      in abs1\<lparr>ec_value := map (\<lambda>i. utility_svsmul (ec_value abs1 ! i)
                                    (s_abs_tot abs_wall_band (ec_order abs1 ! i)) (ec_nChannels abs1))
                             [0..<n]\<rparr>)"

definition ims_shoebox_coreAbsorptionModule ::
  "ims_core_workspace \<Rightarrow> c_float list list \<Rightarrow> ims_core_workspace" where
  "ims_shoebox_coreAbsorptionModule wrk abs_wall =
     wrk\<lparr>wrk_hEchogram_abs :=
            map (\<lambda>band. absorption_band (wrk_hEchogram_rec wrk) (wrk_hEchogram_abs wrk ! band)
                          (abs_wall ! band))
              [0..<wrk_nBands wrk]\<rparr>"

subsection \<open>Rendering the impulse trains: the band loop of \<^verbatim>\<open>ims_shoebox_renderRIR\<close>\<close>

text \<open>
  "Determine length of rir": \<open>(endtime, rir_len_samples, rir_len_seconds)\<close>, from
  \<^verbatim>\<open>endtime = time[numImageSources-1]\<close>,
  \<^verbatim>\<open>rir_len_samples = (int)(endtime * fs + 1.0f) + 1\<close> and
  \<^verbatim>\<open>rir_len_seconds = (float)rir_len_samples/fs\<close>.
\<close>

definition determine_rir_length :: "echogram_data \<Rightarrow> c_float \<Rightarrow> error + c_float \<times> int \<times> c_float_ext" where
  "determine_rir_length echogram_abs fs =
     (if ec_numImageSources echogram_abs = 0 \<or> length (ec_time echogram_abs) < ec_numImageSources echogram_abs
      then Inl OutOfBounds
      else
        let endtime = ec_time echogram_abs ! (ec_numImageSources echogram_abs - 1) in
        case cast_int (float_add (float_mul endtime fs) 1) of
          Inl e \<Rightarrow> Inl e
        | Inr k \<Rightarrow>
            (case int_add k 1 of
               Inl e \<Rightarrow> Inl e
             | Inr rir_len_samples \<Rightarrow>
                 Inr (endtime, rir_len_samples, float_div (int_to_float rir_len_samples) fs)))"

text \<open>The sample an arrival is accumulated at: \<^verbatim>\<open>(int)(time[i]*fs+0.5f)\<close>.\<close>

definition refl_idx :: "echogram_data \<Rightarrow> c_float \<Rightarrow> nat \<Rightarrow> error + int" where
  "refl_idx echogram_abs fs i = cast_int (float_add (float_mul (ec_time echogram_abs ! i) fs) (1 / 2))"

text \<open>
  "Accumulate 'values' for each image source" into the buffer \<open>buf\<close> of \<open>nChannels\<close>
  rows of \<open>rir_len_samples\<close> cells, over the arrivals still to visit. The accesses of
  one pass: the read of \<^verbatim>\<open>time[i]\<close>, and for each channel the read of \<^verbatim>\<open>value[i][j]\<close>
  and the update of the cell \<^verbatim>\<open>refl_idx\<close> of the channel's row.
\<close>

fun accumulate_values ::
  "nat list \<Rightarrow> echogram_data \<Rightarrow> c_float \<Rightarrow> int \<Rightarrow> c_float list list \<Rightarrow> error + c_float list list" where
  "accumulate_values [] echogram_abs fs rir_len_samples buf = Inr buf"
| "accumulate_values (i # rest) echogram_abs fs rir_len_samples buf =
     (if length (ec_time echogram_abs) \<le> i then Inl OutOfBounds
      else
        case refl_idx echogram_abs fs i of
          Inl e \<Rightarrow> Inl e
        | Inr k \<Rightarrow>
            if 0 < ec_nChannels echogram_abs \<and>
               (k < 0 \<or> rir_len_samples \<le> k \<or>
                length (ec_value echogram_abs) \<le> i \<or>
                length (ec_value echogram_abs ! i) < ec_nChannels echogram_abs)
            then Inl OutOfBounds
            else accumulate_values rest echogram_abs fs rir_len_samples
                   (map (\<lambda>j. (buf ! j)[nat k := float_add (buf ! j ! nat k) (ec_value echogram_abs ! i ! j)])
                      [0..<ec_nChannels echogram_abs]))"

text \<open>
  The body of the loop "Render RIR for each octave band", for one band. The buffer comes
  from \<^verbatim>\<open>realloc2d\<close>, which is taken to succeed, and is flushed to zero.
\<close>

definition renderRIR_band :: "ims_core_workspace \<Rightarrow> nat \<Rightarrow> int \<Rightarrow> c_float \<Rightarrow> error + ims_core_workspace" where
  "renderRIR_band wrk band fractionalDelayFLAG fs =
     (if length (wrk_hEchogram_abs wrk) \<le> band then Inl OutOfBounds
      else
      let echogram_abs = wrk_hEchogram_abs wrk ! band in
      case determine_rir_length echogram_abs fs of
        Inl e \<Rightarrow> Inl e
      | Inr (endtime, rir_len_samples, rir_len_seconds) \<Rightarrow>
          if fractionalDelayFLAG \<noteq> 0 then Inr wrk
          else if length (wrk_rir_bands wrk) \<le> band then Inl OutOfBounds
          else
            (case accumulate_values [0..<ec_numImageSources echogram_abs] echogram_abs fs rir_len_samples
                    (replicate (ec_nChannels echogram_abs) (replicate (nat rir_len_samples) 0)) of
               Inl e \<Rightarrow> Inl e
             | Inr buf \<Rightarrow>
                 Inr (wrk\<lparr>wrk_rir_bands := (wrk_rir_bands wrk)[band := buf],
                          wrk_rir_len_samples := rir_len_samples,
                          wrk_rir_len_seconds := rir_len_seconds\<rparr>)))"

fun renderRIR_bands :: "nat list \<Rightarrow> ims_core_workspace \<Rightarrow> int \<Rightarrow> c_float \<Rightarrow> error + ims_core_workspace" where
  "renderRIR_bands [] wrk fractionalDelayFLAG fs = Inr wrk"
| "renderRIR_bands (band # rest) wrk fractionalDelayFLAG fs =
     (case renderRIR_band wrk band fractionalDelayFLAG fs of
        Inl e \<Rightarrow> Inl e
      | Inr wrk' \<Rightarrow> renderRIR_bands rest wrk' fractionalDelayFLAG fs)"

text \<open>
  The first loop of \<^verbatim>\<open>ims_shoebox_renderRIR\<close>, "Render RIR for each octave band"
  (lines 436 to 463). The second half of the function, the filterbank and the summation
  into \<^verbatim>\<open>rir->data\<close>, goes through external convolution code and is not part of this
  development.
\<close>

definition renderRIR_band_loop :: "ims_core_workspace \<Rightarrow> int \<Rightarrow> c_float \<Rightarrow> error + ims_core_workspace" where
  "renderRIR_band_loop wrk fractionalDelayFLAG fs =
     renderRIR_bands [0..<wrk_nBands wrk] wrk fractionalDelayFLAG fs"

subsection \<open>Allocation and ordering invariants of an echogram\<close>

text \<open>The arrays of an echogram have the sizes its two counters say.\<close>

definition echogram_wf :: "echogram_data \<Rightarrow> bool" where
  "echogram_wf ec \<longleftrightarrow>
     length (ec_value ec) = ec_numImageSources ec \<and>
     list_all (\<lambda>row. length row = ec_nChannels ec) (ec_value ec) \<and>
     length (ec_time ec) = ec_numImageSources ec \<and>
     length (ec_order ec) = ec_numImageSources ec \<and>
     length (ec_coords ec) = ec_numImageSources ec \<and>
     length (ec_sortedIdx ec) = ec_numImageSources ec"

text \<open>The index vector holds valid indices and walks the times in ascending order.\<close>

definition sortedIdx_ascending :: "echogram_data \<Rightarrow> bool" where
  "sortedIdx_ascending ec \<longleftrightarrow>
     list_all (\<lambda>k. k < ec_numImageSources ec) (ec_sortedIdx ec) \<and>
     sorted (map (\<lambda>k. ec_time ec ! k) (ec_sortedIdx ec))"

text \<open>
  What the renderer expects of a band's echogram: arrays of the sizes the counters say,
  at least one arrival, no negative time and times in ascending array order.
\<close>

definition time_ordered_nonempty :: "echogram_data \<Rightarrow> bool" where
  "time_ordered_nonempty ec \<longleftrightarrow>
     echogram_wf ec \<and> 1 \<le> ec_numImageSources ec \<and>
     list_all (\<lambda>t. 0 \<le> t) (ec_time ec) \<and> sorted (ec_time ec)"

subsection \<open>The lattice as a list of integer triples\<close>

text \<open>
  The triples the index loop writes for a maximum distance and a room, and the image
  source of a triple with its distance: names for what the arrays \<^verbatim>\<open>II, JJ, KK\<close>,
  \<^verbatim>\<open>s_x, s_y, s_z\<close> and \<^verbatim>\<open>s_d\<close> hold cell by cell.
\<close>

definition lattice_points :: "c_float \<Rightarrow> int \<times> int \<times> int \<Rightarrow> (int \<times> int \<times> int) list" where
  "lattice_points d_max room =
     (case room of (room0, room1, room2) \<Rightarrow>
        let Nx = lattice_bound d_max room0;
            Ny = lattice_bound d_max room1;
            Nz = lattice_bound d_max room2
        in lattice_loop (nat ((2 * Nx + 1) * (2 * Ny + 1) * (2 * Nz + 1))) Nx Ny Nz (- Nx, - Ny, - Nz))"

text \<open>
  The box of the triples within the bounds, and the position of a triple when the box
  is counted with the first component running fastest.
\<close>

definition box_index :: "int \<Rightarrow> int \<Rightarrow> int \<Rightarrow> int \<times> int \<times> int \<Rightarrow> int" where
  "box_index Nx Ny Nz t =
     (fst t + Nx) + (2 * Nx + 1) * ((fst (snd t) + Ny) + (2 * Ny + 1) * (snd (snd t) + Nz))"

definition in_box :: "int \<Rightarrow> int \<Rightarrow> int \<Rightarrow> int \<times> int \<times> int \<Rightarrow> bool" where
  "in_box Nx Ny Nz t \<longleftrightarrow>
     - Nx \<le> fst t \<and> fst t \<le> Nx \<and> - Ny \<le> fst (snd t) \<and> fst (snd t) \<le> Ny \<and>
     - Nz \<le> snd (snd t) \<and> snd (snd t) \<le> Nz"

definition image_source ::
  "int \<times> int \<times> int \<Rightarrow> ims_pos_xyz \<Rightarrow> ims_pos_xyz \<Rightarrow> int \<times> int \<times> int \<Rightarrow> ims_pos_xyz" where
  "image_source room src_orig rec_orig t =
     Pos (image_coord (of_int (fst t)) (fst room) (pos_x src_orig) (pos_x rec_orig))
         (image_coord (of_int (fst (snd t))) (fst (snd room)) (pos_y src_orig) (pos_y rec_orig))
         (image_coord (of_int (snd (snd t))) (snd (snd room)) (pos_z src_orig) (pos_z rec_orig))"

definition pos_dist :: "ims_pos_xyz \<Rightarrow> c_float" where
  "pos_dist p = image_dist (pos_x p) (pos_y p) (pos_z p)"

subsection \<open>A scenario for the worked runs\<close>

text \<open>
  A fresh workspace with one band, initialised for a room of 8 x 8 x 8 with the source at
  (5.5, 6, 4) and the receiver at (2.5, 6, 4), for 1.5 time units at speed 4.
\<close>

abbreviation example_wrk :: ims_core_workspace where
  "example_wrk \<equiv> ims_shoebox_coreInit (ims_shoebox_coreWorkspaceCreate 1)
                     (8, 8, 8) (Pos (11 / 2) 6 4) (Pos (5 / 2) 6 4) (3 / 2) 4"

text \<open>
  A workspace whose directivity-encoded echogram holds two one-channel arrivals in time
  order, the second of reflection order (2, -1, 3).
\<close>

abbreviation encoded_wrk :: ims_core_workspace where
  "encoded_wrk \<equiv> (ims_shoebox_coreWorkspaceCreate 1)\<lparr>wrk_hEchogram_rec :=
          \<lparr>ec_numImageSources = 2, ec_nChannels = 1, ec_value = [[1 / 3], [1 / 5]],
           ec_time = [3 / 4, 5 / 4], ec_order = [(0, 0, 0), (2, - 1, 3)],
           ec_coords = [Pos 3 0 0, Pos 3 (- 4) 0], ec_sortedIdx = [0, 1]\<rparr>\<rparr>"


abbreviation single_arrival_wrk :: ims_core_workspace where
  "single_arrival_wrk \<equiv> (ims_shoebox_coreWorkspaceCreate 1)\<lparr>wrk_hEchogram_abs :=
          [\<lparr>ec_numImageSources = 1, ec_nChannels = 1, ec_value = [[1]],
            ec_time = [1 / 1024], ec_order = [(0, 0, 0)],
            ec_coords = [Pos 0 0 (1 / 4)], ec_sortedIdx = [0]\<rparr>]\<rparr>"


section \<open>Properties\<close>

subsection \<open>Auxiliary facts about the containers\<close>

lemma realloc1d_length [simp]: "length (realloc1d p n f) = n"
  by (simp add: realloc1d_def)

lemma realloc2d_length [simp]: "length (realloc2d p n m f) = n"
  by (simp add: realloc2d_def)

lemma realloc2d_rows: "list_all (\<lambda>row. length row = m) (realloc2d p n m f)"
proof -
  have "list_all (\<lambda>row. length row = m) (map (\<lambda>row. realloc1d row m f) p)"
    by (simp add: list_all_iff)
  then have "list_all (\<lambda>row. length row = m) (take n (map (\<lambda>row. realloc1d row m f) p))"
    using set_take_subset[of n "map (\<lambda>row. realloc1d row m f) p"]
    unfolding list_all_iff by blast
  then show ?thesis
    by (auto simp add: realloc2d_def realloc1d_def[of "map _ _"] list_all_iff)
qed

lemma Resize_counters [simp]:
  "ec_numImageSources (ims_shoebox_echogramResize ec n c) = n"
  "ec_nChannels (ims_shoebox_echogramResize ec n c) = c"
  by (simp_all add: ims_shoebox_echogramResize_def)

lemma Resize_wf: "echogram_wf ec \<Longrightarrow> echogram_wf (ims_shoebox_echogramResize ec n c)"
  by (auto simp add: ims_shoebox_echogramResize_def echogram_wf_def realloc2d_rows)

lemma copy_loop_counters [simp]:
  "ec_numImageSources (copy_loop ids vIdx wrk c_ms ec) = ec_numImageSources ec"
  "ec_nChannels (copy_loop ids vIdx wrk c_ms ec) = ec_nChannels ec"
  "ec_sortedIdx (copy_loop ids vIdx wrk c_ms ec) = ec_sortedIdx ec"
  by (induction ids vIdx wrk c_ms ec rule: copy_loop.induct; simp)+

lemma copy_loop_lengths [simp]:
  "length (ec_time (copy_loop ids vIdx wrk c_ms ec)) = length (ec_time ec)"
  "length (ec_value (copy_loop ids vIdx wrk c_ms ec)) = length (ec_value ec)"
  "length (ec_order (copy_loop ids vIdx wrk c_ms ec)) = length (ec_order ec)"
  "length (ec_coords (copy_loop ids vIdx wrk c_ms ec)) = length (ec_coords ec)"
  by (induction ids vIdx wrk c_ms ec rule: copy_loop.induct; simp)+

lemma list_all_update_row:
  "list_all (\<lambda>row. length row = c) xs \<Longrightarrow> list_all (\<lambda>row. length row = c) (xs[k := (xs ! k)[j := v]])"
  by (cases "k < length xs") (auto simp add: list_all_length nth_list_update)

lemma copy_loop_rows:
  "list_all (\<lambda>row. length row = c) (ec_value ec) \<Longrightarrow>
   list_all (\<lambda>row. length row = c) (ec_value (copy_loop ids vIdx wrk c_ms ec))"
  by (induction ids vIdx wrk c_ms ec rule: copy_loop.induct) (simp_all add: list_all_update_row)

lemma copy_loop_wf: "echogram_wf ec \<Longrightarrow> echogram_wf (copy_loop ids vIdx wrk c_ms ec)"
  by (simp add: echogram_wf_def copy_loop_rows)

lemma take_Suc_update: "k < length xs \<Longrightarrow> take (Suc k) (xs[k := v]) = take k xs @ [v]"
  by (simp add: take_Suc_conv_app_nth)

lemma copy_loop_time:
  "vIdx + length (filter (\<lambda>i. wrk_validIDs wrk ! i \<noteq> 0) ids) \<le> length (ec_time ec) \<Longrightarrow>
   take (vIdx + length (filter (\<lambda>i. wrk_validIDs wrk ! i \<noteq> 0) ids)) (ec_time (copy_loop ids vIdx wrk c_ms ec))
     = take vIdx (ec_time ec) @ map (\<lambda>i. wrk_s_d wrk ! i / c_ms) (filter (\<lambda>i. wrk_validIDs wrk ! i \<noteq> 0) ids)"
proof (induction ids vIdx wrk c_ms ec rule: copy_loop.induct)
  case (1 vIdx wrk c_ms echogram)
  then show ?case by simp
next
  case (2 imsrc rest vIdx wrk c_ms echogram)
  show ?case
  proof (cases "wrk_validIDs wrk ! imsrc \<noteq> 0")
    case True
    with 2 show ?thesis by (simp add: take_Suc_update)
  next
    case False
    with 2 show ?thesis by simp
  qed
qed


lemma updateIndices_fields:
  "wrk_d_max (coreInit_updateIndices wrk room d_max) = d_max"
  "wrk_room (coreInit_updateIndices wrk room d_max) = room"
  "wrk_src (coreInit_updateIndices wrk room d_max) = wrk_src wrk"
  "wrk_rec (coreInit_updateIndices wrk room d_max) = wrk_rec wrk"
  "wrk_hEchogram (coreInit_updateIndices wrk room d_max) = wrk_hEchogram wrk"
  by (simp_all add: coreInit_updateIndices_def Let_def split: prod.splits)

lemma imageSources_fields:
  "wrk_d_max (coreInit_imageSources wrk room s r) = wrk_d_max wrk"
  "wrk_room (coreInit_imageSources wrk room s r) = room"
  "wrk_src (coreInit_imageSources wrk room s r) = s"
  "wrk_rec (coreInit_imageSources wrk room s r) = r"
  "wrk_lengthVec (coreInit_imageSources wrk room s r) = wrk_lengthVec wrk"
  "wrk_II (coreInit_imageSources wrk room s r) = wrk_II wrk"
  "wrk_JJ (coreInit_imageSources wrk room s r) = wrk_JJ wrk"
  "wrk_KK (coreInit_imageSources wrk room s r) = wrk_KK wrk"
  "wrk_hEchogram (coreInit_imageSources wrk room s r) = wrk_hEchogram wrk"
  by (simp_all add: coreInit_imageSources_def Let_def split: prod.splits)

lemma cull_fields:
  "wrk_d_max (coreInit_cull wrk d_max) = wrk_d_max wrk"
  "wrk_room (coreInit_cull wrk d_max) = wrk_room wrk"
  "wrk_src (coreInit_cull wrk d_max) = wrk_src wrk"
  "wrk_rec (coreInit_cull wrk d_max) = wrk_rec wrk"
  "wrk_lengthVec (coreInit_cull wrk d_max) = wrk_lengthVec wrk"
  "wrk_II (coreInit_cull wrk d_max) = wrk_II wrk"
  "wrk_JJ (coreInit_cull wrk d_max) = wrk_JJ wrk"
  "wrk_KK (coreInit_cull wrk d_max) = wrk_KK wrk"
  "wrk_s_x (coreInit_cull wrk d_max) = wrk_s_x wrk"
  "wrk_s_y (coreInit_cull wrk d_max) = wrk_s_y wrk"
  "wrk_s_z (coreInit_cull wrk d_max) = wrk_s_z wrk"
  "wrk_s_d (coreInit_cull wrk d_max) = wrk_s_d wrk"
  "wrk_hEchogram (coreInit_cull wrk d_max) = wrk_hEchogram wrk"
  by (simp_all add: coreInit_cull_def)

lemma fillEchogram_fields:
  "wrk_d_max (coreInit_fillEchogram wrk c_ms) = wrk_d_max wrk"
  "wrk_room (coreInit_fillEchogram wrk c_ms) = wrk_room wrk"
  "wrk_src (coreInit_fillEchogram wrk c_ms) = wrk_src wrk"
  "wrk_rec (coreInit_fillEchogram wrk c_ms) = wrk_rec wrk"
  "wrk_lengthVec (coreInit_fillEchogram wrk c_ms) = wrk_lengthVec wrk"
  "wrk_numImageSources (coreInit_fillEchogram wrk c_ms) = wrk_numImageSources wrk"
  "wrk_II (coreInit_fillEchogram wrk c_ms) = wrk_II wrk"
  "wrk_JJ (coreInit_fillEchogram wrk c_ms) = wrk_JJ wrk"
  "wrk_KK (coreInit_fillEchogram wrk c_ms) = wrk_KK wrk"
  "wrk_s_x (coreInit_fillEchogram wrk c_ms) = wrk_s_x wrk"
  "wrk_s_y (coreInit_fillEchogram wrk c_ms) = wrk_s_y wrk"
  "wrk_s_z (coreInit_fillEchogram wrk c_ms) = wrk_s_z wrk"
  "wrk_s_d (coreInit_fillEchogram wrk c_ms) = wrk_s_d wrk"
  by (simp_all add: coreInit_fillEchogram_def Let_def)

lemma updateEchogram_fields:
  "wrk_d_max (coreInit_updateEchogram wrk room s r d_max c_ms) = wrk_d_max wrk"
  "wrk_room (coreInit_updateEchogram wrk room s r d_max c_ms) = room"
  "wrk_src (coreInit_updateEchogram wrk room s r d_max c_ms) = s"
  "wrk_rec (coreInit_updateEchogram wrk room s r d_max c_ms) = r"
  "wrk_lengthVec (coreInit_updateEchogram wrk room s r d_max c_ms) = wrk_lengthVec wrk"
  "wrk_II (coreInit_updateEchogram wrk room s r d_max c_ms) = wrk_II wrk"
  "wrk_JJ (coreInit_updateEchogram wrk room s r d_max c_ms) = wrk_JJ wrk"
  "wrk_KK (coreInit_updateEchogram wrk room s r d_max c_ms) = wrk_KK wrk"
  by (simp_all add: coreInit_updateEchogram_def fillEchogram_fields cull_fields imageSources_fields)

lemma valid_filter_eq:
  "filter (\<lambda>i. map (\<lambda>imsrc. if P imsrc then (1::int) else 0) [0..<n] ! i \<noteq> 0) [0..<n] = filter P [0..<n]"
  by (rule filter_cong) auto

lemma updateEchogram_arrays:
  "wrk_s_x (coreInit_updateEchogram wrk room s r d_max c_ms) =
     map (\<lambda>imsrc. image_coord (wrk_II wrk ! imsrc) (fst room) (pos_x s) (pos_x r)) [0..<nat (wrk_lengthVec wrk)]"
  "wrk_s_y (coreInit_updateEchogram wrk room s r d_max c_ms) =
     map (\<lambda>imsrc. image_coord (wrk_JJ wrk ! imsrc) (fst (snd room)) (pos_y s) (pos_y r)) [0..<nat (wrk_lengthVec wrk)]"
  "wrk_s_z (coreInit_updateEchogram wrk room s r d_max c_ms) =
     map (\<lambda>imsrc. image_coord (wrk_KK wrk ! imsrc) (snd (snd room)) (pos_z s) (pos_z r)) [0..<nat (wrk_lengthVec wrk)]"
  by (simp_all add: coreInit_updateEchogram_def fillEchogram_fields cull_fields
        coreInit_imageSources_def Let_def split: prod.splits)

lemma updateEchogram_s_d:
  fixes wrk room s r d_max c_ms
  defines "wrk' \<equiv> coreInit_updateEchogram wrk room s r d_max c_ms"
  shows "wrk_s_d wrk' =
     map (\<lambda>imsrc. image_dist (wrk_s_x wrk' ! imsrc) (wrk_s_y wrk' ! imsrc) (wrk_s_z wrk' ! imsrc))
       [0..<nat (wrk_lengthVec wrk)]"
  unfolding wrk'_def
  by (simp add: coreInit_updateEchogram_def fillEchogram_fields cull_fields
        coreInit_imageSources_def Let_def split: prod.splits)

lemma updateEchogram_numImageSources:
  fixes wrk room s r d_max c_ms
  defines "wrk' \<equiv> coreInit_updateEchogram wrk room s r d_max c_ms"
  shows "wrk_numImageSources wrk' =
     length (filter (\<lambda>imsrc. wrk_s_d wrk' ! imsrc < d_max) [0..<nat (wrk_lengthVec wrk)])"
  unfolding wrk'_def
  by (simp add: coreInit_updateEchogram_def fillEchogram_fields cull_fields imageSources_fields
        coreInit_cull_def[of "coreInit_imageSources wrk room s r"])

lemma sortf_length [simp]: "length (sortf v n d) = n"
  by (simp add: sortf_def)

lemma updateEchogram_echogram:
  fixes wrk room s r d_max c_ms
  defines "wrk' \<equiv> coreInit_updateEchogram wrk room s r d_max c_ms"
  defines "valid \<equiv> filter (\<lambda>imsrc. wrk_s_d wrk' ! imsrc < d_max) [0..<nat (wrk_lengthVec wrk)]"
  assumes wf: "echogram_wf (wrk_hEchogram wrk)"
  shows "ec_numImageSources (wrk_hEchogram wrk') = length valid"
    and "ec_nChannels (wrk_hEchogram wrk') = 1"
    and "echogram_wf (wrk_hEchogram wrk')"
    and "ec_time (wrk_hEchogram wrk') = map (\<lambda>imsrc. wrk_s_d wrk' ! imsrc / c_ms) valid"
    and "ec_sortedIdx (wrk_hEchogram wrk') = sortf (ec_time (wrk_hEchogram wrk')) (length valid) 0"
proof -
  define ids where "ids = [0..<nat (wrk_lengthVec wrk)]"
  define wrk1 where "wrk1 = coreInit_cull (coreInit_imageSources wrk room s r) d_max"
  define e1 where "e1 = ims_shoebox_echogramResize (wrk_hEchogram wrk) (length valid) 1"
  define e2 where "e2 = copy_loop ids 0 wrk1 c_ms e1"
  have sd: "wrk_s_d wrk1 = wrk_s_d wrk'"
    by (simp add: wrk1_def wrk'_def coreInit_updateEchogram_def fillEchogram_fields)
  have num: "wrk_numImageSources wrk1 = length valid"
    unfolding valid_def sd[symmetric]
    by (simp add: wrk1_def coreInit_cull_def imageSources_fields)
  have ech: "wrk_hEchogram wrk' = e2\<lparr>ec_sortedIdx := sortf (ec_time e2) (ec_numImageSources e2) 0\<rparr>"
  proof -
    have "wrk_lengthVec wrk1 = wrk_lengthVec wrk" "wrk_hEchogram wrk1 = wrk_hEchogram wrk"
      by (simp_all add: wrk1_def cull_fields imageSources_fields)
    then show ?thesis
      unfolding wrk'_def coreInit_updateEchogram_def wrk1_def[symmetric]
      by (simp add: coreInit_fillEchogram_def Let_def num e2_def e1_def ids_def)
  qed
  have wf1: "echogram_wf e1"
    unfolding e1_def using wf by (rule Resize_wf)
  have wf2: "echogram_wf e2"
    unfolding e2_def using wf1 by (rule copy_loop_wf)
  have n2: "ec_numImageSources e2 = length valid" "ec_nChannels e2 = 1"
    by (simp_all add: e2_def e1_def)
  show "ec_numImageSources (wrk_hEchogram wrk') = length valid"
    by (simp add: ech n2)
  show "ec_nChannels (wrk_hEchogram wrk') = 1"
    by (simp add: ech n2)
  show "echogram_wf (wrk_hEchogram wrk')"
    using wf2 by (simp add: ech echogram_wf_def)
  have vf: "filter (\<lambda>i. wrk_validIDs wrk1 ! i \<noteq> 0) ids = valid"
    unfolding valid_def sd[symmetric] ids_def
    by (simp add: wrk1_def coreInit_cull_def imageSources_fields valid_filter_eq)
  have len1: "length (ec_time e1) = length valid"
    using wf1 by (simp add: echogram_wf_def e1_def)
  have "take (0 + length (filter (\<lambda>i. wrk_validIDs wrk1 ! i \<noteq> 0) ids)) (ec_time (copy_loop ids 0 wrk1 c_ms e1))
      = take 0 (ec_time e1) @ map (\<lambda>i. wrk_s_d wrk1 ! i / c_ms) (filter (\<lambda>i. wrk_validIDs wrk1 ! i \<noteq> 0) ids)"
    by (rule copy_loop_time) (simp add: vf len1)
  then have "take (length valid) (ec_time e2) = map (\<lambda>i. wrk_s_d wrk1 ! i / c_ms) valid"
    by (simp add: vf e2_def)
  moreover have "length (ec_time e2) = length valid"
    by (simp add: e2_def len1)
  ultimately have t2: "ec_time e2 = map (\<lambda>imsrc. wrk_s_d wrk' ! imsrc / c_ms) valid"
    by (simp add: sd)
  show "ec_time (wrk_hEchogram wrk') = map (\<lambda>imsrc. wrk_s_d wrk' ! imsrc / c_ms) valid"
    by (simp add: ech t2)
  show "ec_sortedIdx (wrk_hEchogram wrk') = sortf (ec_time (wrk_hEchogram wrk')) (length valid) 0"
    by (simp add: ech n2)
qed

subsection \<open>Repeated lattice generation\<close>

text \<open>
  C2. After a call of \<^verbatim>\<open>ims_shoebox_coreInit\<close>, a second call with the same room, source,
  receiver, maximum time and speed of sound finds neither guard true (nothing is
  recomputed) and returns the workspace as it is: every lattice array and the whole raw
  echogram are unchanged. Floats are real numbers here, so a NaN argument, which compares
  unequal to itself, is outside the statement.
\<close>

theorem coreInit_repeat_noop:
  fixes wrk room src rec maxTime_s c_ms
  defines "wrk' \<equiv> ims_shoebox_coreInit wrk room src rec maxTime_s c_ms"
  shows "\<not> indices_outdated wrk' room (maxTime_s * c_ms)
       \<and> \<not> echogram_outdated wrk' room (room_centred room src) (room_centred room rec)
       \<and> ims_shoebox_coreInit wrk' room src rec maxTime_s c_ms = wrk'"
proof -
  have a: "\<not> indices_outdated wrk' room (maxTime_s * c_ms)"
    unfolding wrk'_def ims_shoebox_coreInit_def indices_outdated_def echogram_outdated_def
    by (simp add: Let_def updateIndices_fields updateEchogram_fields)
  have b: "\<not> echogram_outdated wrk' room (room_centred room src) (room_centred room rec)"
    unfolding wrk'_def ims_shoebox_coreInit_def indices_outdated_def echogram_outdated_def
    by (auto simp add: Let_def updateIndices_fields updateEchogram_fields)
  have "ims_shoebox_coreInit wrk' room src rec maxTime_s c_ms = wrk'"
    using a b by (simp add: ims_shoebox_coreInit_def[of wrk'] Let_def)
  with a b show ?thesis by simp
qed

theorem coreInit_repeat_noop_witness:
  "\<not> indices_outdated
        (ims_shoebox_coreInit (ims_shoebox_coreWorkspaceCreate 1) (4, 4, 4) (Pos 3 2 2) (Pos 2 2 2) (7 / 2) 1)
        (4, 4, 4) (7 / 2 * 1)
   \<and> \<not> echogram_outdated
        (ims_shoebox_coreInit (ims_shoebox_coreWorkspaceCreate 1) (4, 4, 4) (Pos 3 2 2) (Pos 2 2 2) (7 / 2) 1)
        (4, 4, 4) (room_centred (4, 4, 4) (Pos 3 2 2)) (room_centred (4, 4, 4) (Pos 2 2 2))
   \<and> ims_shoebox_coreInit
        (ims_shoebox_coreInit (ims_shoebox_coreWorkspaceCreate 1) (4, 4, 4) (Pos 3 2 2) (Pos 2 2 2) (7 / 2) 1)
        (4, 4, 4) (Pos 3 2 2) (Pos 2 2 2) (7 / 2) 1
     = ims_shoebox_coreInit (ims_shoebox_coreWorkspaceCreate 1) (4, 4, 4) (Pos 3 2 2) (Pos 2 2 2) (7 / 2) 1"
  by (rule coreInit_repeat_noop)

subsection \<open>The lattice generator on its own lattice\<close>

lemma powf_two: "powf v 2 = v\<^sup>2"
proof -
  have "\<lfloor>2::real\<rfloor> = 2" by simp
  then show ?thesis by (simp add: powf_def)
qed

lemma powf_minus_one_int: "powf (- 1) (of_int i) = (if even i then 1 else - 1)"
  by (cases "0 \<le> i") (auto simp add: powf_def power_int_def even_nat_iff)

lemma image_dist_sqrt: "image_dist sx sy sz = sqrt (sx\<^sup>2 + sy\<^sup>2 + sz\<^sup>2)"
  by (simp add: image_dist_def sqrtf_def powf_two)

lemma sqrt_less_pos_iff: "0 < y \<Longrightarrow> sqrt v < y \<longleftrightarrow> v < y\<^sup>2"
  by (metis real_sqrt_less_iff real_sqrt_abs abs_of_pos)

lemma length_lattice_loop [simp]: "length (lattice_loop n Nx Ny Nz ijk) = n"
  by (induction n arbitrary: ijk) simp_all

lemma map_filter_nth:
  "map (\<lambda>i. F (xs ! i)) (filter (\<lambda>i. P (xs ! i)) [0..<length xs]) = map F (filter P xs)"
proof (induction xs rule: rev_induct)
  case Nil
  then show ?case by simp
next
  case (snoc x xs)
  have f: "filter (\<lambda>i. P ((xs @ [x]) ! i)) [0..<length xs] = filter (\<lambda>i. P (xs ! i)) [0..<length xs]"
    by (rule filter_cong) (auto simp add: nth_append)
  have m: "map (\<lambda>i. F ((xs @ [x]) ! i)) (filter (\<lambda>i. P (xs ! i)) [0..<length xs])
         = map (\<lambda>i. F (xs ! i)) (filter (\<lambda>i. P (xs ! i)) [0..<length xs])"
    by (rule map_cong) (auto simp add: nth_append)
  show ?case
    using snoc by (simp add: f m)
qed

lemma filter_nth_length:
  "length (filter (\<lambda>i. P (xs ! i)) [0..<length xs]) = length (filter P xs)"
  using map_filter_nth[of "\<lambda>_. ()" xs P] by (metis length_map)

lemma map_nth_all: "map (\<lambda>i. F (xs ! i)) [0..<length xs] = map F xs"
  using map_filter_nth[of F xs "\<lambda>_. True"] by simp

lemma echogram_outdated_after_indices:
  "echogram_outdated (if indices_outdated wrk room d then coreInit_updateIndices wrk room d else wrk) room s r
     \<longleftrightarrow> wrk_rec wrk \<noteq> r \<or> wrk_src wrk \<noteq> s"
  by (auto simp add: echogram_outdated_def indices_outdated_def updateIndices_fields)

lemma coreInit_recomputed:
  assumes "wrk_rec wrk \<noteq> room_centred room rec \<or> wrk_src wrk \<noteq> room_centred room src"
  shows "ims_shoebox_coreInit wrk room src rec maxTime_s c_ms =
     coreInit_updateEchogram
       (if indices_outdated wrk room (maxTime_s * c_ms)
        then coreInit_updateIndices wrk room (maxTime_s * c_ms) else wrk)
       room (room_centred room src) (room_centred room rec) (maxTime_s * c_ms) c_ms"
  using assms echogram_outdated_after_indices[of wrk room "maxTime_s * c_ms" "room_centred room src" "room_centred room rec"]
  by (simp add: ims_shoebox_coreInit_def Let_def)

lemma updateIndices_echogram_wf:
  "echogram_wf (wrk_hEchogram wrk) \<Longrightarrow>
   echogram_wf (wrk_hEchogram (if indices_outdated wrk room d then coreInit_updateIndices wrk room d else wrk))"
  by (simp add: updateIndices_fields)

subsection \<open>Counting the image sources\<close>


subsection \<open>The lattice generator in terms of the lattice triples\<close>

lemma updateIndices_lattice:
  "wrk_II (coreInit_updateIndices wrk room d) = map (\<lambda>t. of_int (fst t)) (lattice_points d room)"
  "wrk_JJ (coreInit_updateIndices wrk room d) = map (\<lambda>t. of_int (fst (snd t))) (lattice_points d room)"
  "wrk_KK (coreInit_updateIndices wrk room d) = map (\<lambda>t. of_int (snd (snd t))) (lattice_points d room)"
  "nat (wrk_lengthVec (coreInit_updateIndices wrk room d)) = length (lattice_points d room)"
  by (simp_all add: coreInit_updateIndices_def lattice_points_def Let_def split: prod.splits)

lemma map_nth_map_all: "map (\<lambda>i. F (map g xs ! i)) [0..<length xs] = map (\<lambda>v. F (g v)) xs"
  by (rule nth_equalityI) simp_all

lemma updateEchogram_on_lattice:
  fixes wrk room s r d_max c_ms L
  defines "wrk' \<equiv> coreInit_updateEchogram wrk room s r d_max c_ms"
  assumes II: "wrk_II wrk = map (\<lambda>t. of_int (fst t)) L"
      and JJ: "wrk_JJ wrk = map (\<lambda>t. of_int (fst (snd t))) L"
      and KK: "wrk_KK wrk = map (\<lambda>t. of_int (snd (snd t))) L"
      and len: "nat (wrk_lengthVec wrk) = length L"
  shows "wrk_s_x wrk' = map (\<lambda>t. pos_x (image_source room s r t)) L"
    and "wrk_s_y wrk' = map (\<lambda>t. pos_y (image_source room s r t)) L"
    and "wrk_s_z wrk' = map (\<lambda>t. pos_z (image_source room s r t)) L"
    and "wrk_s_d wrk' = map (\<lambda>t. pos_dist (image_source room s r t)) L"
    and "wrk_numImageSources wrk' = length (filter (\<lambda>t. pos_dist (image_source room s r t) < d_max) L)"
    and "echogram_wf (wrk_hEchogram wrk) \<Longrightarrow> ec_time (wrk_hEchogram wrk') =
           map (\<lambda>t. pos_dist (image_source room s r t) / c_ms)
             (filter (\<lambda>t. pos_dist (image_source room s r t) < d_max) L)"
proof -
  show x: "wrk_s_x wrk' = map (\<lambda>t. pos_x (image_source room s r t)) L"
    unfolding wrk'_def updateEchogram_arrays len II
    using map_nth_map_all[of "\<lambda>v. image_coord v (fst room) (pos_x s) (pos_x r)" "\<lambda>t. real_of_int (fst t)" L]
    by (simp add: image_source_def)
  show y: "wrk_s_y wrk' = map (\<lambda>t. pos_y (image_source room s r t)) L"
    unfolding wrk'_def updateEchogram_arrays len JJ
    using map_nth_map_all[of "\<lambda>v. image_coord v (fst (snd room)) (pos_y s) (pos_y r)" "\<lambda>t. real_of_int (fst (snd t))" L]
    by (simp add: image_source_def)
  show z: "wrk_s_z wrk' = map (\<lambda>t. pos_z (image_source room s r t)) L"
    unfolding wrk'_def updateEchogram_arrays len KK
    using map_nth_map_all[of "\<lambda>v. image_coord v (snd (snd room)) (pos_z s) (pos_z r)" "\<lambda>t. real_of_int (snd (snd t))" L]
    by (simp add: image_source_def)
  have "wrk_s_d wrk' = map (\<lambda>imsrc. image_dist (wrk_s_x wrk' ! imsrc) (wrk_s_y wrk' ! imsrc) (wrk_s_z wrk' ! imsrc))
       [0..<length L]"
    unfolding wrk'_def len[symmetric] by (rule updateEchogram_s_d)
  also have "\<dots> = map (\<lambda>imsrc. pos_dist (image_source room s r (L ! imsrc))) [0..<length L]"
    by (rule map_cong) (simp_all add: x y z pos_dist_def)
  also have "\<dots> = map (\<lambda>t. pos_dist (image_source room s r t)) L"
    by (rule map_nth_all)
  finally show d: "wrk_s_d wrk' = map (\<lambda>t. pos_dist (image_source room s r t)) L" .
  have f: "filter (\<lambda>imsrc. wrk_s_d wrk' ! imsrc < d_max) [0..<length L]
         = filter (\<lambda>imsrc. pos_dist (image_source room s r (L ! imsrc)) < d_max) [0..<length L]"
    by (rule filter_cong) (simp_all add: d)
  have "wrk_numImageSources wrk' = length (filter (\<lambda>imsrc. wrk_s_d wrk' ! imsrc < d_max) [0..<length L])"
    unfolding wrk'_def len[symmetric] by (rule updateEchogram_numImageSources)
  then show "wrk_numImageSources wrk' = length (filter (\<lambda>t. pos_dist (image_source room s r t) < d_max) L)"
    unfolding f by (simp add: filter_nth_length[of "\<lambda>t. pos_dist (image_source room s r t) < d_max" L])
  show "ec_time (wrk_hEchogram wrk') =
           map (\<lambda>t. pos_dist (image_source room s r t) / c_ms)
             (filter (\<lambda>t. pos_dist (image_source room s r t) < d_max) L)"
    if wf: "echogram_wf (wrk_hEchogram wrk)"
  proof -
    have "ec_time (wrk_hEchogram wrk') = map (\<lambda>imsrc. wrk_s_d wrk' ! imsrc / c_ms)
            (filter (\<lambda>imsrc. wrk_s_d wrk' ! imsrc < d_max) [0..<length L])"
      unfolding wrk'_def len[symmetric] using wf by (rule updateEchogram_echogram(4))
    also have "\<dots> = map (\<lambda>imsrc. pos_dist (image_source room s r (L ! imsrc)) / c_ms)
            (filter (\<lambda>imsrc. pos_dist (image_source room s r (L ! imsrc)) < d_max) [0..<length L])"
      unfolding f by (rule map_cong) (simp_all add: d)
    also have "\<dots> = map (\<lambda>t. pos_dist (image_source room s r t) / c_ms)
             (filter (\<lambda>t. pos_dist (image_source room s r t) < d_max) L)"
      by (rule map_filter_nth)
    finally show ?thesis .
  qed
qed

subsection \<open>A worked run from a fresh workspace\<close>

text \<open>
  Room 8 x 8 x 8, source at (5.5, 6, 4), receiver at (2.5, 6, 4), one second and a half
  of sound at 4 units per second: \<open>d_max = 6\<close>, one lattice step per axis, 27 lattice
  points, of which the mirror image behind the nearer y wall (distance 5) and the direct
  path (distance 3) are in range, in this order.
\<close>

lemma echogramCreate_wf: "echogram_wf ims_shoebox_echogramCreate"
  by (simp add: echogram_wf_def ims_shoebox_echogramCreate_def)

lemma lattice_bound_example: "lattice_bound 6 8 = 1"
  by (simp add: lattice_bound_def int_of_float_def)

lemma lattice_points_example:
  "lattice_points 6 (8, 8, 8) =
     [(- 1, - 1, - 1), (0, - 1, - 1), (1, - 1, - 1), (- 1, 0, - 1), (0, 0, - 1), (1, 0, - 1),
      (- 1, 1, - 1), (0, 1, - 1), (1, 1, - 1),
      (- 1, - 1, 0), (0, - 1, 0), (1, - 1, 0), (- 1, 0, 0), (0, 0, 0), (1, 0, 0),
      (- 1, 1, 0), (0, 1, 0), (1, 1, 0),
      (- 1, - 1, 1), (0, - 1, 1), (1, - 1, 1), (- 1, 0, 1), (0, 0, 1), (1, 0, 1),
      (- 1, 1, 1), (0, 1, 1), (1, 1, 1)]"
  by (simp add: lattice_points_def lattice_bound_example eval_nat_numeral odometer_step_def Let_def)

lemma powf_minus_one_cases:
  "powf (- 1) (- 1) = - 1" "powf (- 1) 0 = 1" "powf (- 1) 1 = - 1"
  using powf_minus_one_int[of "- 1"] powf_minus_one_int[of 0] powf_minus_one_int[of 1]
  by simp_all

lemma sqrt_squares: "sqrt 9 = 3" "sqrt 25 = 5"
  by (rule real_sqrt_unique; simp add: power2_eq_square)+

lemma example_wrk_eq:
  "example_wrk = coreInit_updateEchogram (coreInit_updateIndices (ims_shoebox_coreWorkspaceCreate 1) (8, 8, 8) 6)
       (8, 8, 8) (Pos (3 / 2) (- 2) 0) (Pos (- 3 / 2) (- 2) 0) 6 4"
proof -
  have "wrk_rec (ims_shoebox_coreWorkspaceCreate 1) \<noteq> room_centred (8, 8, 8) (Pos (5 / 2) 6 4)"
    by (simp add: ims_shoebox_coreWorkspaceCreate_def room_centred_def)
  then have "example_wrk = coreInit_updateEchogram
       (if indices_outdated (ims_shoebox_coreWorkspaceCreate 1) (8, 8, 8) (3 / 2 * 4)
        then coreInit_updateIndices (ims_shoebox_coreWorkspaceCreate 1) (8, 8, 8) (3 / 2 * 4)
        else ims_shoebox_coreWorkspaceCreate 1)
       (8, 8, 8) (room_centred (8, 8, 8) (Pos (11 / 2) 6 4)) (room_centred (8, 8, 8) (Pos (5 / 2) 6 4)) (3 / 2 * 4) 4"
    by (intro coreInit_recomputed disjI1)
  moreover have "indices_outdated (ims_shoebox_coreWorkspaceCreate 1) (8, 8, 8) (3 / 2 * 4)"
    by (simp add: indices_outdated_def ims_shoebox_coreWorkspaceCreate_def)
  ultimately show ?thesis
    by (simp add: room_centred_def)
qed

lemma example_wrk_values:
  "wrk_numImageSources example_wrk = 2"
  "wrk_lengthVec example_wrk = 27"
  "ec_time (wrk_hEchogram example_wrk) = [5 / 4, 3 / 4]"
  "wrk_s_x example_wrk ! 14 = 8"
proof -
  let ?w = "coreInit_updateIndices (ims_shoebox_coreWorkspaceCreate 1) (8, 8, 8) 6"
  note lat = updateIndices_lattice[of "ims_shoebox_coreWorkspaceCreate 1" "(8, 8, 8)" 6]
  note on = updateEchogram_on_lattice[OF lat, of "(8, 8, 8)" "Pos (3 / 2) (- 2) 0" "Pos (- 3 / 2) (- 2) 0" 6 4]
  have wf: "echogram_wf (wrk_hEchogram ?w)"
    by (simp add: updateIndices_fields ims_shoebox_coreWorkspaceCreate_def echogramCreate_wf)
  show "wrk_numImageSources example_wrk = 2"
    unfolding example_wrk_eq on(5) lattice_points_example
    by (simp add: image_source_def image_coord_def powf_minus_one_cases pos_dist_def image_dist_sqrt
          sqrt_less_pos_iff power2_eq_square)
  show "wrk_lengthVec example_wrk = 27"
    unfolding example_wrk_eq
    by (simp add: updateEchogram_fields coreInit_updateIndices_def Let_def lattice_bound_example)
  show "ec_time (wrk_hEchogram example_wrk) = [5 / 4, 3 / 4]"
    unfolding example_wrk_eq on(6)[OF wf] lattice_points_example
    by (simp add: image_source_def image_coord_def powf_minus_one_cases pos_dist_def image_dist_sqrt
          sqrt_less_pos_iff power2_eq_square sqrt_squares)
  show "wrk_s_x example_wrk ! 14 = 8"
    unfolding example_wrk_eq on(1) lattice_points_example
    by (simp add: image_source_def image_coord_def powf_minus_one_cases)
qed

subsection \<open>What the copy loop leaves in the echogram\<close>

lemma copy_loop_order:
  "vIdx + length (filter (\<lambda>i. wrk_validIDs wrk ! i \<noteq> 0) ids) \<le> length (ec_order ec) \<Longrightarrow>
   take (vIdx + length (filter (\<lambda>i. wrk_validIDs wrk ! i \<noteq> 0) ids)) (ec_order (copy_loop ids vIdx wrk c_ms ec))
     = take vIdx (ec_order ec) @
       map (\<lambda>i. (int_of_float (wrk_II wrk ! i + 0.5), int_of_float (wrk_JJ wrk ! i + 0.5),
                  int_of_float (wrk_KK wrk ! i + 0.5)))
         (filter (\<lambda>i. wrk_validIDs wrk ! i \<noteq> 0) ids)"
proof (induction ids vIdx wrk c_ms ec rule: copy_loop.induct)
  case (1 vIdx wrk c_ms echogram)
  then show ?case by simp
next
  case (2 imsrc rest vIdx wrk c_ms echogram)
  show ?case
  proof (cases "wrk_validIDs wrk ! imsrc \<noteq> 0")
    case True
    with 2 show ?thesis by (simp add: take_Suc_update)
  next
    case False
    with 2 show ?thesis by simp
  qed
qed

lemma copy_loop_coords:
  "vIdx + length (filter (\<lambda>i. wrk_validIDs wrk ! i \<noteq> 0) ids) \<le> length (ec_coords ec) \<Longrightarrow>
   take (vIdx + length (filter (\<lambda>i. wrk_validIDs wrk ! i \<noteq> 0) ids)) (ec_coords (copy_loop ids vIdx wrk c_ms ec))
     = take vIdx (ec_coords ec) @
       map (\<lambda>i. Pos (wrk_s_x wrk ! i) (wrk_s_y wrk ! i) (wrk_s_z wrk ! i))
         (filter (\<lambda>i. wrk_validIDs wrk ! i \<noteq> 0) ids)"
proof (induction ids vIdx wrk c_ms ec rule: copy_loop.induct)
  case (1 vIdx wrk c_ms echogram)
  then show ?case by simp
next
  case (2 imsrc rest vIdx wrk c_ms echogram)
  show ?case
  proof (cases "wrk_validIDs wrk ! imsrc \<noteq> 0")
    case True
    with 2 show ?thesis by (simp add: take_Suc_update)
  next
    case False
    with 2 show ?thesis by simp
  qed
qed

lemma singleton_update: "length row = Suc 0 \<Longrightarrow> row[0 := g] = [g]"
  by (cases row) simp_all

lemma copy_loop_value:
  "vIdx + length (filter (\<lambda>i. wrk_validIDs wrk ! i \<noteq> 0) ids) \<le> length (ec_value ec) \<Longrightarrow>
   list_all (\<lambda>row. length row = Suc 0) (ec_value ec) \<Longrightarrow>
   take (vIdx + length (filter (\<lambda>i. wrk_validIDs wrk ! i \<noteq> 0) ids)) (ec_value (copy_loop ids vIdx wrk c_ms ec))
     = take vIdx (ec_value ec) @
       map (\<lambda>i. [if wrk_s_d wrk ! i \<le> 1 then 1 else 1 / wrk_s_d wrk ! i])
         (filter (\<lambda>i. wrk_validIDs wrk ! i \<noteq> 0) ids)"
proof (induction ids vIdx wrk c_ms ec rule: copy_loop.induct)
  case (1 vIdx wrk c_ms echogram)
  then show ?case by simp
next
  case (2 imsrc rest vIdx wrk c_ms echogram)
  show ?case
  proof (cases "wrk_validIDs wrk ! imsrc \<noteq> 0")
    case True
    from 2(3) True have v: "vIdx < length (ec_value echogram)"
      by simp
    with 2(4) have row: "length (ec_value echogram ! vIdx) = Suc 0"
      by (simp add: list_all_length)
    from 2(4) have rows: "list_all (\<lambda>row. length row = Suc 0)
        ((ec_value echogram)[vIdx := (ec_value echogram ! vIdx)[0 := g]])" for g
      by (rule list_all_update_row)
    from True 2(1)[OF True] 2(3) rows show ?thesis
      by (simp add: take_Suc_update v singleton_update[OF row])
  next
    case False
    with 2 show ?thesis by simp
  qed
qed

lemma take_all_eq: "take n xs = ys \<Longrightarrow> length xs = n \<Longrightarrow> xs = ys"
  by auto

lemma updateEchogram_echogram_rows:
  fixes wrk room s r d_max c_ms
  defines "wrk' \<equiv> coreInit_updateEchogram wrk room s r d_max c_ms"
  defines "valid \<equiv> filter (\<lambda>imsrc. wrk_s_d wrk' ! imsrc < d_max) [0..<nat (wrk_lengthVec wrk)]"
  assumes wf: "echogram_wf (wrk_hEchogram wrk)"
  shows "ec_order (wrk_hEchogram wrk') =
           map (\<lambda>i. (int_of_float (wrk_II wrk' ! i + 0.5), int_of_float (wrk_JJ wrk' ! i + 0.5),
                      int_of_float (wrk_KK wrk' ! i + 0.5))) valid"
    and "ec_coords (wrk_hEchogram wrk') =
           map (\<lambda>i. Pos (wrk_s_x wrk' ! i) (wrk_s_y wrk' ! i) (wrk_s_z wrk' ! i)) valid"
    and "ec_value (wrk_hEchogram wrk') =
           map (\<lambda>i. [if wrk_s_d wrk' ! i \<le> 1 then 1 else 1 / wrk_s_d wrk' ! i]) valid"
proof -
  define ids where "ids = [0..<nat (wrk_lengthVec wrk)]"
  define wrk1 where "wrk1 = coreInit_cull (coreInit_imageSources wrk room s r) d_max"
  define e1 where "e1 = ims_shoebox_echogramResize (wrk_hEchogram wrk) (length valid) 1"
  define e2 where "e2 = copy_loop ids 0 wrk1 c_ms e1"
  have same: "wrk_s_d wrk1 = wrk_s_d wrk'" "wrk_s_x wrk1 = wrk_s_x wrk'" "wrk_s_y wrk1 = wrk_s_y wrk'"
    "wrk_s_z wrk1 = wrk_s_z wrk'" "wrk_II wrk1 = wrk_II wrk'" "wrk_JJ wrk1 = wrk_JJ wrk'"
    "wrk_KK wrk1 = wrk_KK wrk'"
    by (simp_all add: wrk1_def wrk'_def coreInit_updateEchogram_def fillEchogram_fields)
  have num: "wrk_numImageSources wrk1 = length valid"
    unfolding valid_def same(1)[symmetric]
    by (simp add: wrk1_def coreInit_cull_def imageSources_fields)
  have ech: "wrk_hEchogram wrk' = e2\<lparr>ec_sortedIdx := sortf (ec_time e2) (ec_numImageSources e2) 0\<rparr>"
  proof -
    have "wrk_lengthVec wrk1 = wrk_lengthVec wrk" "wrk_hEchogram wrk1 = wrk_hEchogram wrk"
      by (simp_all add: wrk1_def cull_fields imageSources_fields)
    then show ?thesis
      unfolding wrk'_def coreInit_updateEchogram_def wrk1_def[symmetric]
      by (simp add: coreInit_fillEchogram_def Let_def num e2_def e1_def ids_def)
  qed
  have wf1: "echogram_wf e1"
    unfolding e1_def using wf by (rule Resize_wf)
  have vf: "filter (\<lambda>i. wrk_validIDs wrk1 ! i \<noteq> 0) ids = valid"
    unfolding valid_def same(1)[symmetric] ids_def
    by (simp add: wrk1_def coreInit_cull_def imageSources_fields valid_filter_eq)
  have len1: "length (ec_order e1) = length valid" "length (ec_coords e1) = length valid"
    "length (ec_value e1) = length valid" "list_all (\<lambda>row. length row = Suc 0) (ec_value e1)"
    using wf1 by (simp_all add: echogram_wf_def e1_def)
  have "take (0 + length (filter (\<lambda>i. wrk_validIDs wrk1 ! i \<noteq> 0) ids)) (ec_order (copy_loop ids 0 wrk1 c_ms e1))
      = take 0 (ec_order e1) @ map (\<lambda>i. (int_of_float (wrk_II wrk1 ! i + 0.5), int_of_float (wrk_JJ wrk1 ! i + 0.5),
                  int_of_float (wrk_KK wrk1 ! i + 0.5))) (filter (\<lambda>i. wrk_validIDs wrk1 ! i \<noteq> 0) ids)"
    by (rule copy_loop_order) (simp add: vf len1)
  then have "take (length valid) (ec_order e2) = map (\<lambda>i. (int_of_float (wrk_II wrk' ! i + 0.5),
                  int_of_float (wrk_JJ wrk' ! i + 0.5), int_of_float (wrk_KK wrk' ! i + 0.5))) valid"
    by (simp add: vf e2_def same)
  then have "ec_order e2 = map (\<lambda>i. (int_of_float (wrk_II wrk' ! i + 0.5),
                  int_of_float (wrk_JJ wrk' ! i + 0.5), int_of_float (wrk_KK wrk' ! i + 0.5))) valid"
    by (rule take_all_eq) (simp add: e2_def len1)
  then show "ec_order (wrk_hEchogram wrk') =
           map (\<lambda>i. (int_of_float (wrk_II wrk' ! i + 0.5), int_of_float (wrk_JJ wrk' ! i + 0.5),
                      int_of_float (wrk_KK wrk' ! i + 0.5))) valid"
    by (simp add: ech)
  have "take (0 + length (filter (\<lambda>i. wrk_validIDs wrk1 ! i \<noteq> 0) ids)) (ec_coords (copy_loop ids 0 wrk1 c_ms e1))
      = take 0 (ec_coords e1) @ map (\<lambda>i. Pos (wrk_s_x wrk1 ! i) (wrk_s_y wrk1 ! i) (wrk_s_z wrk1 ! i))
          (filter (\<lambda>i. wrk_validIDs wrk1 ! i \<noteq> 0) ids)"
    by (rule copy_loop_coords) (simp add: vf len1)
  then have "take (length valid) (ec_coords e2) = map (\<lambda>i. Pos (wrk_s_x wrk' ! i) (wrk_s_y wrk' ! i) (wrk_s_z wrk' ! i)) valid"
    by (simp add: vf e2_def same)
  then have "ec_coords e2 = map (\<lambda>i. Pos (wrk_s_x wrk' ! i) (wrk_s_y wrk' ! i) (wrk_s_z wrk' ! i)) valid"
    by (rule take_all_eq) (simp add: e2_def len1)
  then show "ec_coords (wrk_hEchogram wrk') =
           map (\<lambda>i. Pos (wrk_s_x wrk' ! i) (wrk_s_y wrk' ! i) (wrk_s_z wrk' ! i)) valid"
    by (simp add: ech)
  have "take (0 + length (filter (\<lambda>i. wrk_validIDs wrk1 ! i \<noteq> 0) ids)) (ec_value (copy_loop ids 0 wrk1 c_ms e1))
      = take 0 (ec_value e1) @ map (\<lambda>i. [if wrk_s_d wrk1 ! i \<le> 1 then 1 else 1 / wrk_s_d wrk1 ! i])
          (filter (\<lambda>i. wrk_validIDs wrk1 ! i \<noteq> 0) ids)"
    by (rule copy_loop_value) (simp_all add: vf len1)
  then have "take (length valid) (ec_value e2) = map (\<lambda>i. [if wrk_s_d wrk' ! i \<le> 1 then 1 else 1 / wrk_s_d wrk' ! i]) valid"
    by (simp add: vf e2_def same)
  then have "ec_value e2 = map (\<lambda>i. [if wrk_s_d wrk' ! i \<le> 1 then 1 else 1 / wrk_s_d wrk' ! i]) valid"
    by (rule take_all_eq) (simp add: e2_def len1)
  then show "ec_value (wrk_hEchogram wrk') =
           map (\<lambda>i. [if wrk_s_d wrk' ! i \<le> 1 then 1 else 1 / wrk_s_d wrk' ! i]) valid"
    by (simp add: ech)
qed

lemma sortf_ascending:
  "distinct (sortf v n 0)" "set (sortf v n 0) = {0..<n}" "sorted (map (\<lambda>k. v ! k) (sortf v n 0))"
  by (simp_all add: sortf_def)

lemma sorted_map_nth_Suc:
  "sorted (map f xs) \<Longrightarrow> i + 1 < length xs \<Longrightarrow> f (xs ! i) \<le> f (xs ! (i + 1))"
  using sorted_nth_mono[of "map f xs" i "i + 1"] by simp

lemma updateEchogram_sortedIdx:
  fixes wrk room s r d_max c_ms
  defines "wrk' \<equiv> coreInit_updateEchogram wrk room s r d_max c_ms"
  assumes wf: "echogram_wf (wrk_hEchogram wrk)"
  shows "ec_sortedIdx (wrk_hEchogram wrk') =
           sortf (ec_time (wrk_hEchogram wrk')) (ec_numImageSources (wrk_hEchogram wrk')) 0"
    and "ec_numImageSources (wrk_hEchogram wrk') = wrk_numImageSources wrk'"
  unfolding wrk'_def
  using updateEchogram_echogram(1)[OF wf, of room s r d_max c_ms]
        updateEchogram_echogram(5)[OF wf, of room s r d_max c_ms]
        updateEchogram_numImageSources[of wrk room s r d_max c_ms]
  by simp_all

lemma updateEchogram_rows_on_lattice:
  fixes wrk room s r d_max c_ms L
  defines "wrk' \<equiv> coreInit_updateEchogram wrk room s r d_max c_ms"
  defines "validL \<equiv> filter (\<lambda>t. pos_dist (image_source room s r t) < d_max) L"
  assumes II: "wrk_II wrk = map (\<lambda>t. of_int (fst t)) L"
      and JJ: "wrk_JJ wrk = map (\<lambda>t. of_int (fst (snd t))) L"
      and KK: "wrk_KK wrk = map (\<lambda>t. of_int (snd (snd t))) L"
      and len: "nat (wrk_lengthVec wrk) = length L"
      and wf: "echogram_wf (wrk_hEchogram wrk)"
  shows "ec_order (wrk_hEchogram wrk') =
           map (\<lambda>t. (int_of_float (of_int (fst t) + 0.5), int_of_float (of_int (fst (snd t)) + 0.5),
                      int_of_float (of_int (snd (snd t)) + 0.5))) validL"
    and "ec_coords (wrk_hEchogram wrk') = map (\<lambda>t. image_source room s r t) validL"
    and "ec_value (wrk_hEchogram wrk') =
           map (\<lambda>t. [if pos_dist (image_source room s r t) \<le> 1 then 1
                       else 1 / pos_dist (image_source room s r t)]) validL"
proof -
  note on = updateEchogram_on_lattice[OF II JJ KK len, of room s r d_max c_ms, folded wrk'_def]
  note rows = updateEchogram_echogram_rows[OF wf, of room s r d_max c_ms, folded wrk'_def, unfolded len]
  have ijk: "wrk_II wrk' = map (\<lambda>t. of_int (fst t)) L" "wrk_JJ wrk' = map (\<lambda>t. of_int (fst (snd t))) L"
    "wrk_KK wrk' = map (\<lambda>t. of_int (snd (snd t))) L"
    by (simp_all add: wrk'_def updateEchogram_fields II JJ KK)
  have f: "filter (\<lambda>imsrc. wrk_s_d wrk' ! imsrc < d_max) [0..<length L]
         = filter (\<lambda>imsrc. pos_dist (image_source room s r (L ! imsrc)) < d_max) [0..<length L]"
    by (rule filter_cong) (simp_all add: on(4))
  have "ec_order (wrk_hEchogram wrk') =
      map (\<lambda>i. (int_of_float (of_int (fst (L ! i)) + 0.5), int_of_float (of_int (fst (snd (L ! i))) + 0.5),
                 int_of_float (of_int (snd (snd (L ! i))) + 0.5)))
        (filter (\<lambda>imsrc. pos_dist (image_source room s r (L ! imsrc)) < d_max) [0..<length L])"
    unfolding rows(1) f by (rule map_cong) (simp_all add: ijk)
  then show "ec_order (wrk_hEchogram wrk') =
           map (\<lambda>t. (int_of_float (of_int (fst t) + 0.5), int_of_float (of_int (fst (snd t)) + 0.5),
                      int_of_float (of_int (snd (snd t)) + 0.5))) validL"
    unfolding validL_def
    using map_filter_nth[of "\<lambda>t. (int_of_float (of_int (fst t) + 0.5), int_of_float (of_int (fst (snd t)) + 0.5),
                      int_of_float (of_int (snd (snd t)) + 0.5))" L "\<lambda>t. pos_dist (image_source room s r t) < d_max"]
    by simp
  have "ec_coords (wrk_hEchogram wrk') =
      map (\<lambda>i. image_source room s r (L ! i))
        (filter (\<lambda>imsrc. pos_dist (image_source room s r (L ! imsrc)) < d_max) [0..<length L])"
    unfolding rows(2) f by (rule map_cong) (simp_all add: on(1,2,3))
  then show "ec_coords (wrk_hEchogram wrk') = map (\<lambda>t. image_source room s r t) validL"
    unfolding validL_def
    using map_filter_nth[of "\<lambda>t. image_source room s r t" L "\<lambda>t. pos_dist (image_source room s r t) < d_max"]
    by simp
  have "ec_value (wrk_hEchogram wrk') =
      map (\<lambda>i. [if pos_dist (image_source room s r (L ! i)) \<le> 1 then 1
                 else 1 / pos_dist (image_source room s r (L ! i))])
        (filter (\<lambda>imsrc. pos_dist (image_source room s r (L ! imsrc)) < d_max) [0..<length L])"
    unfolding rows(3) f by (rule map_cong) (simp_all add: on(4))
  then show "ec_value (wrk_hEchogram wrk') =
           map (\<lambda>t. [if pos_dist (image_source room s r t) \<le> 1 then 1
                       else 1 / pos_dist (image_source room s r t)]) validL"
    unfolding validL_def
    using map_filter_nth[of "\<lambda>t. [if pos_dist (image_source room s r t) \<le> 1 then 1
                       else 1 / pos_dist (image_source room s r t)]" L "\<lambda>t. pos_dist (image_source room s r t) < d_max"]
    by simp
qed

lemma int_of_float_halves:
  "int_of_float (- (1 / 2)) = 0" "int_of_float (1 / 2) = 0" "int_of_float (3 / 2) = 1"
proof -
  have "\<lceil>- (1 / 2 :: real)\<rceil> = 0" "\<lfloor>1 / 2 :: real\<rfloor> = 0" "\<lfloor>3 / 2 :: real\<rfloor> = 1"
    by (simp_all add: ceiling_eq_iff floor_eq_iff)
  then show "int_of_float (- (1 / 2)) = 0" "int_of_float (1 / 2) = 0" "int_of_float (3 / 2) = 1"
    by (simp_all add: int_of_float_def)
qed

lemma example_echogram:
  "ec_numImageSources (wrk_hEchogram example_wrk) = 2"
  "ec_sortedIdx (wrk_hEchogram example_wrk) = [1, 0]"
  "ec_order (wrk_hEchogram example_wrk) = [(0, 0, 0), (0, 0, 0)]"
  "ec_coords (wrk_hEchogram example_wrk) = [Pos 3 (- 4) 0, Pos 3 0 0]"
  "ec_value (wrk_hEchogram example_wrk) = [[1 / 5], [1 / 3]]"
proof -
  let ?w = "coreInit_updateIndices (ims_shoebox_coreWorkspaceCreate 1) (8, 8, 8) 6"
  note lat = updateIndices_lattice[of "ims_shoebox_coreWorkspaceCreate 1" "(8, 8, 8)" 6]
  have wf: "echogram_wf (wrk_hEchogram ?w)"
    by (simp add: updateIndices_fields ims_shoebox_coreWorkspaceCreate_def echogramCreate_wf)
  note rows = updateEchogram_rows_on_lattice[OF lat wf, of "(8, 8, 8)" "Pos (3 / 2) (- 2) 0" "Pos (- 3 / 2) (- 2) 0" 6 4]
  note sidx = updateEchogram_sortedIdx[OF wf, of "(8, 8, 8)" "Pos (3 / 2) (- 2) 0" "Pos (- 3 / 2) (- 2) 0" 6 4,
      folded example_wrk_eq]
  show n: "ec_numImageSources (wrk_hEchogram example_wrk) = 2"
    unfolding sidx(2) by (rule example_wrk_values(1))
  have "[0..<2] = [0, 1]"
    by (simp add: upt_rec)
  then have "sortf [5 / 4, 3 / 4] 2 0 = [1, 0]"
    by (simp add: sortf_def)
  then show "ec_sortedIdx (wrk_hEchogram example_wrk) = [1, 0]"
    unfolding sidx(1) n example_wrk_values(3) .
  show "ec_order (wrk_hEchogram example_wrk) = [(0, 0, 0), (0, 0, 0)]"
    unfolding example_wrk_eq rows(1) lattice_points_example
    by (simp add: image_source_def image_coord_def powf_minus_one_cases pos_dist_def image_dist_sqrt
          sqrt_less_pos_iff power2_eq_square int_of_float_halves)
  show "ec_coords (wrk_hEchogram example_wrk) = [Pos 3 (- 4) 0, Pos 3 0 0]"
    unfolding example_wrk_eq rows(2) lattice_points_example
    by (simp add: image_source_def image_coord_def powf_minus_one_cases pos_dist_def image_dist_sqrt
          sqrt_less_pos_iff power2_eq_square)
  show "ec_value (wrk_hEchogram example_wrk) = [[1 / 5], [1 / 3]]"
    unfolding example_wrk_eq rows(3) lattice_points_example
    by (simp add: image_source_def image_coord_def powf_minus_one_cases pos_dist_def image_dist_sqrt
          sqrt_less_pos_iff power2_eq_square sqrt_squares)
qed


subsection \<open>The time ordering of the raw echogram\<close>

text \<open>
  C5. After a call of \<^verbatim>\<open>ims_shoebox_coreInit\<close> that recomputes the echogram, the index
  vector \<^verbatim>\<open>sortedIdx\<close> of the raw echogram is a permutation of \<open>0, ..., numImageSources - 1\<close>
  (it has that length, no repetition and exactly these members) and walks the times in
  ascending order: \<open>time[sortedIdx[i]] \<le> time[sortedIdx[i+1]]\<close>. The arrays themselves
  stay as the copy loop wrote them, one arrival per in-range lattice index, in the order of
  the lattice enumeration. The sort itself is \<open>sortf\<close>, modelled from the spec.
\<close>

theorem coreInit_sortedIdx_ascending:
  fixes wrk room src rec maxTime_s c_ms
  defines "wrk' \<equiv> ims_shoebox_coreInit wrk room src rec maxTime_s c_ms"
  defines "ec \<equiv> wrk_hEchogram wrk'"
  defines "valid \<equiv> filter (\<lambda>imsrc. wrk_s_d wrk' ! imsrc < maxTime_s * c_ms) [0..<nat (wrk_lengthVec wrk')]"
  assumes recomputed: "wrk_rec wrk \<noteq> room_centred room rec \<or> wrk_src wrk \<noteq> room_centred room src"
      and wf: "echogram_wf (wrk_hEchogram wrk)"
  shows "length (ec_sortedIdx ec) = ec_numImageSources ec
       \<and> distinct (ec_sortedIdx ec)
       \<and> set (ec_sortedIdx ec) = {0..<ec_numImageSources ec}
       \<and> (\<forall>i. i + 1 < ec_numImageSources ec \<longrightarrow>
              ec_time ec ! (ec_sortedIdx ec ! i) \<le> ec_time ec ! (ec_sortedIdx ec ! (i + 1)))
       \<and> ec_time ec = map (\<lambda>imsrc. wrk_s_d wrk' ! imsrc / c_ms) valid
       \<and> ec_value ec = map (\<lambda>imsrc. [if wrk_s_d wrk' ! imsrc \<le> 1 then 1 else 1 / wrk_s_d wrk' ! imsrc]) valid
       \<and> ec_order ec = map (\<lambda>imsrc. (int_of_float (wrk_II wrk' ! imsrc + 0.5),
                                       int_of_float (wrk_JJ wrk' ! imsrc + 0.5),
                                       int_of_float (wrk_KK wrk' ! imsrc + 0.5))) valid
       \<and> ec_coords ec = map (\<lambda>imsrc. Pos (wrk_s_x wrk' ! imsrc) (wrk_s_y wrk' ! imsrc) (wrk_s_z wrk' ! imsrc)) valid"
proof -
  define wrk1 where "wrk1 = (if indices_outdated wrk room (maxTime_s * c_ms)
        then coreInit_updateIndices wrk room (maxTime_s * c_ms) else wrk)"
  have eq: "wrk' = coreInit_updateEchogram wrk1 room (room_centred room src) (room_centred room rec)
                     (maxTime_s * c_ms) c_ms"
    unfolding wrk'_def wrk1_def using recomputed by (rule coreInit_recomputed)
  have wf1: "echogram_wf (wrk_hEchogram wrk1)"
    unfolding wrk1_def using wf by (rule updateIndices_echogram_wf)
  have len: "wrk_lengthVec wrk' = wrk_lengthVec wrk1"
    by (simp add: eq updateEchogram_fields)
  have sidx: "ec_sortedIdx ec = sortf (ec_time ec) (ec_numImageSources ec) 0"
    unfolding ec_def eq using wf1 by (rule updateEchogram_sortedIdx(1))
  have a: "length (ec_sortedIdx ec) = ec_numImageSources ec"
    by (simp add: sidx)
  have b: "distinct (ec_sortedIdx ec)"
    unfolding sidx by (rule sortf_ascending(1))
  have c: "set (ec_sortedIdx ec) = {0..<ec_numImageSources ec}"
    unfolding sidx by (rule sortf_ascending(2))
  have "sorted (map (\<lambda>k. ec_time ec ! k) (ec_sortedIdx ec))"
    unfolding sidx by (rule sortf_ascending(3))
  then have d: "\<forall>i. i + 1 < ec_numImageSources ec \<longrightarrow>
              ec_time ec ! (ec_sortedIdx ec ! i) \<le> ec_time ec ! (ec_sortedIdx ec ! (i + 1))"
    using sorted_map_nth_Suc[of "\<lambda>k. ec_time ec ! k" "ec_sortedIdx ec"] a by simp
  have e: "ec_time ec = map (\<lambda>imsrc. wrk_s_d wrk' ! imsrc / c_ms) valid"
    unfolding ec_def valid_def len unfolding eq using wf1 by (rule updateEchogram_echogram(4))
  have f: "ec_value ec = map (\<lambda>imsrc. [if wrk_s_d wrk' ! imsrc \<le> 1 then 1 else 1 / wrk_s_d wrk' ! imsrc]) valid"
    unfolding ec_def valid_def len unfolding eq using wf1 by (rule updateEchogram_echogram_rows(3))
  have g: "ec_order ec = map (\<lambda>imsrc. (int_of_float (wrk_II wrk' ! imsrc + 0.5),
                                       int_of_float (wrk_JJ wrk' ! imsrc + 0.5),
                                       int_of_float (wrk_KK wrk' ! imsrc + 0.5))) valid"
    unfolding ec_def valid_def len unfolding eq using wf1 by (rule updateEchogram_echogram_rows(1))
  have h: "ec_coords ec = map (\<lambda>imsrc. Pos (wrk_s_x wrk' ! imsrc) (wrk_s_y wrk' ! imsrc) (wrk_s_z wrk' ! imsrc)) valid"
    unfolding ec_def valid_def len unfolding eq using wf1 by (rule updateEchogram_echogram_rows(2))
  from a b c d e f g h show ?thesis by blast
qed

theorem coreInit_sortedIdx_ascending_witness:
  "wrk_rec (ims_shoebox_coreWorkspaceCreate 1) \<noteq> room_centred (8, 8, 8) (Pos (5 / 2) 6 4)
   \<and> echogram_wf (wrk_hEchogram (ims_shoebox_coreWorkspaceCreate 1))
   \<and> ec_time (wrk_hEchogram example_wrk) = [5 / 4, 3 / 4]
   \<and> ec_sortedIdx (wrk_hEchogram example_wrk) = [1, 0]
   \<and> distinct (ec_sortedIdx (wrk_hEchogram example_wrk))
   \<and> set (ec_sortedIdx (wrk_hEchogram example_wrk)) = {0..<ec_numImageSources (wrk_hEchogram example_wrk)}"
proof -
  have h1: "wrk_rec (ims_shoebox_coreWorkspaceCreate 1) \<noteq> room_centred (8, 8, 8) (Pos (5 / 2) 6 4)"
    by (simp add: ims_shoebox_coreWorkspaceCreate_def room_centred_def)
  have h2: "echogram_wf (wrk_hEchogram (ims_shoebox_coreWorkspaceCreate 1))"
    by (simp add: ims_shoebox_coreWorkspaceCreate_def echogramCreate_wf)
  note inst = coreInit_sortedIdx_ascending[where wrk = "ims_shoebox_coreWorkspaceCreate 1"
      and room = "(8, 8, 8)" and src = "Pos (11 / 2) 6 4" and rec = "Pos (5 / 2) 6 4"
      and maxTime_s = "3 / 2" and c_ms = 4, OF disjI1, OF h1 h2]
  from inst have "distinct (ec_sortedIdx (wrk_hEchogram example_wrk))"
    "set (ec_sortedIdx (wrk_hEchogram example_wrk)) = {0..<ec_numImageSources (wrk_hEchogram example_wrk)}"
    by blast+
  with h1 h2 example_wrk_values(3) example_echogram(2) show ?thesis
    by (simp only: simp_thms)
qed

subsection \<open>Receiver directivity\<close>

lemma ORDER2NSH_zero: "ORDER2NSH 0 = 1"
  by (simp add: ORDER2NSH_def)

lemma RecModuleSH_fields:
  fixes u g wrk sh_order
  defines "wrk' \<equiv> ims_shoebox_coreRecModuleSH u g wrk sh_order"
  defines "raw \<equiv> wrk_hEchogram wrk"
  defines "dst \<equiv> wrk_hEchogram_rec wrk'"
  shows "ec_numImageSources dst = ec_numImageSources raw"
    and "ec_nChannels dst = ORDER2NSH sh_order"
    and "ec_time dst = map (\<lambda>i. ec_time raw ! (ec_sortedIdx raw ! i)) [0..<ec_numImageSources raw]"
    and "ec_order dst = map (\<lambda>i. ec_order raw ! (ec_sortedIdx raw ! i)) [0..<ec_numImageSources raw]"
    and "ec_coords dst = map (\<lambda>i. ec_coords raw ! (ec_sortedIdx raw ! i)) [0..<ec_numImageSources raw]"
    and "ec_sortedIdx dst = [0..<ec_numImageSources raw]"
    and "wrk_hEchogram wrk' = wrk_hEchogram wrk"
  unfolding dst_def wrk'_def raw_def
  by (simp_all add: ims_shoebox_coreRecModuleSH_def Let_def)

lemma RecModuleSH_value_omni:
  fixes u g wrk
  defines "wrk' \<equiv> ims_shoebox_coreRecModuleSH u g wrk 0"
  defines "raw \<equiv> wrk_hEchogram wrk"
  defines "rec0 \<equiv> ims_shoebox_echogramResize (wrk_hEchogram_rec wrk) (ec_numImageSources raw) 1"
  shows "ec_value (wrk_hEchogram_rec wrk') =
           map (\<lambda>i. (ec_value rec0 ! i)[0 := ec_value raw ! (ec_sortedIdx raw ! i) ! 0])
             [0..<ec_numImageSources raw]"
  unfolding wrk'_def raw_def rec0_def
  by (simp add: ims_shoebox_coreRecModuleSH_def Let_def ORDER2NSH_zero)

text \<open>
  C6. Let the raw echogram have arrays of the sizes its counters say and an index vector
  that holds valid indices and walks its times in ascending order (the state every
  recomputation by \<^verbatim>\<open>ims_shoebox_coreInit\<close> leaves, and the state of a fresh workspace).
  After \<^verbatim>\<open>ims_shoebox_coreRecModuleSH\<close>, for any order and any spherical-harmonic
  evaluator, the destination echogram has as many arrivals, its \<^verbatim>\<open>time\<close> array is
  non-decreasing in array order, its \<^verbatim>\<open>sortedIdx\<close> is the identity \<open>0, 1, ..., n - 1\<close>, and
  its \<^verbatim>\<open>time\<close>, \<^verbatim>\<open>order\<close> and \<^verbatim>\<open>coords\<close> are the source's entries read through the
  source's \<^verbatim>\<open>sortedIdx\<close>.
\<close>

theorem RecModuleSH_time_ordered:
  fixes unitCart2Sph getSHreal_recur wrk sh_order
  defines "wrk' \<equiv> ims_shoebox_coreRecModuleSH unitCart2Sph getSHreal_recur wrk sh_order"
  defines "raw \<equiv> wrk_hEchogram wrk"
  defines "dst \<equiv> wrk_hEchogram_rec wrk'"
  assumes wf: "echogram_wf (wrk_hEchogram wrk)"
      and asc: "sortedIdx_ascending (wrk_hEchogram wrk)"
  shows "ec_numImageSources dst = ec_numImageSources raw
       \<and> (\<forall>i. i + 1 < ec_numImageSources dst \<longrightarrow> ec_time dst ! i \<le> ec_time dst ! (i + 1))
       \<and> sorted (ec_time dst)
       \<and> ec_sortedIdx dst = [0..<ec_numImageSources dst]
       \<and> ec_time dst = map (\<lambda>k. ec_time raw ! k) (ec_sortedIdx raw)
       \<and> ec_order dst = map (\<lambda>k. ec_order raw ! k) (ec_sortedIdx raw)
       \<and> ec_coords dst = map (\<lambda>k. ec_coords raw ! k) (ec_sortedIdx raw)"
proof -
  note f = RecModuleSH_fields[of unitCart2Sph getSHreal_recur wrk sh_order,
      folded wrk'_def, folded dst_def raw_def]
  have len: "length (ec_sortedIdx raw) = ec_numImageSources raw"
    using wf by (simp add: echogram_wf_def raw_def)
  have t: "ec_time dst = map (\<lambda>k. ec_time raw ! k) (ec_sortedIdx raw)"
    unfolding f(3) len[symmetric] by (rule map_nth_all)
  have o: "ec_order dst = map (\<lambda>k. ec_order raw ! k) (ec_sortedIdx raw)"
    unfolding f(4) len[symmetric] by (rule map_nth_all)
  have c: "ec_coords dst = map (\<lambda>k. ec_coords raw ! k) (ec_sortedIdx raw)"
    unfolding f(5) len[symmetric] by (rule map_nth_all)
  have s: "sorted (ec_time dst)"
    unfolding t using asc by (simp add: sortedIdx_ascending_def raw_def)
  have "length (ec_time dst) = ec_numImageSources dst"
    by (simp add: f(1) f(3))
  with s have n: "\<forall>i. i + 1 < ec_numImageSources dst \<longrightarrow> ec_time dst ! i \<le> ec_time dst ! (i + 1)"
    by (simp add: sorted_iff_nth_Suc)
  from f(1) f(6) t o c s n show ?thesis
    by simp
qed

text \<open>
  C7. For spherical-harmonic order 0, whatever the spherical-harmonic evaluator, the
  destination echogram of \<^verbatim>\<open>ims_shoebox_coreRecModuleSH\<close> has one channel and its gains
  are the gains of the raw echogram read through the raw \<^verbatim>\<open>sortedIdx\<close>, unweighted. The
  raw echogram is a one-channel echogram whose arrays have the sizes its counters say, as
  \<^verbatim>\<open>ims_shoebox_coreInit\<close> leaves it; the destination's arrays likewise.
\<close>

theorem RecModuleSH_order0_copies_gains:
  fixes unitCart2Sph getSHreal_recur wrk
  defines "wrk' \<equiv> ims_shoebox_coreRecModuleSH unitCart2Sph getSHreal_recur wrk 0"
  defines "raw \<equiv> wrk_hEchogram wrk"
  defines "dst \<equiv> wrk_hEchogram_rec wrk'"
  assumes wf: "echogram_wf (wrk_hEchogram wrk)"
      and omni: "ec_nChannels (wrk_hEchogram wrk) = 1"
      and idx: "list_all (\<lambda>k. k < ec_numImageSources (wrk_hEchogram wrk)) (ec_sortedIdx (wrk_hEchogram wrk))"
      and wf_rec: "echogram_wf (wrk_hEchogram_rec wrk)"
  shows "ec_nChannels dst = 1
       \<and> ec_numImageSources dst = ec_numImageSources raw
       \<and> ec_value dst = map (\<lambda>k. ec_value raw ! k) (ec_sortedIdx raw)
       \<and> (\<forall>i. i < ec_numImageSources dst \<longrightarrow>
              ec_value dst ! i = [ec_value raw ! (ec_sortedIdx raw ! i) ! 0])"
proof -
  define rec0 where "rec0 = ims_shoebox_echogramResize (wrk_hEchogram_rec wrk) (ec_numImageSources raw) 1"
  note f = RecModuleSH_fields[of unitCart2Sph getSHreal_recur wrk 0,
      folded wrk'_def, folded dst_def raw_def]
  have v: "ec_value dst = map (\<lambda>i. (ec_value rec0 ! i)[0 := ec_value raw ! (ec_sortedIdx raw ! i) ! 0])
             [0..<ec_numImageSources raw]"
    unfolding dst_def wrk'_def raw_def rec0_def by (rule RecModuleSH_value_omni)
  have len: "length (ec_sortedIdx raw) = ec_numImageSources raw"
    "length (ec_value raw) = ec_numImageSources raw"
    "list_all (\<lambda>row. length row = Suc 0) (ec_value raw)"
    using wf omni by (simp_all add: echogram_wf_def raw_def)
  have wf0: "echogram_wf rec0"
    unfolding rec0_def using wf_rec by (rule Resize_wf)
  then have rows0: "length (ec_value rec0) = ec_numImageSources raw"
    "list_all (\<lambda>row. length row = Suc 0) (ec_value rec0)"
    by (simp_all add: echogram_wf_def rec0_def)
  have row: "(ec_value rec0 ! i)[0 := g] = [g]" if "i < ec_numImageSources raw" for i g
    using rows0 that by (intro singleton_update) (simp add: list_all_length)
  have src_row: "[ec_value raw ! (ec_sortedIdx raw ! i) ! 0] = ec_value raw ! (ec_sortedIdx raw ! i)"
    if "i < ec_numImageSources raw" for i
  proof -
    from idx that len(1) have "ec_sortedIdx raw ! i < ec_numImageSources raw"
      by (simp add: list_all_length raw_def)
    with len(2,3) have "length (ec_value raw ! (ec_sortedIdx raw ! i)) = Suc 0"
      by (simp add: list_all_length)
    then show ?thesis
      by (cases "ec_value raw ! (ec_sortedIdx raw ! i)") simp_all
  qed
  have v1: "ec_value dst = map (\<lambda>i. [ec_value raw ! (ec_sortedIdx raw ! i) ! 0]) [0..<ec_numImageSources raw]"
    unfolding v by (rule map_cong) (simp_all add: row)
  also have "\<dots> = map (\<lambda>i. ec_value raw ! (ec_sortedIdx raw ! i)) [0..<ec_numImageSources raw]"
    by (rule map_cong) (simp_all add: src_row)
  also have "\<dots> = map (\<lambda>k. ec_value raw ! k) (ec_sortedIdx raw)"
    unfolding len(1)[symmetric] by (rule map_nth_all)
  finally have v2: "ec_value dst = map (\<lambda>k. ec_value raw ! k) (ec_sortedIdx raw)" .
  have v3: "\<forall>i. i < ec_numImageSources dst \<longrightarrow>
              ec_value dst ! i = [ec_value raw ! (ec_sortedIdx raw ! i) ! 0]"
    by (simp add: v1 f(1))
  from f(1) f(2) v2 v3 show ?thesis
    by (simp add: ORDER2NSH_zero)
qed


lemma updateIndices_frame:
  "wrk_hEchogram_rec (coreInit_updateIndices wrk room d) = wrk_hEchogram_rec wrk"
  "wrk_hEchogram_abs (coreInit_updateIndices wrk room d) = wrk_hEchogram_abs wrk"
  "wrk_nBands (coreInit_updateIndices wrk room d) = wrk_nBands wrk"
  by (simp_all add: coreInit_updateIndices_def Let_def split: prod.splits)

lemma updateEchogram_frame:
  "wrk_hEchogram_rec (coreInit_updateEchogram wrk room s r d c) = wrk_hEchogram_rec wrk"
  "wrk_hEchogram_abs (coreInit_updateEchogram wrk room s r d c) = wrk_hEchogram_abs wrk"
  "wrk_nBands (coreInit_updateEchogram wrk room s r d c) = wrk_nBands wrk"
proof -
  have i: "wrk_hEchogram_rec (coreInit_imageSources wrk room s r) = wrk_hEchogram_rec wrk"
    "wrk_hEchogram_abs (coreInit_imageSources wrk room s r) = wrk_hEchogram_abs wrk"
    "wrk_nBands (coreInit_imageSources wrk room s r) = wrk_nBands wrk"
    by (simp_all add: coreInit_imageSources_def Let_def split: prod.splits)
  have c: "wrk_hEchogram_rec (coreInit_cull w d) = wrk_hEchogram_rec w"
    "wrk_hEchogram_abs (coreInit_cull w d) = wrk_hEchogram_abs w"
    "wrk_nBands (coreInit_cull w d) = wrk_nBands w" for w
    by (simp_all add: coreInit_cull_def)
  have f: "wrk_hEchogram_rec (coreInit_fillEchogram w c) = wrk_hEchogram_rec w"
    "wrk_hEchogram_abs (coreInit_fillEchogram w c) = wrk_hEchogram_abs w"
    "wrk_nBands (coreInit_fillEchogram w c) = wrk_nBands w" for w
    by (simp_all add: coreInit_fillEchogram_def Let_def)
  show "wrk_hEchogram_rec (coreInit_updateEchogram wrk room s r d c) = wrk_hEchogram_rec wrk"
    "wrk_hEchogram_abs (coreInit_updateEchogram wrk room s r d c) = wrk_hEchogram_abs wrk"
    "wrk_nBands (coreInit_updateEchogram wrk room s r d c) = wrk_nBands wrk"
    by (simp_all add: coreInit_updateEchogram_def i c f)
qed

lemma coreInit_frame:
  "wrk_hEchogram_rec (ims_shoebox_coreInit wrk room src rec maxTime_s c_ms) = wrk_hEchogram_rec wrk"
  "wrk_hEchogram_abs (ims_shoebox_coreInit wrk room src rec maxTime_s c_ms) = wrk_hEchogram_abs wrk"
  "wrk_nBands (ims_shoebox_coreInit wrk room src rec maxTime_s c_ms) = wrk_nBands wrk"
  by (simp_all add: ims_shoebox_coreInit_def Let_def updateIndices_frame updateEchogram_frame)

lemma coreInit_invariants:
  fixes wrk room src rec maxTime_s c_ms
  defines "wrk' \<equiv> ims_shoebox_coreInit wrk room src rec maxTime_s c_ms"
  assumes wf: "echogram_wf (wrk_hEchogram wrk)"
      and asc: "sortedIdx_ascending (wrk_hEchogram wrk)"
  shows "echogram_wf (wrk_hEchogram wrk')" and "sortedIdx_ascending (wrk_hEchogram wrk')"
proof -
  define wrk1 where "wrk1 = (if indices_outdated wrk room (maxTime_s * c_ms)
        then coreInit_updateIndices wrk room (maxTime_s * c_ms) else wrk)"
  have e1: "wrk_hEchogram wrk1 = wrk_hEchogram wrk"
    by (simp add: wrk1_def updateIndices_fields)
  show "echogram_wf (wrk_hEchogram wrk')" "sortedIdx_ascending (wrk_hEchogram wrk')"
  proof (atomize (full), cases "echogram_outdated wrk1 room (room_centred room src) (room_centred room rec)")
    case True
    then have eq: "wrk' = coreInit_updateEchogram wrk1 room (room_centred room src) (room_centred room rec)
                     (maxTime_s * c_ms) c_ms"
      by (simp add: wrk'_def ims_shoebox_coreInit_def Let_def wrk1_def)
    from wf have wf1: "echogram_wf (wrk_hEchogram wrk1)"
      by (simp add: e1)
    have a: "echogram_wf (wrk_hEchogram wrk')"
      unfolding eq using wf1 by (rule updateEchogram_echogram(3))
    have sidx: "ec_sortedIdx (wrk_hEchogram wrk') =
        sortf (ec_time (wrk_hEchogram wrk')) (ec_numImageSources (wrk_hEchogram wrk')) 0"
      unfolding eq using wf1 by (rule updateEchogram_sortedIdx(1))
    have "sortedIdx_ascending (wrk_hEchogram wrk')"
      unfolding sortedIdx_ascending_def
      using sortf_ascending(2,3)[of "ec_time (wrk_hEchogram wrk')" "ec_numImageSources (wrk_hEchogram wrk')"]
      by (simp add: sidx[symmetric] list_all_iff)
    with a show "echogram_wf (wrk_hEchogram wrk') \<and> sortedIdx_ascending (wrk_hEchogram wrk')"
      by simp
  next
    case False
    then have "wrk' = wrk1"
      by (simp add: wrk'_def ims_shoebox_coreInit_def Let_def wrk1_def)
    with wf asc show "echogram_wf (wrk_hEchogram wrk') \<and> sortedIdx_ascending (wrk_hEchogram wrk')"
      by (simp add: e1)
  qed
qed

lemma echogramCreate_ascending: "sortedIdx_ascending ims_shoebox_echogramCreate"
  by (simp add: sortedIdx_ascending_def ims_shoebox_echogramCreate_def)

lemma example_invariants:
  "echogram_wf (wrk_hEchogram example_wrk)" "sortedIdx_ascending (wrk_hEchogram example_wrk)"
  "echogram_wf (wrk_hEchogram_rec example_wrk)" "ec_nChannels (wrk_hEchogram example_wrk) = 1"
proof -
  have c: "wrk_hEchogram (ims_shoebox_coreWorkspaceCreate 1) = ims_shoebox_echogramCreate"
    "wrk_hEchogram_rec (ims_shoebox_coreWorkspaceCreate 1) = ims_shoebox_echogramCreate"
    by (simp_all add: ims_shoebox_coreWorkspaceCreate_def)
  show "echogram_wf (wrk_hEchogram example_wrk)" "sortedIdx_ascending (wrk_hEchogram example_wrk)"
    by (rule coreInit_invariants; simp only: c echogramCreate_wf echogramCreate_ascending)+
  show "echogram_wf (wrk_hEchogram_rec example_wrk)"
    by (simp only: coreInit_frame c echogramCreate_wf)
  have wf: "echogram_wf (wrk_hEchogram (coreInit_updateIndices (ims_shoebox_coreWorkspaceCreate 1) (8, 8, 8) 6))"
    by (simp add: updateIndices_fields ims_shoebox_coreWorkspaceCreate_def echogramCreate_wf)
  show "ec_nChannels (wrk_hEchogram example_wrk) = 1"
    unfolding example_wrk_eq using wf by (rule updateEchogram_echogram(2))
qed

theorem RecModuleSH_time_ordered_witness:
  "echogram_wf (wrk_hEchogram example_wrk)
   \<and> sortedIdx_ascending (wrk_hEchogram example_wrk)
   \<and> ec_time (wrk_hEchogram example_wrk) = [5 / 4, 3 / 4]
   \<and> ec_sortedIdx (wrk_hEchogram example_wrk) = [1, 0]
   \<and> ec_time (wrk_hEchogram_rec (ims_shoebox_coreRecModuleSH (\<lambda>p. (0, 0)) (\<lambda>n d. [1, 1, 1, 1]) example_wrk 1))
       = [3 / 4, 5 / 4]
   \<and> ec_coords (wrk_hEchogram_rec (ims_shoebox_coreRecModuleSH (\<lambda>p. (0, 0)) (\<lambda>n d. [1, 1, 1, 1]) example_wrk 1))
       = [Pos 3 0 0, Pos 3 (- 4) 0]
   \<and> ec_sortedIdx (wrk_hEchogram_rec (ims_shoebox_coreRecModuleSH (\<lambda>p. (0, 0)) (\<lambda>n d. [1, 1, 1, 1]) example_wrk 1))
       = [0, 1]"
proof -
  have u: "[0..<2] = [0, 1::nat]"
    by (simp add: upt_rec)
  show ?thesis
    using RecModuleSH_time_ordered[where wrk = example_wrk and sh_order = 1
      and unitCart2Sph = "\<lambda>p. (0, 0)" and getSHreal_recur = "\<lambda>n d. [1, 1, 1, 1]",
      OF example_invariants(1,2)]
      example_invariants(1,2) example_wrk_values(3) example_echogram u
    by simp
qed

theorem RecModuleSH_order0_copies_gains_witness:
  "echogram_wf (wrk_hEchogram example_wrk)
   \<and> ec_nChannels (wrk_hEchogram example_wrk) = 1
   \<and> list_all (\<lambda>k. k < ec_numImageSources (wrk_hEchogram example_wrk)) (ec_sortedIdx (wrk_hEchogram example_wrk))
   \<and> echogram_wf (wrk_hEchogram_rec example_wrk)
   \<and> ec_value (wrk_hEchogram example_wrk) = [[1 / 5], [1 / 3]]
   \<and> ec_value (wrk_hEchogram_rec (ims_shoebox_coreRecModuleSH (\<lambda>p. (0, 0)) (\<lambda>n d. [7]) example_wrk 0))
       = [[1 / 3], [1 / 5]]
   \<and> ec_nChannels (wrk_hEchogram_rec (ims_shoebox_coreRecModuleSH (\<lambda>p. (0, 0)) (\<lambda>n d. [7]) example_wrk 0)) = 1"
proof -
  have idx: "list_all (\<lambda>k. k < ec_numImageSources (wrk_hEchogram example_wrk)) (ec_sortedIdx (wrk_hEchogram example_wrk))"
    using example_invariants(2) by (simp only: sortedIdx_ascending_def)
  show ?thesis
    using RecModuleSH_order0_copies_gains[where wrk = example_wrk
      and unitCart2Sph = "\<lambda>p. (0, 0)" and getSHreal_recur = "\<lambda>n d. [7]",
      OF example_invariants(1) example_invariants(4) idx example_invariants(3)]
      example_invariants(1,3,4) idx example_echogram
    by simp
qed

subsection \<open>Wall absorption\<close>

lemma powf_one_base: "powf 1 e = 1"
  by (simp add: powf_def)

lemma axis_attenuation_lossless: "axis_attenuation 1 1 m = 1"
  by (simp add: axis_attenuation_def powf_one_base)

lemma s_abs_tot_lossless:
  assumes "\<And>k. k < 6 \<Longrightarrow> abs_wall_band ! k = 0"
  shows "s_abs_tot abs_wall_band ord = 1"
proof -
  have "sqrtf (1 - abs_wall_band ! k) = 1" if "k < 6" for k
    using assms[OF that] by (simp add: sqrtf_def)
  then show ?thesis
    by (simp add: s_abs_tot_def Let_def axis_attenuation_lossless)
qed

lemma utility_svsmul_one: "utility_svsmul a 1 len = a"
  by (simp add: utility_svsmul_def)

lemma memcpy_all: "length dst = n \<Longrightarrow> length xs = n \<Longrightarrow> memcpy dst xs n = xs"
  by (simp add: memcpy_def)

lemma absorption_band_fields:
  "ec_numImageSources (absorption_band echogram_rec echogram_abs a) = ec_numImageSources echogram_rec"
  "ec_nChannels (absorption_band echogram_rec echogram_abs a) = ec_nChannels echogram_rec"
  "ec_time (absorption_band echogram_rec echogram_abs a) =
     memcpy (ec_time (ims_shoebox_echogramResize echogram_abs (ec_numImageSources echogram_rec) (ec_nChannels echogram_rec)))
       (ec_time echogram_rec) (ec_numImageSources echogram_rec)"
  by (simp_all add: absorption_band_def Let_def)

lemma absorption_band_value:
  assumes wf_rec: "echogram_wf echogram_rec" and wf_abs: "echogram_wf echogram_abs"
  shows "ec_value (absorption_band echogram_rec echogram_abs a) =
     map (\<lambda>i. utility_svsmul (ec_value echogram_rec ! i) (s_abs_tot a (ec_order echogram_rec ! i))
                 (ec_nChannels echogram_rec))
       [0..<ec_numImageSources echogram_rec]"
proof -
  define abs0 where "abs0 = ims_shoebox_echogramResize echogram_abs
                   (ec_numImageSources echogram_rec) (ec_nChannels echogram_rec)"
  have wf0: "echogram_wf abs0"
    unfolding abs0_def using wf_abs by (rule Resize_wf)
  have n0: "ec_numImageSources abs0 = ec_numImageSources echogram_rec"
    "ec_nChannels abs0 = ec_nChannels echogram_rec"
    by (simp_all add: abs0_def)
  have v: "memcpy (ec_value abs0) (ec_value echogram_rec) (ec_numImageSources echogram_rec) = ec_value echogram_rec"
    using wf0 wf_rec by (intro memcpy_all) (simp_all add: echogram_wf_def n0)
  have o: "memcpy (ec_order abs0) (ec_order echogram_rec) (ec_numImageSources echogram_rec) = ec_order echogram_rec"
    using wf0 wf_rec by (intro memcpy_all) (simp_all add: echogram_wf_def n0)
  show ?thesis
    unfolding absorption_band_def abs0_def[symmetric]
    by (simp add: Let_def n0 v o)
qed

text \<open>
  C8. When the six wall absorption coefficients of a band are 0, the total attenuation
  scalar \<^verbatim>\<open>s_abs_tot\<close> (the product of the three per-axis attenuations computed from the
  reflection coefficients \<open>sqrt (1 - absorption)\<close>) is 1 for every reflection-order
  triple, and after \<^verbatim>\<open>ims_shoebox_coreAbsorptionModule\<close> the gain vectors of that band's
  echogram are those of the directivity-encoded echogram. The arrays of the two echograms
  have the sizes their counters say, as the earlier stages leave them.
\<close>

theorem absorption_lossless:
  fixes wrk abs_wall band
  defines "wrk' \<equiv> ims_shoebox_coreAbsorptionModule wrk abs_wall"
  assumes band: "band < wrk_nBands wrk"
      and zero: "\<And>k. k < 6 \<Longrightarrow> abs_wall ! band ! k = 0"
      and wf_rec: "echogram_wf (wrk_hEchogram_rec wrk)"
      and wf_abs: "echogram_wf (wrk_hEchogram_abs wrk ! band)"
  shows "(\<forall>ord. s_abs_tot (abs_wall ! band) ord = 1)
       \<and> ec_value (wrk_hEchogram_abs wrk' ! band) = ec_value (wrk_hEchogram_rec wrk)
       \<and> ec_numImageSources (wrk_hEchogram_abs wrk' ! band) = ec_numImageSources (wrk_hEchogram_rec wrk)
       \<and> ec_nChannels (wrk_hEchogram_abs wrk' ! band) = ec_nChannels (wrk_hEchogram_rec wrk)"
proof -
  have one: "s_abs_tot (abs_wall ! band) ord = 1" for ord
    using zero by (rule s_abs_tot_lossless)
  have b: "wrk_hEchogram_abs wrk' ! band =
      absorption_band (wrk_hEchogram_rec wrk) (wrk_hEchogram_abs wrk ! band) (abs_wall ! band)"
    using band by (simp add: wrk'_def ims_shoebox_coreAbsorptionModule_def)
  have len: "length (ec_value (wrk_hEchogram_rec wrk)) = ec_numImageSources (wrk_hEchogram_rec wrk)"
    using wf_rec by (simp add: echogram_wf_def)
  have "ec_value (wrk_hEchogram_abs wrk' ! band) =
      map (\<lambda>i. ec_value (wrk_hEchogram_rec wrk) ! i) [0..<ec_numImageSources (wrk_hEchogram_rec wrk)]"
    unfolding b absorption_band_value[OF wf_rec wf_abs]
    by (simp add: one utility_svsmul_one)
  then have v: "ec_value (wrk_hEchogram_abs wrk' ! band) = ec_value (wrk_hEchogram_rec wrk)"
    unfolding len[symmetric] by (simp add: map_nth)
  from one v show ?thesis
    by (simp add: b absorption_band_fields)
qed

theorem absorption_lossless_witness:
  "(0::nat) < wrk_nBands encoded_wrk
   \<and> list_all (\<lambda>a. a = 0) ([[0, 0, 0, 0, 0, 0]] ! 0 :: real list)
   \<and> echogram_wf (wrk_hEchogram_rec encoded_wrk)
   \<and> echogram_wf (wrk_hEchogram_abs encoded_wrk ! 0)
   \<and> s_abs_tot ([[0, 0, 0, 0, 0, 0]] ! 0) (2, - 1, 3) = 1
   \<and> ec_value (wrk_hEchogram_abs (ims_shoebox_coreAbsorptionModule encoded_wrk [[0, 0, 0, 0, 0, 0]]) ! 0)
       = [[1 / 3], [1 / 5]]"
proof -
  have h1: "0 < wrk_nBands encoded_wrk"
    by (simp add: ims_shoebox_coreWorkspaceCreate_def)
  have h2: "([[0, 0, 0, 0, 0, 0]] :: real list list) ! 0 ! k = 0" if "k < 6" for k
  proof -
    from that have "k \<in> {0, 1, 2, 3, 4, 5}" by auto
    then show ?thesis by auto
  qed
  have h3: "echogram_wf (wrk_hEchogram_rec encoded_wrk)"
    by (simp add: echogram_wf_def)
  have h4: "echogram_wf (wrk_hEchogram_abs encoded_wrk ! 0)"
    by (simp add: ims_shoebox_coreWorkspaceCreate_def echogramCreate_wf)
  have v: "ec_value (wrk_hEchogram_rec encoded_wrk) = [[1 / 3], [1 / 5]]"
    by simp
  show ?thesis
    using absorption_lossless[where band = 0 and wrk = encoded_wrk and abs_wall = "[[0, 0, 0, 0, 0, 0]]",
        OF h1 h2 h3 h4] h1 h3 h4 v
    by simp
qed

subsection \<open>Single-precision rounding\<close>

lemma float_exponent_from_range:
  "e \<le> float_exponent_from n e a \<and> float_exponent_from n e a \<le> e + int n"
proof (induction n arbitrary: e)
  case 0
  show ?case by simp
next
  case (Suc n)
  from Suc[of "e + 1"] show ?case by simp
qed

lemma float_exponent_from_upper:
  "float_exponent_from n e a < e + int n \<Longrightarrow> a < 2 powi (float_exponent_from n e a + 1)"
proof (induction n arbitrary: e)
  case 0
  then show ?case by simp
next
  case (Suc n)
  show ?case
  proof (cases "a < 2 powi (e + 1)")
    case True
    then show ?thesis by simp
  next
    case False
    with Suc.prems have "float_exponent_from n (e + 1) a < (e + 1) + int n" by simp
    from Suc.IH[OF this] False show ?thesis by simp
  qed
qed

lemma float_exponent_from_lower:
  "e < float_exponent_from n e a \<Longrightarrow> 2 powi (float_exponent_from n e a) \<le> a"
proof (induction n arbitrary: e)
  case 0
  then show ?case by simp
next
  case (Suc n)
  show ?case
  proof (cases "a < 2 powi (e + 1)")
    case True
    with Suc.prems show ?thesis by simp
  next
    case False
    show ?thesis
    proof (cases "e + 1 < float_exponent_from n (e + 1) a")
      case True
      from Suc.IH[OF this] False show ?thesis by simp
    next
      case f: False
      with float_exponent_from_range[of "e + 1" n a]
      have "float_exponent_from n (e + 1) a = e + 1" by linarith
      with False show ?thesis by simp
    qed
  qed
qed

lemma float_exponent_range: "- 126 \<le> float_exponent x" "float_exponent x \<le> 127"
  using float_exponent_from_range[of "- 126" 253 "\<bar>x\<bar>"] by (simp_all add: float_exponent_def)

lemma float_exponent_upper: "float_exponent x < 127 \<Longrightarrow> \<bar>x\<bar> < 2 powi (float_exponent x + 1)"
  using float_exponent_from_upper[of 253 "- 126" "\<bar>x\<bar>"] by (simp add: float_exponent_def)

lemma float_exponent_lower: "- 126 < float_exponent x \<Longrightarrow> 2 powi (float_exponent x) \<le> \<bar>x\<bar>"
  using float_exponent_from_lower[of "- 126" 253 "\<bar>x\<bar>"] by (simp add: float_exponent_def)

lemma powi2_mono: "(a::int) \<le> b \<Longrightarrow> (2::real) powi a \<le> 2 powi b"
  by (rule power_int_increasing) simp_all

lemma powi2_pos: "0 < (2::real) powi e"
  by simp

lemma float_exponent_mono:
  assumes "\<bar>x\<bar> \<le> \<bar>y\<bar>"
  shows "float_exponent x \<le> float_exponent y"
proof (rule ccontr)
  assume "\<not> ?thesis"
  then have lt: "float_exponent y < float_exponent x" by simp
  with float_exponent_range[of y] have "- 126 < float_exponent x" by linarith
  then have l: "2 powi (float_exponent x) \<le> \<bar>x\<bar>" by (rule float_exponent_lower)
  from lt float_exponent_range[of x] have "float_exponent y < 127" by linarith
  then have u: "\<bar>y\<bar> < 2 powi (float_exponent y + 1)" by (rule float_exponent_upper)
  from lt have "(2::real) powi (float_exponent y + 1) \<le> 2 powi (float_exponent x)"
    by (intro powi2_mono) simp
  with l u assms show False by linarith
qed

lemma float_exponent_eq:
  assumes "- 126 \<le> e" "e \<le> 127" "2 powi e \<le> \<bar>x\<bar>" "\<bar>x\<bar> < 2 powi (e + 1)"
  shows "float_exponent x = e"
proof (rule antisym)
  show "float_exponent x \<le> e"
  proof (rule ccontr)
    assume "\<not> ?thesis"
    then have lt: "e < float_exponent x" by simp
    with assms(1) have "2 powi (float_exponent x) \<le> \<bar>x\<bar>" by (intro float_exponent_lower) simp
    moreover from lt have "(2::real) powi (e + 1) \<le> 2 powi (float_exponent x)"
      by (intro powi2_mono) simp
    ultimately show False using assms(4) by linarith
  qed
  show "e \<le> float_exponent x"
  proof (rule ccontr)
    assume "\<not> ?thesis"
    then have lt: "float_exponent x < e" by simp
    with assms(2) have "\<bar>x\<bar> < 2 powi (float_exponent x + 1)" by (intro float_exponent_upper) simp
    moreover from lt have "(2::real) powi (float_exponent x + 1) \<le> 2 powi e"
      by (intro powi2_mono) simp
    ultimately show False using assms(3) by linarith
  qed
qed

lemma round_even_of_int: "round_even (of_int n) = n"
  by (simp add: round_even_def)

lemma round_even_bounds: "\<lfloor>x\<rfloor> \<le> round_even x" "round_even x \<le> \<lfloor>x\<rfloor> + 1"
  by (simp_all add: round_even_def)

lemma round_even_mono:
  assumes "x \<le> y"
  shows "round_even x \<le> round_even y"
proof (cases "\<lfloor>x\<rfloor> = \<lfloor>y\<rfloor>")
  case True
  with assms show ?thesis by (auto simp add: round_even_def)
next
  case False
  with assms have "\<lfloor>x\<rfloor> < \<lfloor>y\<rfloor>" using floor_mono[of x y] by linarith
  with round_even_bounds(2)[of x] round_even_bounds(1)[of y] show ?thesis by linarith
qed

lemma float_round_zero: "float_round 0 = 0"
  by (simp add: float_round_def round_even_def)

lemma float_round_nonneg:
  assumes "0 \<le> x"
  shows "0 \<le> float_round x"
proof -
  let ?g = "(2::real) powi (float_exponent x - 23)"
  have g: "0 < ?g" by (rule powi2_pos)
  with assms have "0 \<le> x / ?g" by simp
  then have "round_even 0 \<le> round_even (x / ?g)" by (rule round_even_mono)
  then have "0 \<le> round_even (x / ?g)" by (simp add: round_even_def)
  with g show ?thesis by (simp add: float_round_def)
qed

lemma float_round_le_binade:
  assumes x: "0 \<le> x" and e: "float_exponent x < 127"
  shows "float_round x \<le> 2 powi (float_exponent x + 1)"
proof -
  let ?e = "float_exponent x"
  let ?g = "(2::real) powi (?e - 23)"
  have g: "0 < ?g" by (rule powi2_pos)
  from float_exponent_upper[OF e] x have "x < 2 powi (?e + 1)" by simp
  also have "(2::real) powi (?e + 1) = 2 ^ 24 * ?g"
    by (simp add: power_int_diff power_int_add)
  finally have "x / ?g \<le> of_int (2 ^ 24)" using g by (simp add: field_simps)
  then have "round_even (x / ?g) \<le> round_even (of_int (2 ^ 24))" by (rule round_even_mono)
  then have "round_even (x / ?g) \<le> 2 ^ 24" by (simp only: round_even_of_int)
  then have "(of_int (round_even (x / ?g)) :: real) \<le> of_int (2 ^ 24)" by (simp only: of_int_le_iff)
  then have "(of_int (round_even (x / ?g)) :: real) \<le> 2 ^ 24" by simp
  with g have "of_int (round_even (x / ?g)) * ?g \<le> 2 ^ 24 * ?g" by (intro mult_right_mono) simp_all
  also have "2 ^ 24 * ?g = (2::real) powi (?e + 1)"
    by (simp add: power_int_diff power_int_add)
  finally show ?thesis by (simp add: float_round_def)
qed

lemma float_round_ge_binade:
  assumes x: "0 \<le> x" and e: "- 126 < float_exponent x"
  shows "2 powi (float_exponent x) \<le> float_round x"
proof -
  let ?e = "float_exponent x"
  let ?g = "(2::real) powi (?e - 23)"
  have g: "0 < ?g" by (rule powi2_pos)
  have eq: "(2::real) powi ?e = 2 ^ 23 * ?g"
    by (simp add: power_int_diff)
  from float_exponent_lower[OF e] x have "2 powi ?e \<le> x" by simp
  with eq have "of_int (2 ^ 23) \<le> x / ?g" using g by (simp add: field_simps)
  then have "round_even (of_int (2 ^ 23)) \<le> round_even (x / ?g)" by (rule round_even_mono)
  then have "2 ^ 23 \<le> round_even (x / ?g)" by (simp only: round_even_of_int)
  then have "(of_int (2 ^ 23) :: real) \<le> of_int (round_even (x / ?g))" by (simp only: of_int_le_iff)
  then have "(2 ^ 23 :: real) \<le> of_int (round_even (x / ?g))" by simp
  with g have "2 ^ 23 * ?g \<le> of_int (round_even (x / ?g)) * ?g" by (intro mult_right_mono) simp_all
  with eq show ?thesis by (simp add: float_round_def)
qed

text \<open>Rounding to single precision is monotone (shown here on the non-negative numbers).\<close>

lemma float_round_mono:
  assumes x: "0 \<le> x" and xy: "x \<le> y"
  shows "float_round x \<le> float_round y"
proof -
  from x xy have y: "0 \<le> y" by simp
  from x xy have "float_exponent x \<le> float_exponent y" by (intro float_exponent_mono) simp
  then consider "float_exponent x = float_exponent y" | "float_exponent x < float_exponent y"
    by linarith
  then show ?thesis
  proof cases
    case 1
    let ?g = "(2::real) powi (float_exponent y - 23)"
    have g: "0 < ?g" by (rule powi2_pos)
    with xy have "x / ?g \<le> y / ?g" by (simp add: divide_right_mono)
    then have "round_even (x / ?g) \<le> round_even (y / ?g)" by (rule round_even_mono)
    then have "(of_int (round_even (x / ?g)) :: real) \<le> of_int (round_even (y / ?g))" by simp
    with g have "of_int (round_even (x / ?g)) * ?g \<le> of_int (round_even (y / ?g)) * ?g"
      by (intro mult_right_mono) simp_all
    with 1 show ?thesis by (simp add: float_round_def)
  next
    case 2
    with float_exponent_range(2)[of y] have "float_exponent x < 127" by linarith
    with x have a: "float_round x \<le> 2 powi (float_exponent x + 1)" by (rule float_round_le_binade)
    from 2 float_exponent_range(1)[of x] have "- 126 < float_exponent y" by linarith
    with y have b: "2 powi (float_exponent y) \<le> float_round y" by (rule float_round_ge_binade)
    from 2 have "(2::real) powi (float_exponent x + 1) \<le> 2 powi (float_exponent y)"
      by (intro powi2_mono) simp
    with a b show ?thesis by linarith
  qed
qed

lemma float_round_eq:
  assumes "- 126 \<le> e" "e \<le> 127" "2 powi e \<le> \<bar>x\<bar>" "\<bar>x\<bar> < 2 powi (e + 1)"
  shows "float_round x = of_int (round_even (x / 2 powi (e - 23))) * 2 powi (e - 23)"
  using float_exponent_eq[OF assms] by (simp add: float_round_def)

text \<open>The integers up to \<open>2^24\<close> are single-precision numbers.\<close>

lemma float_round_of_int:
  assumes n: "0 \<le> n" "n \<le> 2 ^ 24"
  shows "float_round (of_int n) = of_int n"
proof (cases "n = 0")
  case True
  then show ?thesis by (simp add: float_round_zero)
next
  case False
  with n have n1: "1 \<le> n" by simp
  let ?e = "float_exponent (of_int n)"
  have e1: "float_exponent 1 = 0" by (rule float_exponent_eq) simp_all
  have e24: "float_exponent (2 ^ 24) = 24" by (rule float_exponent_eq) simp_all
  from n1 have "float_exponent 1 \<le> ?e" by (intro float_exponent_mono) simp
  with e1 have lo: "0 \<le> ?e" by simp
  from n have "\<bar>real_of_int n\<bar> \<le> \<bar>2 ^ 24\<bar>" by simp
  then have "?e \<le> float_exponent (2 ^ 24)" by (rule float_exponent_mono)
  with e24 have hi: "?e \<le> 24" by simp
  show ?thesis
  proof (cases "?e = 24")
    case True
    from lo have "2 powi ?e \<le> \<bar>real_of_int n\<bar>" by (intro float_exponent_lower) simp
    with True n have "(2 ^ 24 :: real) \<le> of_int n" by simp
    then have "(of_int (2 ^ 24) :: real) \<le> of_int n" by simp
    then have "2 ^ 24 \<le> n" by (simp only: of_int_le_iff)
    with n have nn: "n = 2 ^ 24" by simp
    have "round_even (2 ^ 24 / 2) = round_even (of_int (2 ^ 23))" by simp
    also have "\<dots> = 2 ^ 23" by (simp only: round_even_of_int)
    finally show ?thesis using True nn by (simp add: float_round_def)
  next
    case False
    with hi have "?e \<le> 23" by simp
    then obtain k where k: "?e - 23 = - int k" by (metis diff_ge_0_iff_ge minus_diff_eq nonneg_int_cases)
    then have g: "(2::real) powi (?e - 23) = inverse (2 ^ k)" by (simp add: power_int_minus)
    have "real_of_int n / 2 powi (?e - 23) = of_int (n * 2 ^ k)" by (simp add: g field_simps)
    then have "round_even (real_of_int n / 2 powi (?e - 23)) = n * 2 ^ k"
      by (simp only: round_even_of_int)
    then show ?thesis by (simp add: float_round_def g)
  qed
qed

lemma float_round_exact:
  assumes "- 126 \<le> e" "e \<le> 127" "2 powi e \<le> \<bar>x\<bar>" "\<bar>x\<bar> < 2 powi (e + 1)"
      and m: "x / 2 powi (e - 23) = of_int m"
  shows "float_round x = x"
proof -
  have g: "(2::real) powi (e - 23) \<noteq> 0" using powi2_pos[of "e - 23"] by simp
  have "float_round x = of_int (round_even (of_int m)) * 2 powi (e - 23)"
    using float_round_eq[OF assms(1-4)] m by simp
  also have "\<dots> = x / 2 powi (e - 23) * 2 powi (e - 23)"
    by (simp only: round_even_of_int m)
  also have "\<dots> = x" using g by simp
  finally show ?thesis .
qed

subsection \<open>Rendering the impulse trains\<close>

lemma int_of_float_nonneg: "0 \<le> v \<Longrightarrow> int_of_float v = \<lfloor>v\<rfloor>"
  by (simp add: int_of_float_def)

lemma int_of_float_mono: "a \<le> b \<Longrightarrow> int_of_float a \<le> int_of_float b"
proof -
  assume ab: "a \<le> b"
  consider "0 \<le> a" | "a < 0" "b < 0" | "a < 0" "0 \<le> b" by linarith
  then show ?thesis
  proof cases
    case 1
    with ab show ?thesis by (simp add: int_of_float_def floor_mono)
  next
    case 2
    with ab show ?thesis by (simp add: int_of_float_def ceiling_mono)
  next
    case 3
    then have "\<lceil>a\<rceil> \<le> 0" "0 \<le> \<lfloor>b\<rfloor>" by simp_all
    then have "\<lceil>a\<rceil> \<le> \<lfloor>b\<rfloor>" by (rule order_trans)
    with 3 show ?thesis by (simp add: int_of_float_def)
  qed
qed

lemma int_of_float_ge_zero: "0 \<le> v \<Longrightarrow> 0 \<le> int_of_float v"
  by (simp add: int_of_float_def)

lemma cast_int_nonneg:
  assumes "0 \<le> v" "v < 2 ^ 31"
  shows "cast_int v = Inr \<lfloor>v\<rfloor>"
proof -
  from assms(2) have "\<lfloor>v\<rfloor> < 2 ^ 31"
    by (simp add: floor_less_iff)
  moreover from assms(1) have "0 \<le> \<lfloor>v\<rfloor>"
    by simp
  ultimately show ?thesis
    using assms(1) by (simp add: cast_int_def int_of_float_def)
qed

lemma determine_rir_length_value:
  assumes "determine_rir_length ec fs = Inr (e, l, s)"
  shows "e = ec_time ec ! (ec_numImageSources ec - 1)"
    and "l = int_of_float (float_add (float_mul (ec_time ec ! (ec_numImageSources ec - 1)) fs) 1) + 1"
    and "s = float_div (int_to_float l) fs"
  using assms
  by (auto simp add: determine_rir_length_def Let_def cast_int_def int_add_def
      split: if_splits sum.splits)

lemma length_cast:
  assumes "0 \<le> v" "v < 2 ^ 31 - 1"
  shows "(case cast_int v of Inl e \<Rightarrow> Inl e
          | Inr k \<Rightarrow> (case int_add k 1 of Inl e \<Rightarrow> Inl e | Inr l \<Rightarrow> Inr (f l)))
         = Inr (f (int_of_float v + 1))"
proof -
  from assms(2) have "v < 2 ^ 31"
    by simp
  with assms(1) have c: "cast_int v = Inr \<lfloor>v\<rfloor>"
    by (rule cast_int_nonneg)
  from assms(2) have "\<lfloor>v\<rfloor> < 2 ^ 31 - 1"
    by (simp add: floor_less_iff)
  moreover from assms(1) have "0 \<le> \<lfloor>v\<rfloor>"
    by simp
  ultimately have a: "int_add \<lfloor>v\<rfloor> 1 = Inr (\<lfloor>v\<rfloor> + 1)"
    by (simp add: int_add_def)
  from assms(1) have i: "int_of_float v = \<lfloor>v\<rfloor>"
    by (simp add: int_of_float_def)
  show ?thesis
    by (simp add: c a i)
qed

lemma determine_rir_length_eq:
  assumes "1 \<le> ec_numImageSources ec" and "ec_numImageSources ec \<le> length (ec_time ec)"
      and "0 \<le> float_add (float_mul (ec_time ec ! (ec_numImageSources ec - 1)) fs) 1"
      and "float_add (float_mul (ec_time ec ! (ec_numImageSources ec - 1)) fs) 1 < 2 ^ 31 - 1"
  shows "determine_rir_length ec fs =
     Inr (ec_time ec ! (ec_numImageSources ec - 1),
          int_of_float (float_add (float_mul (ec_time ec ! (ec_numImageSources ec - 1)) fs) 1) + 1,
          float_div (int_to_float
            (int_of_float (float_add (float_mul (ec_time ec ! (ec_numImageSources ec - 1)) fs) 1) + 1)) fs)"
proof -
  from assms(1,2) have "determine_rir_length ec fs =
     (case cast_int (float_add (float_mul (ec_time ec ! (ec_numImageSources ec - 1)) fs) 1) of
        Inl e \<Rightarrow> Inl e
      | Inr k \<Rightarrow> (case int_add k 1 of Inl e \<Rightarrow> Inl e
          | Inr l \<Rightarrow> Inr (ec_time ec ! (ec_numImageSources ec - 1), l, float_div (int_to_float l) fs)))"
    by (simp add: determine_rir_length_def Let_def del: One_nat_def)
  also note length_cast[OF assms(3,4)]
  finally show ?thesis .
qed

lemma accumulate_values_rows:
  "accumulate_values ids ec fs len buf = Inr buf' \<Longrightarrow>
   length buf = ec_nChannels ec \<Longrightarrow> list_all (\<lambda>row. length row = m) buf \<Longrightarrow>
   length buf' = ec_nChannels ec \<and> list_all (\<lambda>row. length row = m) buf'"
proof (induction ids arbitrary: buf)
  case Nil
  then show ?case by simp
next
  case (Cons i ids)
  from Cons.prems(1) obtain k where k: "refl_idx ec fs i = Inr k"
    by (auto split: if_splits sum.splits)
  let ?buf = "map (\<lambda>j. (buf ! j)[nat k := float_add (buf ! j ! nat k) (ec_value ec ! i ! j)])
                [0..<ec_nChannels ec]"
  from Cons.prems(1) k have r: "accumulate_values ids ec fs len ?buf = Inr buf'"
    by (auto split: if_splits)
  have "length ?buf = ec_nChannels ec"
    by simp
  moreover have "list_all (\<lambda>row. length row = m) ?buf"
    using Cons.prems(2,3) by (simp add: list_all_length)
  ultimately show ?case
    using Cons.IH[OF r] by simp
qed

lemma accumulate_values_ok:
  "(\<And>i. i \<in> set ids \<Longrightarrow> \<exists>k. refl_idx ec fs i = Inr k \<and> 0 \<le> k \<and> k < len \<and>
      i < length (ec_time ec) \<and> i < length (ec_value ec) \<and> ec_nChannels ec \<le> length (ec_value ec ! i)) \<Longrightarrow>
   \<exists>buf'. accumulate_values ids ec fs len buf = Inr buf'"
proof (induction ids arbitrary: buf)
  case Nil
  then show ?case by simp
next
  case (Cons i ids)
  from Cons.prems[of i] obtain k where k: "refl_idx ec fs i = Inr k" "0 \<le> k" "k < len"
    "i < length (ec_time ec)" "i < length (ec_value ec)" "ec_nChannels ec \<le> length (ec_value ec ! i)"
    by auto
  have "\<exists>buf'. accumulate_values ids ec fs len b = Inr buf'" for b
    by (rule Cons.IH) (simp add: Cons.prems)
  with k show ?case
    by simp
qed

text \<open>
  The index of an arrival against the length of the band: both casts see non-negative
  floats, and rounding keeps their order.
\<close>

lemma refl_idx_bounds:
  assumes fs: "0 \<le> fs" and ok: "time_ordered_nonempty ec" and i: "i < ec_numImageSources ec"
      and fits: "float_add (float_mul (ec_time ec ! (ec_numImageSources ec - 1)) fs) 1 < 2 ^ 31 - 1"
  shows "refl_idx ec fs i = Inr (int_of_float (float_add (float_mul (ec_time ec ! i) fs) (1 / 2)))"
    and "0 \<le> int_of_float (float_add (float_mul (ec_time ec ! i) fs) (1 / 2))"
    and "int_of_float (float_add (float_mul (ec_time ec ! i) fs) (1 / 2))
           < int_of_float (float_add (float_mul (ec_time ec ! (ec_numImageSources ec - 1)) fs) 1) + 1"
    and "0 \<le> float_add (float_mul (ec_time ec ! (ec_numImageSources ec - 1)) fs) 1"
proof -
  let ?t = "ec_time ec ! i" and ?T = "ec_time ec ! (ec_numImageSources ec - 1)"
  let ?b = "float_add (float_mul ?t fs) (1 / 2)" and ?B = "float_add (float_mul ?T fs) 1"
  from ok have len: "length (ec_time ec) = ec_numImageSources ec"
    and nonneg: "list_all (\<lambda>t. 0 \<le> t) (ec_time ec)" and sorted: "sorted (ec_time ec)"
    by (simp_all add: time_ordered_nonempty_def echogram_wf_def)
  from nonneg i len have t0: "0 \<le> ?t"
    by (simp add: list_all_length)
  with fs have p0: "0 \<le> ?t * fs"
    by simp
  then have a0: "0 \<le> float_mul ?t fs"
    unfolding float_mul_def by (rule float_round_nonneg)
  then have s0: "0 \<le> float_mul ?t fs + 1 / 2"
    by simp
  then have b0: "0 \<le> ?b"
    unfolding float_add_def by (rule float_round_nonneg)
  from sorted i len have "?t \<le> ?T"
    by (intro sorted_nth_mono) simp_all
  then have "?t * fs \<le> ?T * fs"
    using fs by (rule mult_right_mono)
  with p0 have "float_mul ?t fs \<le> float_mul ?T fs"
    unfolding float_mul_def by (rule float_round_mono)
  then have "float_mul ?t fs + 1 / 2 \<le> float_mul ?T fs + 1"
    by simp
  with s0 have bB: "?b \<le> ?B"
    unfolding float_add_def by (rule float_round_mono)
  with b0 show B0: "0 \<le> ?B"
    by simp
  from bB have le: "int_of_float ?b \<le> int_of_float ?B"
    by (rule int_of_float_mono)
  then show "int_of_float ?b < int_of_float ?B + 1"
    by simp
  from b0 show "0 \<le> int_of_float ?b"
    by (rule int_of_float_ge_zero)
  from bB fits have "?b < 2 ^ 31"
    by simp
  with b0 have "cast_int ?b = Inr \<lfloor>?b\<rfloor>"
    by (rule cast_int_nonneg)
  with b0 show "refl_idx ec fs i = Inr (int_of_float ?b)"
    by (simp add: refl_idx_def int_of_float_def)
qed

lemma renderRIR_band_result:
  assumes r: "renderRIR_band wrk band 0 fs = Inr wrk'"
  shows "wrk_hEchogram_abs wrk' = wrk_hEchogram_abs wrk"
    and "wrk_nBands wrk' = wrk_nBands wrk"
    and "length (wrk_rir_bands wrk') = length (wrk_rir_bands wrk)"
    and "band < length (wrk_hEchogram_abs wrk)" and "band < length (wrk_rir_bands wrk)"
    and "determine_rir_length (wrk_hEchogram_abs wrk ! band) fs = Inr (e, l, s) \<Longrightarrow> wrk_rir_len_samples wrk' = l"
    and "determine_rir_length (wrk_hEchogram_abs wrk ! band) fs = Inr (e, l, s) \<Longrightarrow>
         length (wrk_rir_bands wrk' ! band) = ec_nChannels (wrk_hEchogram_abs wrk ! band) \<and>
         list_all (\<lambda>row. length row = nat l) (wrk_rir_bands wrk' ! band)"
    and "\<exists>e l s. determine_rir_length (wrk_hEchogram_abs wrk ! band) fs = Inr (e, l, s)"
proof -
  let ?ec = "wrk_hEchogram_abs wrk ! band"
  from r show b1: "band < length (wrk_hEchogram_abs wrk)"
    by (auto simp add: renderRIR_band_def split: if_splits)
  with r obtain e' l' s' where d: "determine_rir_length ?ec fs = Inr (e', l', s')"
    by (auto simp add: renderRIR_band_def Let_def split: sum.splits if_splits)
  then show "\<exists>e l s. determine_rir_length ?ec fs = Inr (e, l, s)"
    by blast
  from r b1 d show b2: "band < length (wrk_rir_bands wrk)"
    by (auto simp add: renderRIR_band_def Let_def split: if_splits)
  let ?buf0 = "replicate (ec_nChannels ?ec) (replicate (nat l') (0::real))"
  from r b1 d b2 obtain buf where a: "accumulate_values [0..<ec_numImageSources ?ec] ?ec fs l' ?buf0 = Inr buf"
    by (auto simp add: renderRIR_band_def Let_def split: sum.splits if_splits)
  from r b1 d b2 a have w: "wrk' = wrk\<lparr>wrk_rir_bands := (wrk_rir_bands wrk)[band := buf],
                          wrk_rir_len_samples := l', wrk_rir_len_seconds := s'\<rparr>"
    by (simp add: renderRIR_band_def Let_def)
  show "wrk_hEchogram_abs wrk' = wrk_hEchogram_abs wrk" "wrk_nBands wrk' = wrk_nBands wrk"
    "length (wrk_rir_bands wrk') = length (wrk_rir_bands wrk)"
    by (simp_all add: w)
  show "wrk_rir_len_samples wrk' = l" if "determine_rir_length ?ec fs = Inr (e, l, s)"
    using that d by (simp add: w)
  have rows: "length buf = ec_nChannels ?ec \<and> list_all (\<lambda>row. length row = nat l') buf"
    using a by (rule accumulate_values_rows) (simp_all add: list_all_length)
  show "length (wrk_rir_bands wrk' ! band) = ec_nChannels ?ec \<and>
         list_all (\<lambda>row. length row = nat l) (wrk_rir_bands wrk' ! band)"
    if "determine_rir_length ?ec fs = Inr (e, l, s)"
    using that d rows b2 by (simp add: w)
qed

lemma renderRIR_band_ok:
  assumes fs: "0 \<le> fs" and ok: "time_ordered_nonempty (wrk_hEchogram_abs wrk ! band)"
      and alloc: "band < length (wrk_hEchogram_abs wrk)" "band < length (wrk_rir_bands wrk)"
      and fits: "float_add (float_mul (ec_time (wrk_hEchogram_abs wrk ! band)
                    ! (ec_numImageSources (wrk_hEchogram_abs wrk ! band) - 1)) fs) 1 < 2 ^ 31 - 1"
  shows "\<exists>wrk'. renderRIR_band wrk band 0 fs = Inr wrk'"
proof -
  let ?ec = "wrk_hEchogram_abs wrk ! band"
  let ?l = "int_of_float (float_add (float_mul (ec_time ?ec ! (ec_numImageSources ?ec - 1)) fs) 1) + 1"
  from ok have n: "1 \<le> ec_numImageSources ?ec" "ec_numImageSources ?ec \<le> length (ec_time ?ec)"
    by (simp_all add: time_ordered_nonempty_def echogram_wf_def)
  from ok have wf: "length (ec_time ?ec) = ec_numImageSources ?ec"
    "length (ec_value ?ec) = ec_numImageSources ?ec"
    "list_all (\<lambda>row. length row = ec_nChannels ?ec) (ec_value ?ec)"
    by (simp_all add: time_ordered_nonempty_def echogram_wf_def)
  from n have last: "ec_numImageSources ?ec - 1 < ec_numImageSources ?ec"
    by simp
  note d = determine_rir_length_eq[OF n refl_idx_bounds(4)[OF fs ok last fits] fits]
  have "\<exists>buf'. accumulate_values [0..<ec_numImageSources ?ec] ?ec fs ?l b = Inr buf'" for b
  proof (rule accumulate_values_ok)
    fix i
    assume "i \<in> set [0..<ec_numImageSources ?ec]"
    then have i: "i < ec_numImageSources ?ec"
      by simp
    with wf have "ec_nChannels ?ec \<le> length (ec_value ?ec ! i)"
      by (simp add: list_all_length)
    with i wf refl_idx_bounds(1-3)[OF fs ok i fits]
    show "\<exists>k. refl_idx ?ec fs i = Inr k \<and> 0 \<le> k \<and> k < ?l \<and> i < length (ec_time ?ec) \<and>
        i < length (ec_value ?ec) \<and> ec_nChannels ?ec \<le> length (ec_value ?ec ! i)"
      by simp
  qed
  then obtain buf' where "accumulate_values [0..<ec_numImageSources ?ec] ?ec fs ?l
      (replicate (ec_nChannels ?ec) (replicate (nat ?l) 0)) = Inr buf'"
    by blast
  with alloc show ?thesis
    by (simp add: renderRIR_band_def Let_def d)
qed


text \<open>
  The length of the band where \<open>endtime * fs\<close> is non-negative and below \<open>2^24\<close>: the
  integers there are single-precision numbers, and rounding keeps the order.
\<close>

lemma rir_length_bounds:
  assumes p0: "0 \<le> p" and m: "\<lceil>p\<rceil> < 2 ^ 24"
  shows "0 \<le> float_add (float_round p) 1"
    and "float_add (float_round p) 1 < 2 ^ 31 - 1"
    and "\<lfloor>p\<rfloor> + 2 \<le> int_of_float (float_add (float_round p) 1) + 1"
    and "int_of_float (float_add (float_round p) 1) + 1 \<le> \<lceil>p\<rceil> + 2"
proof -
  let ?n = "\<lfloor>p\<rfloor>" and ?m = "\<lceil>p\<rceil>"
  let ?z = "float_add (float_round p) 1"
  from p0 have n0: "0 \<le> ?n"
    by simp
  have nm: "?n \<le> ?m"
    by (rule floor_le_ceiling)
  from n0 nm have m0: "0 \<le> ?m"
    by simp
  from n0 nm m have rn: "float_round (of_int ?n) = of_int ?n"
    by (intro float_round_of_int) simp_all
  from m0 m have rm: "float_round (of_int ?m) = of_int ?m"
    by (intro float_round_of_int) simp_all
  from n0 nm m have rn1: "float_round (of_int (?n + 1)) = of_int (?n + 1)"
    by (intro float_round_of_int) simp_all
  from m0 m have rm1: "float_round (of_int (?m + 1)) = of_int (?m + 1)"
    by (intro float_round_of_int) simp_all
  have "float_round (of_int ?n) \<le> float_round p"
    by (rule float_round_mono) (use n0 in simp_all)
  with rn have y_lo: "of_int ?n \<le> float_round p"
    by simp
  have "float_round p \<le> float_round (of_int ?m)"
    using p0 by (rule float_round_mono) simp
  with rm have y_hi: "float_round p \<le> of_int ?m"
    by simp
  have "float_round (of_int (?n + 1)) \<le> ?z"
    unfolding float_add_def by (rule float_round_mono) (use n0 y_lo in simp_all)
  with rn1 have z_lo: "of_int (?n + 1) \<le> ?z"
    by simp
  from float_round_nonneg[OF p0] have "0 \<le> float_round p + 1"
    by simp
  moreover from y_hi have "float_round p + 1 \<le> of_int (?m + 1)"
    by simp
  ultimately have "?z \<le> float_round (of_int (?m + 1))"
    unfolding float_add_def by (rule float_round_mono)
  with rm1 have z_hi: "?z \<le> of_int (?m + 1)"
    by simp
  from n0 have "0 \<le> ?n + 1"
    by simp
  then have "(of_int 0 :: real) \<le> of_int (?n + 1)"
    by (simp only: of_int_le_iff)
  with z_lo show z0: "0 \<le> ?z"
    by simp
  then have i: "int_of_float ?z = \<lfloor>?z\<rfloor>"
    by (simp add: int_of_float_def)
  from m have "(of_int (?m + 1) :: real) \<le> of_int (2 ^ 24)"
    by (simp only: of_int_le_iff)
  with z_hi have "?z \<le> of_int (2 ^ 24)"
    by (rule order_trans)
  then show "?z < 2 ^ 31 - 1"
    by simp
  from z_lo have "?n + 1 \<le> \<lfloor>?z\<rfloor>"
    by (simp only: le_floor_iff)
  with i show "?n + 2 \<le> int_of_float ?z + 1"
    by simp
  from z_hi have "\<lfloor>?z\<rfloor> \<le> \<lfloor>of_int (?m + 1) :: real\<rfloor>"
    by (rule floor_mono)
  then have "\<lfloor>?z\<rfloor> \<le> ?m + 1"
    by (simp only: floor_of_int)
  with i show "int_of_float ?z + 1 \<le> ?m + 2"
    by simp
qed

subsection \<open>Worked runs of the renderer\<close>

lemma float_round_numeral:
  "(numeral w :: int) \<le> 2 ^ 24 \<Longrightarrow> float_round (numeral w) = numeral w"
  using float_round_of_int[of "numeral w"] by simp

lemma float_round_one: "float_round 1 = 1"
  using float_round_of_int[of 1] by simp

lemma single_arrival_floats:
  "float_mul (1 / 1024) 48000 = 375 / 8"
  "float_add (375 / 8) 1 = 383 / 8"
  "float_add (375 / 8) (1 / 2) = 379 / 8"
proof -
  have "float_round (375 / 8) = 375 / 8"
    by (rule float_round_exact[where e = 5 and m = 12288000]) simp_all
  then show "float_mul (1 / 1024) 48000 = 375 / 8"
    by (simp add: float_mul_def)
  have "float_round (383 / 8) = 383 / 8"
    by (rule float_round_exact[where e = 5 and m = 12550144]) simp_all
  then show "float_add (375 / 8) 1 = 383 / 8"
    by (simp add: float_add_def)
  have "float_round (379 / 8) = 379 / 8"
    by (rule float_round_exact[where e = 5 and m = 12419072]) simp_all
  then show "float_add (375 / 8) (1 / 2) = 379 / 8"
    by (simp add: float_add_def)
qed

lemma single_arrival_seconds: "float_div (int_to_float 48) 48000 = Finite (8589935 / 8589934592)"
proof -
  have "float_round (1 / 1000) = 8589935 / 8589934592"
    by (subst float_round_eq[where e = "- 10"]) (simp_all add: round_even_def)
  then show ?thesis
    by (simp add: float_div_def int_to_float_def float_round_numeral)
qed

lemma single_arrival_length:
  "determine_rir_length (wrk_hEchogram_abs single_arrival_wrk ! 0) 48000
     = Inr (1 / 1024, 48, Finite (8589935 / 8589934592))"
proof -
  have "\<lfloor>383 / 8 :: real\<rfloor> = 47"
    by (simp add: floor_eq_iff)
  then show ?thesis
    by (simp add: determine_rir_length_def Let_def single_arrival_floats cast_int_def int_add_def
        int_of_float_def single_arrival_seconds)
qed

lemma single_arrival_ceiling: "\<lceil>1 / 1024 * 48000 :: real\<rceil> + 2 = 49"
proof -
  have "\<lceil>375 / 8 :: real\<rceil> = 47"
    by (simp add: ceiling_eq_iff)
  then show ?thesis
    by simp
qed

lemma single_arrival_run:
  "\<exists>wrk'. renderRIR_band single_arrival_wrk 0 0 48000 = Inr wrk' \<and> wrk_rir_len_samples wrk' = 48"
proof -
  have ok: "time_ordered_nonempty (wrk_hEchogram_abs single_arrival_wrk ! 0)"
    by (simp add: time_ordered_nonempty_def echogram_wf_def)
  have "(0::real) \<le> 48000" by simp
  moreover have "0 < length (wrk_hEchogram_abs single_arrival_wrk)" "0 < length (wrk_rir_bands single_arrival_wrk)"
    by (simp_all add: ims_shoebox_coreWorkspaceCreate_def)
  moreover have "float_add (float_mul (ec_time (wrk_hEchogram_abs single_arrival_wrk ! 0)
        ! (ec_numImageSources (wrk_hEchogram_abs single_arrival_wrk ! 0) - 1)) 48000) 1 < 2 ^ 31 - 1"
    by (simp add: single_arrival_floats)
  ultimately obtain wrk' where
    r: "renderRIR_band single_arrival_wrk 0 0 48000 = Inr wrk'"
    using renderRIR_band_ok[OF _ ok] by blast
  have "wrk_rir_len_samples wrk' = 48"
    using r single_arrival_length by (rule renderRIR_band_result(6))
  with r show ?thesis
    by blast
qed

text \<open>
  C9 as stated fails: for a single arrival at 1/1024 s and 48 kHz, \<open>endtime * fs\<close> is
  46.875, exact in single precision, and so is 47.875; the renderer sets 48 samples,
  while \<open>ceil (endtime * fs) + 2\<close> is 49.
\<close>

theorem rir_length_not_ceiling_plus_two:
  "1 \<le> ec_numImageSources (wrk_hEchogram_abs single_arrival_wrk ! 0)
   \<and> determine_rir_length (wrk_hEchogram_abs single_arrival_wrk ! 0) 48000
       = Inr (1 / 1024, 48, Finite (8589935 / 8589934592))
   \<and> map_sum id wrk_rir_len_samples (renderRIR_band_loop single_arrival_wrk 0 48000) = Inr 48
   \<and> (48 :: int) \<noteq> \<lceil>1 / 1024 * 48000 :: real\<rceil> + 2"
proof -
  from single_arrival_run obtain wrk' where
    r: "renderRIR_band single_arrival_wrk 0 0 48000 = Inr wrk'" "wrk_rir_len_samples wrk' = 48"
    by blast
  moreover have "wrk_nBands single_arrival_wrk = 1"
    by (simp add: ims_shoebox_coreWorkspaceCreate_def)
  ultimately have "map_sum id wrk_rir_len_samples (renderRIR_band_loop single_arrival_wrk 0 48000) = Inr 48"
    by (simp add: renderRIR_band_loop_def)
  then show ?thesis
    using single_arrival_length single_arrival_ceiling by simp
qed

text \<open>
  The other end: for a single arrival at the float nearest to 1/48000 s, which is
  \<open>5726623 / 2^38\<close>, the product \<open>endtime * fs\<close> is just below 1 and rounds to 1; the
  renderer sets 3 samples, which is \<open>ceil (endtime * fs) + 2\<close> and not
  \<open>floor (endtime * fs) + 2\<close>.
\<close>

lemma rir_length_rounded_product:
  "(\<exists>secs. determine_rir_length
      \<lparr>ec_numImageSources = 1, ec_nChannels = 1, ec_value = [[1]],
       ec_time = [5726623 / 2 ^ 38], ec_order = [(0, 0, 0)],
       ec_coords = [Pos 0 0 (1 / 4)], ec_sortedIdx = [0]\<rparr> 48000
     = Inr (5726623 / 2 ^ 38, 3, secs))
   \<and> \<lfloor>5726623 / 2 ^ 38 * 48000 :: real\<rfloor> + 2 = 2
   \<and> \<lceil>5726623 / 2 ^ 38 * 48000 :: real\<rceil> + 2 = 3"
proof -
  have "float_round (5726623 / 2 ^ 38 * 48000) = 1"
    by (subst float_round_eq[where e = "- 1"]) (simp_all add: round_even_def)
  then have a: "float_mul (5726623 / 2 ^ 38) 48000 = 1"
    by (simp only: float_mul_def)
  have b: "float_add 1 1 = 2"
    by (simp add: float_add_def float_round_numeral)
  have "\<lfloor>5726623 / 2 ^ 38 * 48000 :: real\<rfloor> = 0"
    by (simp add: floor_eq_iff)
  moreover have "\<lceil>5726623 / 2 ^ 38 * 48000 :: real\<rceil> = 1"
    by (simp add: ceiling_eq_iff)
  ultimately show ?thesis
    by (simp add: determine_rir_length_def Let_def a[simplified] b cast_int_def int_add_def
        int_of_float_def)
qed

text \<open>
  C9, amended. For a band with at least one arrival, the renderer reads \<open>endtime\<close> from
  the last cell of the time array and sets the length of the band's impulse train to
  \<^verbatim>\<open>(int)(endtime * fs + 1.0f) + 1\<close> samples, the product and the sum each rounded to
  single precision, whenever that is a 32-bit \<^verbatim>\<open>int\<close> (otherwise the cast or the addition
  is undefined): the length computation then succeeds with this value, and whenever the
  band is rendered, the workspace records this length and every channel of the band's
  impulse train has it. For \<open>0 \<le> endtime * fs\<close> with \<open>ceil (endtime * fs) < 2^24\<close> the
  length computation succeeds and the length lies between \<open>floor (endtime * fs) + 2\<close> and
  \<open>ceil (endtime * fs) + 2\<close>. Where the product and the sum are exact in single precision,
  it is \<open>floor (endtime * fs) + 2\<close>.
\<close>

theorem rir_length_single_precision:
  fixes wrk band fs
  defines "ec \<equiv> wrk_hEchogram_abs wrk ! band"
  defines "endtime \<equiv> ec_time ec ! (ec_numImageSources ec - 1)"
  defines "len \<equiv> int_of_float (float_add (float_mul endtime fs) 1) + 1"
  assumes n: "1 \<le> ec_numImageSources ec" and alloc: "ec_numImageSources ec \<le> length (ec_time ec)"
  shows "(- (2 ^ 31) < len \<and> len < 2 ^ 31 \<longrightarrow>
             determine_rir_length ec fs = Inr (endtime, len, float_div (int_to_float len) fs))
       \<and> (\<forall>wrk'. renderRIR_band wrk band 0 fs = Inr wrk' \<longrightarrow>
             wrk_rir_len_samples wrk' = len \<and>
             list_all (\<lambda>row. length row = nat len) (wrk_rir_bands wrk' ! band))
       \<and> (0 \<le> endtime * fs \<and> \<lceil>endtime * fs\<rceil> < 2 ^ 24 \<longrightarrow>
             determine_rir_length ec fs = Inr (endtime, len, float_div (int_to_float len) fs) \<and>
             \<lfloor>endtime * fs\<rfloor> + 2 \<le> len \<and> len \<le> \<lceil>endtime * fs\<rceil> + 2)
       \<and> (0 \<le> endtime * fs \<and> float_mul endtime fs = endtime * fs \<and>
            float_add (endtime * fs) 1 = endtime * fs + 1 \<longrightarrow>
             len = \<lfloor>endtime * fs\<rfloor> + 2)"
proof -
  have g: "determine_rir_length ec fs = Inr (endtime, len, float_div (int_to_float len) fs)"
    if "- (2 ^ 31) < len" "len < 2 ^ 31"
    using that n alloc
    by (simp add: determine_rir_length_def Let_def cast_int_def int_add_def len_def endtime_def
        del: One_nat_def)
  have r: "wrk_rir_len_samples wrk' = len \<and>
             list_all (\<lambda>row. length row = nat len) (wrk_rir_bands wrk' ! band)"
    if run: "renderRIR_band wrk band 0 fs = Inr wrk'" for wrk'
  proof -
    from renderRIR_band_result(8)[OF run] obtain e l s where
      d: "determine_rir_length ec fs = Inr (e, l, s)"
      unfolding ec_def by blast
    from determine_rir_length_value(2)[OF d] have "l = len"
      by (simp only: len_def endtime_def)
    with renderRIR_band_result(6,7)[OF run, of e l s] d show ?thesis
      by (simp add: ec_def)
  qed
  have b: "determine_rir_length ec fs = Inr (endtime, len, float_div (int_to_float len) fs) \<and>
             \<lfloor>endtime * fs\<rfloor> + 2 \<le> len \<and> len \<le> \<lceil>endtime * fs\<rceil> + 2"
    if "0 \<le> endtime * fs" "\<lceil>endtime * fs\<rceil> < 2 ^ 24"
  proof -
    note bd = rir_length_bounds[OF that, folded float_mul_def]
    have "determine_rir_length ec fs = Inr (endtime, len, float_div (int_to_float len) fs)"
      unfolding len_def endtime_def
      by (rule determine_rir_length_eq[OF n alloc]) (use bd(1,2) in \<open>simp_all only: endtime_def\<close>)
    with bd(3,4) show ?thesis
      by (simp only: len_def simp_thms)
  qed
  have x: "len = \<lfloor>endtime * fs\<rfloor> + 2"
    if "0 \<le> endtime * fs" "float_mul endtime fs = endtime * fs"
       "float_add (endtime * fs) 1 = endtime * fs + 1"
    using that by (simp add: len_def int_of_float_def)
  from g r b x show ?thesis
    by blast
qed

theorem rir_length_single_precision_witness:
  "1 \<le> ec_numImageSources (wrk_hEchogram_abs single_arrival_wrk ! 0)
   \<and> ec_numImageSources (wrk_hEchogram_abs single_arrival_wrk ! 0)
       \<le> length (ec_time (wrk_hEchogram_abs single_arrival_wrk ! 0))
   \<and> (0 :: real) \<le> 1 / 1024 * 48000
   \<and> \<lceil>1 / 1024 * 48000 :: real\<rceil> < 2 ^ 24
   \<and> float_mul (1 / 1024) 48000 = 1 / 1024 * 48000
   \<and> float_add (1 / 1024 * 48000) 1 = 1 / 1024 * 48000 + 1
   \<and> determine_rir_length (wrk_hEchogram_abs single_arrival_wrk ! 0) 48000
       = Inr (1 / 1024, 48, Finite (8589935 / 8589934592))
   \<and> int_of_float (float_add (float_mul (1 / 1024) 48000) 1) + 1 = \<lfloor>1 / 1024 * 48000 :: real\<rfloor> + 2
   \<and> \<lfloor>1 / 1024 * 48000 :: real\<rfloor> + 2 = 48
   \<and> - (2 ^ 31) < (48 :: int) \<and> (48 :: int) < 2 ^ 31
   \<and> (\<exists>wrk'. renderRIR_band single_arrival_wrk 0 0 48000 = Inr wrk' \<and> wrk_rir_len_samples wrk' = 48)"
proof -
  have h1: "1 \<le> ec_numImageSources (wrk_hEchogram_abs single_arrival_wrk ! 0)"
    by simp
  have h2: "ec_numImageSources (wrk_hEchogram_abs single_arrival_wrk ! 0)
       \<le> length (ec_time (wrk_hEchogram_abs single_arrival_wrk ! 0))"
    by simp
  have e: "ec_time (wrk_hEchogram_abs single_arrival_wrk ! 0)
             ! (ec_numImageSources (wrk_hEchogram_abs single_arrival_wrk ! 0) - 1) = 1 / 1024"
    by simp
  have p: "(0::real) \<le> 1 / 1024 * 48000"
    by simp
  have c: "\<lceil>1 / 1024 * 48000 :: real\<rceil> < 2 ^ 24"
    using single_arrival_ceiling by simp
  have m: "float_mul (1 / 1024) 48000 = 1 / 1024 * 48000"
    by (simp add: single_arrival_floats)
  have a: "float_add (1 / 1024 * 48000) 1 = 1 / 1024 * 48000 + 1"
    by (simp add: single_arrival_floats)
  have f: "\<lfloor>1 / 1024 * 48000 :: real\<rfloor> + 2 = 48"
  proof -
    have "\<lfloor>375 / 8 :: real\<rfloor> = 46"
      by (simp add: floor_eq_iff)
    then show ?thesis
      by simp
  qed
  note inst = rir_length_single_precision[where wrk = single_arrival_wrk and band = 0 and fs = 48000,
      OF h1 h2, unfolded e]
  from inst p m a
  have l: "int_of_float (float_add (float_mul (1 / 1024) 48000) 1) + 1 = \<lfloor>1 / 1024 * 48000 :: real\<rfloor> + 2"
    by blast
  have s: "- (2 ^ 31) < (48 :: int)" "(48 :: int) < 2 ^ 31"
    by simp_all
  from h1 h2 p c m a single_arrival_length l f s single_arrival_run show ?thesis
    by blast
qed






subsection \<open>The lattice bounds\<close>

lemma updateIndices_bounds:
  "wrk_Nx (coreInit_updateIndices wrk room d) = lattice_bound d (fst room)"
  "wrk_Ny (coreInit_updateIndices wrk room d) = lattice_bound d (fst (snd room))"
  "wrk_Nz (coreInit_updateIndices wrk room d) = lattice_bound d (snd (snd room))"
  "wrk_lengthVec (coreInit_updateIndices wrk room d) =
     (2 * lattice_bound d (fst room) + 1) * (2 * lattice_bound d (fst (snd room)) + 1)
       * (2 * lattice_bound d (snd (snd room)) + 1)"
  by (simp_all add: coreInit_updateIndices_def Let_def split: prod.splits)

lemma updateEchogram_bounds:
  "wrk_Nx (coreInit_updateEchogram wrk room s r d c) = wrk_Nx wrk"
  "wrk_Ny (coreInit_updateEchogram wrk room s r d c) = wrk_Ny wrk"
  "wrk_Nz (coreInit_updateEchogram wrk room s r d c) = wrk_Nz wrk"
proof -
  have i: "wrk_Nx (coreInit_imageSources wrk room s r) = wrk_Nx wrk"
    "wrk_Ny (coreInit_imageSources wrk room s r) = wrk_Ny wrk"
    "wrk_Nz (coreInit_imageSources wrk room s r) = wrk_Nz wrk"
    by (simp_all add: coreInit_imageSources_def Let_def split: prod.splits)
  have c: "wrk_Nx (coreInit_cull w d) = wrk_Nx w" "wrk_Ny (coreInit_cull w d) = wrk_Ny w"
    "wrk_Nz (coreInit_cull w d) = wrk_Nz w" for w
    by (simp_all add: coreInit_cull_def)
  have f: "wrk_Nx (coreInit_fillEchogram w c) = wrk_Nx w" "wrk_Ny (coreInit_fillEchogram w c) = wrk_Ny w"
    "wrk_Nz (coreInit_fillEchogram w c) = wrk_Nz w" for w
    by (simp_all add: coreInit_fillEchogram_def Let_def)
  show "wrk_Nx (coreInit_updateEchogram wrk room s r d c) = wrk_Nx wrk"
    "wrk_Ny (coreInit_updateEchogram wrk room s r d c) = wrk_Ny wrk"
    "wrk_Nz (coreInit_updateEchogram wrk room s r d c) = wrk_Nz wrk"
    by (simp_all add: coreInit_updateEchogram_def i c f)
qed

lemma coreInit_bounds:
  assumes "indices_outdated wrk room (maxTime_s * c_ms)"
  shows "wrk_Nx (ims_shoebox_coreInit wrk room src rec maxTime_s c_ms) = lattice_bound (maxTime_s * c_ms) (fst room)"
    and "wrk_Ny (ims_shoebox_coreInit wrk room src rec maxTime_s c_ms) = lattice_bound (maxTime_s * c_ms) (fst (snd room))"
    and "wrk_Nz (ims_shoebox_coreInit wrk room src rec maxTime_s c_ms) = lattice_bound (maxTime_s * c_ms) (snd (snd room))"
    and "wrk_lengthVec (ims_shoebox_coreInit wrk room src rec maxTime_s c_ms) =
           (2 * lattice_bound (maxTime_s * c_ms) (fst room) + 1)
         * (2 * lattice_bound (maxTime_s * c_ms) (fst (snd room)) + 1)
         * (2 * lattice_bound (maxTime_s * c_ms) (snd (snd room)) + 1)"
  using assms
  by (simp_all add: ims_shoebox_coreInit_def Let_def updateIndices_bounds updateEchogram_bounds
        updateEchogram_fields)

text \<open>
  C4 at an exact multiple. A fresh workspace, the room 10 x 7 x 3 of the tests,
  \<open>maxTime_s = 1/16\<close> and \<open>c_ms = 336\<close>, so \<open>d_max = 21\<close> (all exact in single precision):
  the guard of the index block is true and the source, whose comment says "ceil", stores
  \<open>Ny = 4\<close> and \<open>Nz = 8\<close> where \<open>ceil (21 / 7) = 3\<close> and \<open>ceil (21 / 3) = 7\<close>, and a
  lattice of \<open>7 * 9 * 17 = 1071\<close> points instead of \<open>7 * 7 * 15 = 735\<close>.
\<close>

theorem lattice_bound_exceeds_ceiling:
  "indices_outdated (ims_shoebox_coreWorkspaceCreate 1) (10, 7, 3) (1 / 16 * 336)
   \<and> wrk_Nx (ims_shoebox_coreInit (ims_shoebox_coreWorkspaceCreate 1) (10, 7, 3)
               (Pos (41 / 8) 6 (9 / 8)) (Pos (35 / 4) (11 / 2) (7 / 8)) (1 / 16) 336) = 3
   \<and> wrk_Ny (ims_shoebox_coreInit (ims_shoebox_coreWorkspaceCreate 1) (10, 7, 3)
               (Pos (41 / 8) 6 (9 / 8)) (Pos (35 / 4) (11 / 2) (7 / 8)) (1 / 16) 336) = 4
   \<and> wrk_Nz (ims_shoebox_coreInit (ims_shoebox_coreWorkspaceCreate 1) (10, 7, 3)
               (Pos (41 / 8) 6 (9 / 8)) (Pos (35 / 4) (11 / 2) (7 / 8)) (1 / 16) 336) = 8
   \<and> wrk_lengthVec (ims_shoebox_coreInit (ims_shoebox_coreWorkspaceCreate 1) (10, 7, 3)
               (Pos (41 / 8) 6 (9 / 8)) (Pos (35 / 4) (11 / 2) (7 / 8)) (1 / 16) 336) = 1071
   \<and> \<lceil>1 / 16 * 336 / 10 :: real\<rceil> = 3
   \<and> \<lceil>1 / 16 * 336 / 7 :: real\<rceil> = 3
   \<and> \<lceil>1 / 16 * 336 / 3 :: real\<rceil> = 7"
proof -
  have o: "indices_outdated (ims_shoebox_coreWorkspaceCreate 1) (10, 7, 3) (1 / 16 * 336)"
    by (simp add: indices_outdated_def ims_shoebox_coreWorkspaceCreate_def)
  have f: "\<lfloor>31 / 10 :: real\<rfloor> = 3" "\<lceil>21 / 10 :: real\<rceil> = 3"
    by (simp_all add: floor_eq_iff ceiling_eq_iff)
  have b: "lattice_bound 21 10 = 3" "lattice_bound 21 7 = 4" "lattice_bound 21 3 = 8"
    by (simp_all add: lattice_bound_def int_of_float_def f)
  note cb = coreInit_bounds[OF o, of "Pos (41 / 8) 6 (9 / 8)" "Pos (35 / 4) (11 / 2) (7 / 8)"]
  have "wrk_Nx (ims_shoebox_coreInit (ims_shoebox_coreWorkspaceCreate 1) (10, 7, 3)
               (Pos (41 / 8) 6 (9 / 8)) (Pos (35 / 4) (11 / 2) (7 / 8)) (1 / 16) 336) = 3"
    unfolding cb(1) by (simp add: b)
  moreover have "wrk_Ny (ims_shoebox_coreInit (ims_shoebox_coreWorkspaceCreate 1) (10, 7, 3)
               (Pos (41 / 8) 6 (9 / 8)) (Pos (35 / 4) (11 / 2) (7 / 8)) (1 / 16) 336) = 4"
    unfolding cb(2) by (simp add: b)
  moreover have "wrk_Nz (ims_shoebox_coreInit (ims_shoebox_coreWorkspaceCreate 1) (10, 7, 3)
               (Pos (41 / 8) 6 (9 / 8)) (Pos (35 / 4) (11 / 2) (7 / 8)) (1 / 16) 336) = 8"
    unfolding cb(3) by (simp add: b)
  moreover have "wrk_lengthVec (ims_shoebox_coreInit (ims_shoebox_coreWorkspaceCreate 1) (10, 7, 3)
               (Pos (41 / 8) 6 (9 / 8)) (Pos (35 / 4) (11 / 2) (7 / 8)) (1 / 16) 336) = 1071"
    unfolding cb(4) by (simp add: b)
  moreover have "\<lceil>1 / 16 * 336 / 10 :: real\<rceil> = 3" "\<lceil>1 / 16 * 336 / 7 :: real\<rceil> = 3"
    "\<lceil>1 / 16 * 336 / 3 :: real\<rceil> = 7"
    by (simp_all add: f)
  ultimately show ?thesis
    using o by (simp only: simp_thms)
qed

theorem lattice_bound_exceeds_ceiling_witness:
  "wrk_Ny (ims_shoebox_coreInit (ims_shoebox_coreWorkspaceCreate 1) (10, 7, 3)
               (Pos (41 / 8) 6 (9 / 8)) (Pos (35 / 4) (11 / 2) (7 / 8)) (1 / 16) 336)
     \<noteq> \<lceil>1 / 16 * 336 / 7 :: real\<rceil>"
  using lattice_bound_exceeds_ceiling by simp

subsection \<open>A changed room with unchanged centred positions\<close>

lemma example_cache:
  "wrk_room example_wrk = (8, 8, 8)" "wrk_d_max example_wrk = 6"
  "wrk_src example_wrk = Pos (3 / 2) (- 2) 0" "wrk_rec example_wrk = Pos (- 3 / 2) (- 2) 0"
  unfolding example_wrk_eq by (simp_all add: updateEchogram_fields updateIndices_fields)

lemma updateIndices_stale:
  "wrk_numImageSources (coreInit_updateIndices wrk room d) = wrk_numImageSources wrk"
  "wrk_s_y (coreInit_updateIndices wrk room d) =
     realloc1d (wrk_s_y wrk) (nat (wrk_lengthVec (coreInit_updateIndices wrk room d))) 0"
  by (simp_all add: coreInit_updateIndices_def Let_def split: prod.splits)

lemma lattice_points_moved:
  "lattice_points 6 (8, 10, 8) = lattice_points 6 (8, 8, 8)"
proof -
  have "lattice_bound 6 10 = 1"
    by (simp add: lattice_bound_def int_of_float_def)
  then show ?thesis
    by (simp add: lattice_points_def lattice_bound_example)
qed

lemma coreInit_indices_only:
  assumes "indices_outdated wrk room (maxTime_s * c_ms)"
      and "\<not> echogram_outdated (coreInit_updateIndices wrk room (maxTime_s * c_ms)) room
               (room_centred room src) (room_centred room rec)"
  shows "ims_shoebox_coreInit wrk room src rec maxTime_s c_ms
           = coreInit_updateIndices wrk room (maxTime_s * c_ms)"
  using assms by (simp add: ims_shoebox_coreInit_def Let_def)

lemma example_moved_eq:
  "ims_shoebox_coreInit example_wrk (8, 10, 8) (Pos (11 / 2) 7 4) (Pos (5 / 2) 7 4) (3 / 2) 4
     = coreInit_updateIndices example_wrk (8, 10, 8) 6"
proof -
  have d: "3 / 2 * 4 = (6::real)"
    by simp
  have c: "room_centred (8, 10, 8) (Pos (11 / 2) 7 4) = Pos (3 / 2) (- 2) 0"
    "room_centred (8, 10, 8) (Pos (5 / 2) 7 4) = Pos (- 3 / 2) (- 2) 0"
    by (simp_all add: room_centred_def)
  have o: "indices_outdated example_wrk (8, 10, 8) (3 / 2 * 4)"
    unfolding indices_outdated_def example_cache by simp
  have e: "\<not> echogram_outdated (coreInit_updateIndices example_wrk (8, 10, 8) (3 / 2 * 4)) (8, 10, 8)
              (room_centred (8, 10, 8) (Pos (11 / 2) 7 4)) (room_centred (8, 10, 8) (Pos (5 / 2) 7 4))"
    unfolding echogram_outdated_def updateIndices_fields example_cache c by simp
  show ?thesis
    using coreInit_indices_only[OF o e] unfolding d .
qed

lemma example_s_y: "wrk_s_y example_wrk =
    [- 4, - 4, - 4, 0, 0, 0, 12, 12, 12, - 4, - 4, - 4, 0, 0, 0, 12, 12, 12,
     - 4, - 4, - 4, 0, 0, 0, 12, 12, 12]"
proof -
  note lat = updateIndices_lattice[of "ims_shoebox_coreWorkspaceCreate 1" "(8, 8, 8)" 6]
  note on = updateEchogram_on_lattice[OF lat, of "(8, 8, 8)" "Pos (3 / 2) (- 2) 0" "Pos (- 3 / 2) (- 2) 0" 6 4]
  show ?thesis
    unfolding example_wrk_eq on(2) lattice_points_example
    by (simp add: image_source_def image_coord_def powf_minus_one_cases)
qed

lemma fresh_moved_count:
  "wrk_numImageSources (ims_shoebox_coreInit (ims_shoebox_coreWorkspaceCreate 1)
       (8, 10, 8) (Pos (11 / 2) 7 4) (Pos (5 / 2) 7 4) (3 / 2) 4) = 1"
proof -
  let ?w0 = "ims_shoebox_coreWorkspaceCreate 1"
  have "wrk_rec ?w0 \<noteq> room_centred (8, 10, 8) (Pos (5 / 2) 7 4)"
    by (simp add: ims_shoebox_coreWorkspaceCreate_def room_centred_def)
  then have "ims_shoebox_coreInit ?w0 (8, 10, 8) (Pos (11 / 2) 7 4) (Pos (5 / 2) 7 4) (3 / 2) 4
      = coreInit_updateEchogram
       (if indices_outdated ?w0 (8, 10, 8) (3 / 2 * 4)
        then coreInit_updateIndices ?w0 (8, 10, 8) (3 / 2 * 4) else ?w0)
       (8, 10, 8) (room_centred (8, 10, 8) (Pos (11 / 2) 7 4)) (room_centred (8, 10, 8) (Pos (5 / 2) 7 4)) (3 / 2 * 4) 4"
    by (intro coreInit_recomputed disjI1)
  moreover have "indices_outdated ?w0 (8, 10, 8) (3 / 2 * 4)"
    by (simp add: indices_outdated_def ims_shoebox_coreWorkspaceCreate_def)
  ultimately have eq: "ims_shoebox_coreInit ?w0 (8, 10, 8) (Pos (11 / 2) 7 4) (Pos (5 / 2) 7 4) (3 / 2) 4
      = coreInit_updateEchogram (coreInit_updateIndices ?w0 (8, 10, 8) 6)
          (8, 10, 8) (Pos (3 / 2) (- 2) 0) (Pos (- 3 / 2) (- 2) 0) 6 4"
    by (simp add: room_centred_def)
  note lat = updateIndices_lattice[of ?w0 "(8, 10, 8)" 6]
  note on = updateEchogram_on_lattice[OF lat, of "(8, 10, 8)" "Pos (3 / 2) (- 2) 0" "Pos (- 3 / 2) (- 2) 0" 6 4]
  show ?thesis
    unfolding eq on(5) lattice_points_moved lattice_points_example
    by (simp add: image_source_def image_coord_def powf_minus_one_cases pos_dist_def image_dist_sqrt
          sqrt_less_pos_iff power2_eq_square)
qed

text \<open>
  C3 after a change of the room alone. The workspace of the scenario has cached the room
  8 x 8 x 8. The next call gives the room 8 x 10 x 8 with source and receiver moved one
  unit along y, so that their centred positions, and \<open>d_max\<close>, are as cached. The index
  block runs and overwrites the cached room; the guard of the echogram block then finds
  nothing changed. The call leaves the image-source coordinates and the raw echogram of
  the old room: at the lattice point (0, -1, 0) (index 10) \<^verbatim>\<open>s_y\<close> is still -4 where the
  mirroring formula for the new room gives -6, and two image sources are counted where
  a fresh workspace given the same call counts one.
\<close>

theorem room_change_leaves_echogram_stale:
  "wrk_room example_wrk \<noteq> (8, 10, 8)
   \<and> wrk_hEchogram (ims_shoebox_coreInit example_wrk (8, 10, 8) (Pos (11 / 2) 7 4) (Pos (5 / 2) 7 4) (3 / 2) 4)
       = wrk_hEchogram example_wrk
   \<and> wrk_JJ (ims_shoebox_coreInit example_wrk (8, 10, 8) (Pos (11 / 2) 7 4) (Pos (5 / 2) 7 4) (3 / 2) 4) ! 10 = - 1
   \<and> wrk_s_y (ims_shoebox_coreInit example_wrk (8, 10, 8) (Pos (11 / 2) 7 4) (Pos (5 / 2) 7 4) (3 / 2) 4) ! 10 = - 4
   \<and> image_coord (- 1) 10 (pos_y (room_centred (8, 10, 8) (Pos (11 / 2) 7 4)))
                          (pos_y (room_centred (8, 10, 8) (Pos (5 / 2) 7 4))) = - 6
   \<and> wrk_numImageSources (ims_shoebox_coreInit example_wrk (8, 10, 8) (Pos (11 / 2) 7 4) (Pos (5 / 2) 7 4) (3 / 2) 4) = 2
   \<and> wrk_numImageSources (ims_shoebox_coreInit (ims_shoebox_coreWorkspaceCreate 1)
         (8, 10, 8) (Pos (11 / 2) 7 4) (Pos (5 / 2) 7 4) (3 / 2) 4) = 1"
proof -
  have a: "wrk_room example_wrk \<noteq> (8, 10, 8)"
    unfolding example_cache by simp
  have b: "wrk_hEchogram (ims_shoebox_coreInit example_wrk (8, 10, 8) (Pos (11 / 2) 7 4) (Pos (5 / 2) 7 4) (3 / 2) 4)
       = wrk_hEchogram example_wrk"
    unfolding example_moved_eq by (rule updateIndices_fields(5))
  have c: "wrk_JJ (ims_shoebox_coreInit example_wrk (8, 10, 8) (Pos (11 / 2) 7 4) (Pos (5 / 2) 7 4) (3 / 2) 4) ! 10 = - 1"
    unfolding example_moved_eq updateIndices_lattice lattice_points_moved lattice_points_example
    by simp
  have len: "nat (wrk_lengthVec (coreInit_updateIndices example_wrk (8, 10, 8) 6)) = 27"
    unfolding updateIndices_lattice(4) lattice_points_moved lattice_points_example by simp
  have d: "wrk_s_y (ims_shoebox_coreInit example_wrk (8, 10, 8) (Pos (11 / 2) 7 4) (Pos (5 / 2) 7 4) (3 / 2) 4) ! 10 = - 4"
    unfolding example_moved_eq updateIndices_stale(2) len example_s_y
    by (simp add: realloc1d_def)
  have e: "image_coord (- 1) 10 (pos_y (room_centred (8, 10, 8) (Pos (11 / 2) 7 4)))
                          (pos_y (room_centred (8, 10, 8) (Pos (5 / 2) 7 4))) = - 6"
    by (simp add: image_coord_def room_centred_def powf_minus_one_cases)
  have f: "wrk_numImageSources (ims_shoebox_coreInit example_wrk (8, 10, 8) (Pos (11 / 2) 7 4) (Pos (5 / 2) 7 4) (3 / 2) 4) = 2"
    unfolding example_moved_eq updateIndices_stale(1) by (rule example_wrk_values(1))
  from a b c d e f fresh_moved_count show ?thesis
    by (simp only: simp_thms)
qed

theorem room_change_leaves_echogram_stale_witness:
  "wrk_s_y (ims_shoebox_coreInit example_wrk (8, 10, 8) (Pos (11 / 2) 7 4) (Pos (5 / 2) 7 4) (3 / 2) 4) ! 10
     \<noteq> image_coord (- 1) 10 (pos_y (room_centred (8, 10, 8) (Pos (11 / 2) 7 4)))
                          (pos_y (room_centred (8, 10, 8) (Pos (5 / 2) 7 4)))"
proof -
  from room_change_leaves_echogram_stale have
    "wrk_s_y (ims_shoebox_coreInit example_wrk (8, 10, 8) (Pos (11 / 2) 7 4) (Pos (5 / 2) 7 4) (3 / 2) 4) ! 10 = - 4"
    "image_coord (- 1) 10 (pos_y (room_centred (8, 10, 8) (Pos (11 / 2) 7 4)))
                          (pos_y (room_centred (8, 10, 8) (Pos (5 / 2) 7 4))) = - 6"
    by blast+
  then show ?thesis
    by simp
qed

subsection \<open>The odometer enumerates the box\<close>

lemma lattice_loop_nth:
  "n < m \<Longrightarrow> lattice_loop m Nx Ny Nz s ! n = ((odometer_step Nx Ny Nz) ^^ n) s"
proof (induction m arbitrary: n s)
  case 0
  then show ?case by simp
next
  case (Suc m)
  show ?case
  proof (cases n)
    case 0
    then show ?thesis by simp
  next
    case (Suc n')
    with Suc.prems have "n' < m" by simp
    then show ?thesis
      using Suc.IH[of n' "odometer_step Nx Ny Nz s"] Suc by (simp add: funpow_swap1)
  qed
qed

lemma box_index_bounds:
  assumes "0 \<le> Nx" "0 \<le> Ny" "0 \<le> Nz" "in_box Nx Ny Nz t"
  shows "0 \<le> box_index Nx Ny Nz t" and "box_index Nx Ny Nz t < (2 * Nx + 1) * (2 * Ny + 1) * (2 * Nz + 1)"
proof -
  obtain i j k where t: "t = (i, j, k)" by (cases t) auto
  define x y z where "x = i + Nx" and "y = j + Ny" and "z = k + Nz"
  define a b c where "a = 2 * Nx + 1" and "b = 2 * Ny + 1" and "c = 2 * Nz + 1"
  from assms have r: "0 \<le> x" "x < a" "0 \<le> y" "y < b" "0 \<le> z" "z < c" "0 < a" "0 < b" "0 < c"
    by (simp_all add: in_box_def t x_def y_def z_def a_def b_def c_def)
  have idx: "box_index Nx Ny Nz t = x + a * (y + b * z)"
    by (simp add: box_index_def t x_def y_def z_def a_def b_def)
  from r show "0 \<le> box_index Nx Ny Nz t"
    unfolding idx by simp
  from r have "y + b * z \<le> (b - 1) + b * (c - 1)"
    by (intro add_mono mult_left_mono) simp_all
  then have "y + b * z \<le> b * c - 1"
    by (simp add: algebra_simps)
  with r have "a * (y + b * z) \<le> a * (b * c - 1)"
    by (intro mult_left_mono) simp_all
  with r have "x + a * (y + b * z) < a * b * c"
    by (simp add: algebra_simps)
  then show "box_index Nx Ny Nz t < (2 * Nx + 1) * (2 * Ny + 1) * (2 * Nz + 1)"
    unfolding idx a_def b_def c_def .
qed

lemma odometer_step_index:
  assumes "0 \<le> Nx" "0 \<le> Ny" "0 \<le> Nz" "in_box Nx Ny Nz t"
      and "box_index Nx Ny Nz t + 1 < (2 * Nx + 1) * (2 * Ny + 1) * (2 * Nz + 1)"
  shows "in_box Nx Ny Nz (odometer_step Nx Ny Nz t)"
    and "box_index Nx Ny Nz (odometer_step Nx Ny Nz t) = box_index Nx Ny Nz t + 1"
proof -
  obtain i j k where t: "t = (i, j, k)" by (cases t) auto
  have notlast: "\<not> (i = Nx \<and> j = Ny \<and> k = Nz)"
  proof
    assume "i = Nx \<and> j = Ny \<and> k = Nz"
    then have "box_index Nx Ny Nz t + 1 = (2 * Nx + 1) * (2 * Ny + 1) * (2 * Nz + 1)"
      by (simp add: box_index_def t algebra_simps)
    with assms(5) show False by simp
  qed
  from assms(4) have bnd: "i \<le> Nx" "j \<le> Ny" "k \<le> Nz"
    by (simp_all add: in_box_def t)
  consider "i < Nx" | "i = Nx" "j < Ny" | "i = Nx" "j = Ny" "k < Nz"
    using bnd notlast by atomize_elim presburger
  then show "in_box Nx Ny Nz (odometer_step Nx Ny Nz t)"
    and "box_index Nx Ny Nz (odometer_step Nx Ny Nz t) = box_index Nx Ny Nz t + 1"
  proof (atomize (full), cases)
    case 1
    with assms show "in_box Nx Ny Nz (odometer_step Nx Ny Nz t) \<and>
        box_index Nx Ny Nz (odometer_step Nx Ny Nz t) = box_index Nx Ny Nz t + 1"
      by (simp add: odometer_step_def Let_def in_box_def box_index_def t)
  next
    case 2
    with assms show "in_box Nx Ny Nz (odometer_step Nx Ny Nz t) \<and>
        box_index Nx Ny Nz (odometer_step Nx Ny Nz t) = box_index Nx Ny Nz t + 1"
      by (simp add: odometer_step_def Let_def in_box_def box_index_def t algebra_simps)
  next
    case 3
    with assms show "in_box Nx Ny Nz (odometer_step Nx Ny Nz t) \<and>
        box_index Nx Ny Nz (odometer_step Nx Ny Nz t) = box_index Nx Ny Nz t + 1"
      by (simp add: odometer_step_def Let_def in_box_def box_index_def t algebra_simps)
  qed
qed

lemma odometer_funpow_index:
  assumes "0 \<le> Nx" "0 \<le> Ny" "0 \<le> Nz"
  shows "int n < (2 * Nx + 1) * (2 * Ny + 1) * (2 * Nz + 1) \<Longrightarrow>
         in_box Nx Ny Nz (((odometer_step Nx Ny Nz) ^^ n) (- Nx, - Ny, - Nz)) \<and>
         box_index Nx Ny Nz (((odometer_step Nx Ny Nz) ^^ n) (- Nx, - Ny, - Nz)) = int n"
proof (induction n)
  case 0
  from assms show ?case
    by (simp add: in_box_def box_index_def)
next
  case (Suc n)
  let ?t = "((odometer_step Nx Ny Nz) ^^ n) (- Nx, - Ny, - Nz)"
  from Suc have ih: "in_box Nx Ny Nz ?t" "box_index Nx Ny Nz ?t = int n"
    by simp_all
  from Suc.prems ih(2) have "box_index Nx Ny Nz ?t + 1 < (2 * Nx + 1) * (2 * Ny + 1) * (2 * Nz + 1)"
    by simp
  from odometer_step_index[OF assms ih(1) this] ih(2) show ?case
    by simp
qed

lemma box_index_inj:
  assumes "0 \<le> Nx" "0 \<le> Ny" "0 \<le> Nz" "in_box Nx Ny Nz s" "in_box Nx Ny Nz t"
      and "box_index Nx Ny Nz s = box_index Nx Ny Nz t"
  shows "s = t"
proof -
  obtain i j k where s: "s = (i, j, k)" by (cases s) auto
  obtain i' j' k' where t: "t = (i', j', k')" by (cases t) auto
  define a b where "a = 2 * Nx + 1" and "b = 2 * Ny + 1"
  have eq: "(i + Nx) + a * ((j + Ny) + b * (k + Nz)) = (i' + Nx) + a * ((j' + Ny) + b * (k' + Nz))"
    using assms(6) by (simp add: box_index_def s t a_def b_def)
  from assms have r: "0 \<le> i + Nx" "i + Nx < a" "0 \<le> i' + Nx" "i' + Nx < a"
    "0 \<le> j + Ny" "j + Ny < b" "0 \<le> j' + Ny" "j' + Ny < b"
    by (simp_all add: in_box_def s t a_def b_def)
  have "(i + Nx) mod a = ((i + Nx) + a * ((j + Ny) + b * (k + Nz))) mod a"
    by simp
  also have "\<dots> = ((i' + Nx) + a * ((j' + Ny) + b * (k' + Nz))) mod a"
    by (simp only: eq)
  also have "\<dots> = (i' + Nx) mod a"
    by simp
  finally have i: "i = i'"
    using r by simp
  from r have "0 < a"
    by simp
  with eq i have eq2: "(j + Ny) + b * (k + Nz) = (j' + Ny) + b * (k' + Nz)"
    by simp
  have "(j + Ny) mod b = ((j + Ny) + b * (k + Nz)) mod b"
    by simp
  also have "\<dots> = ((j' + Ny) + b * (k' + Nz)) mod b"
    by (simp only: eq2)
  also have "\<dots> = (j' + Ny) mod b"
    by simp
  finally have j: "j = j'"
    using r by simp
  from r have "0 < b"
    by simp
  with eq2 j have "k = k'"
    by simp
  with i j show ?thesis
    by (simp add: s t)
qed

lemma lattice_bound_floor: "0 \<le> d_max / of_int L \<Longrightarrow> lattice_bound d_max L = \<lfloor>d_max / of_int L\<rfloor> + 1"
  by (simp add: lattice_bound_def int_of_float_nonneg)

lemma lattice_points_nth:
  fixes d_max room
  defines "Nx \<equiv> lattice_bound d_max (fst room)"
  defines "Ny \<equiv> lattice_bound d_max (fst (snd room))"
  defines "Nz \<equiv> lattice_bound d_max (snd (snd room))"
  assumes N: "0 \<le> Nx" "0 \<le> Ny" "0 \<le> Nz" and t: "in_box Nx Ny Nz t"
  shows "nat (box_index Nx Ny Nz t) < length (lattice_points d_max room)"
    and "lattice_points d_max room ! nat (box_index Nx Ny Nz t) = t"
proof -
  let ?n = "nat (box_index Nx Ny Nz t)"
  have lp: "lattice_points d_max room =
      lattice_loop (nat ((2 * Nx + 1) * (2 * Ny + 1) * (2 * Nz + 1))) Nx Ny Nz (- Nx, - Ny, - Nz)"
    by (simp add: lattice_points_def Nx_def Ny_def Nz_def Let_def split: prod.splits)
  note b = box_index_bounds[OF N t]
  from b show len: "?n < length (lattice_points d_max room)"
    by (simp add: lp)
  from b have "int ?n < (2 * Nx + 1) * (2 * Ny + 1) * (2 * Nz + 1)"
    by simp
  from odometer_funpow_index[OF N this] b(1)
  have f: "in_box Nx Ny Nz (((odometer_step Nx Ny Nz) ^^ ?n) (- Nx, - Ny, - Nz))"
    "box_index Nx Ny Nz (((odometer_step Nx Ny Nz) ^^ ?n) (- Nx, - Ny, - Nz)) = box_index Nx Ny Nz t"
    by simp_all
  have "lattice_points d_max room ! ?n = ((odometer_step Nx Ny Nz) ^^ ?n) (- Nx, - Ny, - Nz)"
    unfolding lp using len[unfolded lp] by (intro lattice_loop_nth) simp
  also have "\<dots> = t"
    using N f(1) t f(2) by (rule box_index_inj)
  finally show "lattice_points d_max room ! ?n = t" .
qed

subsection \<open>Further properties of the lattice generator\<close>

text \<open>
  The index block, for the bounds it computes. In a call of \<^verbatim>\<open>ims_shoebox_coreInit\<close>
  whose \<open>d_max\<close> or room differs from the cached one, each bound is
  \<^verbatim>\<open>(int)(d_max/room_dim + 1.0f)\<close>, which is \<open>floor (d_max / room_dim) + 1\<close> when the
  quotient is not negative; the lattice has \<open>(2Nx+1)(2Ny+1)(2Nz+1)\<close> points; and when the
  bounds are not negative, the triple \<open>(i, j, k)\<close> of the box stands at the index
  \<open>(i + Nx) + (2Nx+1) ((j + Ny) + (2Ny+1) (k + Nz))\<close> of \<^verbatim>\<open>II, JJ, KK\<close>: every triple of the
  box once, the first component running fastest, then the second, then the third.
\<close>

theorem coreInit_lattice_enumeration:
  fixes wrk room src rec maxTime_s c_ms
  defines "wrk' \<equiv> ims_shoebox_coreInit wrk room src rec maxTime_s c_ms"
  defines "d_max \<equiv> maxTime_s * c_ms"
  assumes outdated: "indices_outdated wrk room (maxTime_s * c_ms)"
  shows "wrk_Nx wrk' = int_of_float (d_max / of_int (fst room) + 1)
       \<and> wrk_Ny wrk' = int_of_float (d_max / of_int (fst (snd room)) + 1)
       \<and> wrk_Nz wrk' = int_of_float (d_max / of_int (snd (snd room)) + 1)
       \<and> (0 \<le> d_max / of_int (fst room) \<longrightarrow> wrk_Nx wrk' = \<lfloor>d_max / of_int (fst room)\<rfloor> + 1)
       \<and> (0 \<le> d_max / of_int (fst (snd room)) \<longrightarrow> wrk_Ny wrk' = \<lfloor>d_max / of_int (fst (snd room))\<rfloor> + 1)
       \<and> (0 \<le> d_max / of_int (snd (snd room)) \<longrightarrow> wrk_Nz wrk' = \<lfloor>d_max / of_int (snd (snd room))\<rfloor> + 1)
       \<and> wrk_lengthVec wrk' = (2 * wrk_Nx wrk' + 1) * (2 * wrk_Ny wrk' + 1) * (2 * wrk_Nz wrk' + 1)
       \<and> length (wrk_II wrk') = nat (wrk_lengthVec wrk')
       \<and> length (wrk_JJ wrk') = nat (wrk_lengthVec wrk')
       \<and> length (wrk_KK wrk') = nat (wrk_lengthVec wrk')
       \<and> (0 \<le> wrk_Nx wrk' \<and> 0 \<le> wrk_Ny wrk' \<and> 0 \<le> wrk_Nz wrk' \<longrightarrow>
            (\<forall>i j k. - wrk_Nx wrk' \<le> i \<and> i \<le> wrk_Nx wrk' \<and> - wrk_Ny wrk' \<le> j \<and> j \<le> wrk_Ny wrk'
                      \<and> - wrk_Nz wrk' \<le> k \<and> k \<le> wrk_Nz wrk' \<longrightarrow>
               (let n = nat ((i + wrk_Nx wrk') + (2 * wrk_Nx wrk' + 1)
                               * ((j + wrk_Ny wrk') + (2 * wrk_Ny wrk' + 1) * (k + wrk_Nz wrk')))
                in n < nat (wrk_lengthVec wrk') \<and> wrk_II wrk' ! n = of_int i
                   \<and> wrk_JJ wrk' ! n = of_int j \<and> wrk_KK wrk' ! n = of_int k)))"
proof -
  note cb = coreInit_bounds[OF outdated, of src rec, folded wrk'_def d_max_def]
  have upd: "wrk_II wrk' = wrk_II (coreInit_updateIndices wrk room d_max)"
    "wrk_JJ wrk' = wrk_JJ (coreInit_updateIndices wrk room d_max)"
    "wrk_KK wrk' = wrk_KK (coreInit_updateIndices wrk room d_max)"
    "wrk_lengthVec wrk' = wrk_lengthVec (coreInit_updateIndices wrk room d_max)"
    using outdated
    by (simp_all add: wrk'_def d_max_def ims_shoebox_coreInit_def Let_def updateEchogram_fields)
  note lat = updateIndices_lattice[of wrk room d_max]
  have arr: "wrk_II wrk' = map (\<lambda>t. of_int (fst t)) (lattice_points d_max room)"
    "wrk_JJ wrk' = map (\<lambda>t. of_int (fst (snd t))) (lattice_points d_max room)"
    "wrk_KK wrk' = map (\<lambda>t. of_int (snd (snd t))) (lattice_points d_max room)"
    "nat (wrk_lengthVec wrk') = length (lattice_points d_max room)"
    by (simp_all only: upd lat)
  have a: "wrk_Nx wrk' = int_of_float (d_max / of_int (fst room) + 1)"
    "wrk_Ny wrk' = int_of_float (d_max / of_int (fst (snd room)) + 1)"
    "wrk_Nz wrk' = int_of_float (d_max / of_int (snd (snd room)) + 1)"
    by (simp_all add: cb lattice_bound_def)
  have b: "wrk_Nx wrk' = \<lfloor>d_max / of_int (fst room)\<rfloor> + 1" if "0 \<le> d_max / of_int (fst room)"
    using that by (simp add: cb lattice_bound_floor)
  have c: "wrk_Ny wrk' = \<lfloor>d_max / of_int (fst (snd room))\<rfloor> + 1" if "0 \<le> d_max / of_int (fst (snd room))"
    using that by (simp add: cb lattice_bound_floor)
  have d: "wrk_Nz wrk' = \<lfloor>d_max / of_int (snd (snd room))\<rfloor> + 1" if "0 \<le> d_max / of_int (snd (snd room))"
    using that by (simp add: cb lattice_bound_floor)
  have e: "wrk_lengthVec wrk' = (2 * wrk_Nx wrk' + 1) * (2 * wrk_Ny wrk' + 1) * (2 * wrk_Nz wrk' + 1)"
    by (simp add: cb)
  have f: "length (wrk_II wrk') = nat (wrk_lengthVec wrk')" "length (wrk_JJ wrk') = nat (wrk_lengthVec wrk')"
    "length (wrk_KK wrk') = nat (wrk_lengthVec wrk')"
    by (simp_all add: arr)
  have g: "let n = nat ((i + wrk_Nx wrk') + (2 * wrk_Nx wrk' + 1)
                               * ((j + wrk_Ny wrk') + (2 * wrk_Ny wrk' + 1) * (k + wrk_Nz wrk')))
                in n < nat (wrk_lengthVec wrk') \<and> wrk_II wrk' ! n = of_int i
                   \<and> wrk_JJ wrk' ! n = of_int j \<and> wrk_KK wrk' ! n = of_int k"
    if N: "0 \<le> wrk_Nx wrk'" "0 \<le> wrk_Ny wrk'" "0 \<le> wrk_Nz wrk'"
      and box: "- wrk_Nx wrk' \<le> i" "i \<le> wrk_Nx wrk'" "- wrk_Ny wrk' \<le> j" "j \<le> wrk_Ny wrk'"
        "- wrk_Nz wrk' \<le> k" "k \<le> wrk_Nz wrk'" for i j k
  proof -
    have ib: "in_box (lattice_bound d_max (fst room)) (lattice_bound d_max (fst (snd room)))
                (lattice_bound d_max (snd (snd room))) (i, j, k)"
      using box by (simp add: in_box_def cb)
    note nth = lattice_points_nth[OF N[unfolded cb] ib]
    have idx: "box_index (lattice_bound d_max (fst room)) (lattice_bound d_max (fst (snd room)))
                (lattice_bound d_max (snd (snd room))) (i, j, k)
        = (i + wrk_Nx wrk') + (2 * wrk_Nx wrk' + 1)
                               * ((j + wrk_Ny wrk') + (2 * wrk_Ny wrk' + 1) * (k + wrk_Nz wrk'))"
      by (simp add: box_index_def cb)
    from nth show ?thesis
      unfolding idx Let_def arr by simp
  qed
  from a b c d e f g show ?thesis
    by blast
qed

theorem coreInit_lattice_enumeration_witness:
  "indices_outdated (ims_shoebox_coreWorkspaceCreate 1) (8, 8, 8) (3 / 2 * 4)
   \<and> wrk_Nx example_wrk = 1 \<and> wrk_Ny example_wrk = 1 \<and> wrk_Nz example_wrk = 1
   \<and> wrk_lengthVec example_wrk = 27
   \<and> wrk_II example_wrk ! 14 = 1 \<and> wrk_JJ example_wrk ! 14 = 0 \<and> wrk_KK example_wrk ! 14 = 0"
proof -
  have o: "indices_outdated (ims_shoebox_coreWorkspaceCreate 1) (8, 8, 8) (3 / 2 * 4)"
    by (simp add: indices_outdated_def ims_shoebox_coreWorkspaceCreate_def)
  have d: "3 / 2 * 4 = (6::real)"
    by simp
  note cb = coreInit_bounds[OF o, of "Pos (11 / 2) 6 4" "Pos (5 / 2) 6 4", unfolded d]
  have N: "wrk_Nx example_wrk = 1" "wrk_Ny example_wrk = 1" "wrk_Nz example_wrk = 1"
    unfolding cb by (simp_all add: lattice_bound_example)
  note inst = coreInit_lattice_enumeration[where wrk = "ims_shoebox_coreWorkspaceCreate 1"
      and room = "(8, 8, 8)" and src = "Pos (11 / 2) 6 4" and rec = "Pos (5 / 2) 6 4"
      and maxTime_s = "3 / 2" and c_ms = 4, OF o, unfolded N]
  have q: "(0::int) \<le> 1 \<and> (0::int) \<le> 1 \<and> (0::int) \<le> 1"
    by simp
  have p: "- 1 \<le> (1::int) \<and> (1::int) \<le> 1 \<and> - 1 \<le> (0::int) \<and> (0::int) \<le> 1 \<and> - 1 \<le> (0::int) \<and> (0::int) \<le> 1"
    by simp
  from inst q p have "let n = nat ((1 + 1) + (2 * 1 + 1) * ((0 + 1) + (2 * 1 + 1) * (0 + 1)))
                in n < nat (wrk_lengthVec example_wrk) \<and> wrk_II example_wrk ! n = of_int 1
                   \<and> wrk_JJ example_wrk ! n = of_int 0 \<and> wrk_KK example_wrk ! n = of_int 0"
    by blast
  then have "wrk_II example_wrk ! 14 = 1 \<and> wrk_JJ example_wrk ! 14 = 0 \<and> wrk_KK example_wrk ! 14 = 0"
    by (simp add: Let_def)
  with o N example_wrk_values(2) show ?thesis
    by (simp only: simp_thms)
qed

text \<open>
  The echogram block, when it runs. In a call of \<^verbatim>\<open>ims_shoebox_coreInit\<close> in which the
  room-centred source or receiver differs from the cached one, the cache takes the new
  room and centred positions (x and z as \<open>p - L/2\<close>, y as \<open>L/2 - p\<close>), and at every lattice
  index each coordinate is \<open>I * L + powf(-1, I) * src - rec\<close> for the stored index \<open>I\<close> of
  its axis, where \<open>powf(-1, I)\<close> is 1 for an even and -1 for an odd integer \<open>I\<close>; the
  distance is the Euclidean norm of the three coordinates.
\<close>

theorem coreInit_recomputes_image_sources:
  fixes wrk room src rec maxTime_s c_ms
  defines "wrk' \<equiv> ims_shoebox_coreInit wrk room src rec maxTime_s c_ms"
  defines "s \<equiv> Pos (pos_x src - of_int (fst room) / 2) (of_int (fst (snd room)) / 2 - pos_y src)
                    (pos_z src - of_int (snd (snd room)) / 2)"
  defines "r \<equiv> Pos (pos_x rec - of_int (fst room) / 2) (of_int (fst (snd room)) / 2 - pos_y rec)
                    (pos_z rec - of_int (snd (snd room)) / 2)"
  assumes recomputed: "wrk_rec wrk \<noteq> r \<or> wrk_src wrk \<noteq> s"
  shows "wrk_room wrk' = room \<and> wrk_src wrk' = s \<and> wrk_rec wrk' = r
       \<and> (\<forall>imsrc. imsrc < nat (wrk_lengthVec wrk') \<longrightarrow>
            wrk_s_x wrk' ! imsrc = wrk_II wrk' ! imsrc * of_int (fst room)
                                   + powf (- 1) (wrk_II wrk' ! imsrc) * pos_x s - pos_x r
          \<and> wrk_s_y wrk' ! imsrc = wrk_JJ wrk' ! imsrc * of_int (fst (snd room))
                                   + powf (- 1) (wrk_JJ wrk' ! imsrc) * pos_y s - pos_y r
          \<and> wrk_s_z wrk' ! imsrc = wrk_KK wrk' ! imsrc * of_int (snd (snd room))
                                   + powf (- 1) (wrk_KK wrk' ! imsrc) * pos_z s - pos_z r
          \<and> wrk_s_d wrk' ! imsrc = sqrt ((wrk_s_x wrk' ! imsrc)\<^sup>2 + (wrk_s_y wrk' ! imsrc)\<^sup>2
                                          + (wrk_s_z wrk' ! imsrc)\<^sup>2))
       \<and> (\<forall>i. powf (- 1) (of_int i) = (if even i then 1 else - 1))"
proof -
  have c: "room_centred room src = s" "room_centred room rec = r"
    by (simp_all add: room_centred_def s_def r_def split: prod.splits)
  define wrk1 where "wrk1 = (if indices_outdated wrk room (maxTime_s * c_ms)
        then coreInit_updateIndices wrk room (maxTime_s * c_ms) else wrk)"
  have eq: "wrk' = coreInit_updateEchogram wrk1 room s r (maxTime_s * c_ms) c_ms"
    unfolding wrk'_def wrk1_def c[symmetric] using recomputed[folded c] by (rule coreInit_recomputed)
  have f: "wrk_room wrk' = room" "wrk_src wrk' = s" "wrk_rec wrk' = r"
    "wrk_lengthVec wrk' = wrk_lengthVec wrk1" "wrk_II wrk' = wrk_II wrk1" "wrk_JJ wrk' = wrk_JJ wrk1"
    "wrk_KK wrk' = wrk_KK wrk1"
    by (simp_all add: eq updateEchogram_fields)
  note arr = updateEchogram_arrays[of wrk1 room s r "maxTime_s * c_ms" c_ms, folded eq]
  note sd = updateEchogram_s_d[of wrk1 room s r "maxTime_s * c_ms" c_ms, folded eq]
  have g: "wrk_s_x wrk' ! imsrc = wrk_II wrk' ! imsrc * of_int (fst room)
                                   + powf (- 1) (wrk_II wrk' ! imsrc) * pos_x s - pos_x r
          \<and> wrk_s_y wrk' ! imsrc = wrk_JJ wrk' ! imsrc * of_int (fst (snd room))
                                   + powf (- 1) (wrk_JJ wrk' ! imsrc) * pos_y s - pos_y r
          \<and> wrk_s_z wrk' ! imsrc = wrk_KK wrk' ! imsrc * of_int (snd (snd room))
                                   + powf (- 1) (wrk_KK wrk' ! imsrc) * pos_z s - pos_z r
          \<and> wrk_s_d wrk' ! imsrc = sqrt ((wrk_s_x wrk' ! imsrc)\<^sup>2 + (wrk_s_y wrk' ! imsrc)\<^sup>2
                                          + (wrk_s_z wrk' ! imsrc)\<^sup>2)"
    if "imsrc < nat (wrk_lengthVec wrk')" for imsrc
  proof -
    from that have i: "imsrc < nat (wrk_lengthVec wrk1)"
      by (simp add: f)
    have "wrk_s_d wrk' ! imsrc = image_dist (wrk_s_x wrk' ! imsrc) (wrk_s_y wrk' ! imsrc) (wrk_s_z wrk' ! imsrc)"
      using i by (subst sd) simp
    moreover have "wrk_s_x wrk' ! imsrc = image_coord (wrk_II wrk1 ! imsrc) (fst room) (pos_x s) (pos_x r)"
      "wrk_s_y wrk' ! imsrc = image_coord (wrk_JJ wrk1 ! imsrc) (fst (snd room)) (pos_y s) (pos_y r)"
      "wrk_s_z wrk' ! imsrc = image_coord (wrk_KK wrk1 ! imsrc) (snd (snd room)) (pos_z s) (pos_z r)"
      using i by (simp_all add: arr)
    ultimately show ?thesis
      by (simp add: image_dist_sqrt image_coord_def f)
  qed
  from f(1,2,3) g powf_minus_one_int show ?thesis
    by blast
qed

theorem coreInit_recomputes_image_sources_witness:
  "wrk_rec (ims_shoebox_coreWorkspaceCreate 1) \<noteq> Pos (- 3 / 2) (- 2) 0
   \<and> wrk_src example_wrk = Pos (3 / 2) (- 2) 0
   \<and> wrk_rec example_wrk = Pos (- 3 / 2) (- 2) 0
   \<and> wrk_room example_wrk = (8, 8, 8)
   \<and> wrk_s_y example_wrk ! 10 = - 4"
proof -
  have h: "wrk_rec (ims_shoebox_coreWorkspaceCreate 1) \<noteq> Pos (- 3 / 2) (- 2) 0"
    by (simp add: ims_shoebox_coreWorkspaceCreate_def)
  have c: "Pos (pos_x (Pos (5 / 2) 6 4) - of_int (fst (8, 8, 8)) / 2)
               (of_int (fst (snd (8, 8, 8))) / 2 - pos_y (Pos (5 / 2) 6 4))
               (pos_z (Pos (5 / 2) 6 4) - of_int (snd (snd (8, 8, 8))) / 2) = Pos (- 3 / 2) (- 2) 0"
    "Pos (pos_x (Pos (11 / 2) 6 4) - of_int (fst (8, 8, 8)) / 2)
               (of_int (fst (snd (8, 8, 8))) / 2 - pos_y (Pos (11 / 2) 6 4))
               (pos_z (Pos (11 / 2) 6 4) - of_int (snd (snd (8, 8, 8))) / 2) = Pos (3 / 2) (- 2) 0"
    by simp_all
  note inst = coreInit_recomputes_image_sources[where wrk = "ims_shoebox_coreWorkspaceCreate 1"
      and room = "(8, 8, 8)" and src = "Pos (11 / 2) 6 4" and rec = "Pos (5 / 2) 6 4"
      and maxTime_s = "3 / 2" and c_ms = 4, unfolded c, OF disjI1, OF h]
  from inst have "wrk_room example_wrk = (8, 8, 8)" "wrk_src example_wrk = Pos (3 / 2) (- 2) 0"
    "wrk_rec example_wrk = Pos (- 3 / 2) (- 2) 0"
    by blast+
  moreover have "wrk_s_y example_wrk ! 10 = - 4"
    unfolding example_s_y by simp
  ultimately show ?thesis
    using h by (simp only: simp_thms)
qed

text \<open>
  The order stored for an arrival is \<^verbatim>\<open>(int)(II[imsrc] + 0.5f)\<close> per axis. The cast
  truncates towards zero, so a lattice index \<open>i \<ge> 0\<close> is stored as \<open>i\<close> and a negative
  one as \<open>i + 1\<close>.
\<close>

theorem order_cast_truncates:
  "int_of_float (of_int i + 0.5) = (if 0 \<le> i then i else i + 1)"
proof (cases "0 \<le> i")
  case True
  then have "(0::real) \<le> of_int i + 0.5"
    by simp
  moreover have "\<lfloor>of_int i + 0.5 :: real\<rfloor> = i"
    by (simp add: floor_eq_iff)
  ultimately show ?thesis
    using True by (simp add: int_of_float_def)
next
  case False
  then have "real_of_int i \<le> - 1"
    by linarith
  then have "\<not> (0::real) \<le> of_int i + 0.5"
    by simp
  moreover have "\<lceil>of_int i + 0.5 :: real\<rceil> = i + 1"
    by (simp add: ceiling_eq_iff)
  ultimately show ?thesis
    using False by (simp add: int_of_float_def)
qed

theorem order_cast_truncates_witness:
  "int_of_float (of_int (- 1) + 0.5) = 0 \<and> int_of_float (of_int 2 + 0.5) = 2
   \<and> ec_order (wrk_hEchogram example_wrk) = [(0, 0, 0), (0, 0, 0)]"
  using order_cast_truncates[of "- 1"] order_cast_truncates[of 2] example_echogram(3)
  by simp

end
